theory Spec2Isabelle
  imports Main "HOL-Library.Sublist"
begin

section \<open>The message-routing pipeline of the chatbot (lib/chatbot.ts)\<close>

text \<open>
  The theory embeds the latest variant of the pipeline, the one with the stages
  \<^verbatim>\<open>EvaluateQuery\<close>, \<^verbatim>\<open>GenerateDirectResponse\<close>, \<^verbatim>\<open>ExecuteMCPCall\<close>,
  \<^verbatim>\<open>FormatResponse\<close>, \<^verbatim>\<open>Chatbot\<close> and \<^verbatim>\<open>processMessage\<close> around the model
  client \<^verbatim>\<open>callOpenAI\<close>.

  Conventions of the embedding.
  \<^item> A JavaScript string is a \<^typ>\<open>string\<close>; its characters are code units below 256.
    The pictograph that opens most log lines of the source is left out of the log texts.
  \<^item> A value produced by \<^verbatim>\<open>JSON.parse\<close> is a \<open>json\<close>; numbers are restricted to integers.
    \<^verbatim>\<open>undefined\<close> is \<open>None\<close> of a \<open>json option\<close>.
  \<^item> An \<^verbatim>\<open>async\<close> function is a function from the trace of effects so far to its
    outcome and the extended trace. The outcome \<open>Inl m\<close> is a rejected promise (a thrown
    \<^verbatim>\<open>Error\<close> with message \<open>m\<close>), \<open>Inr v\<close> a fulfilled one.
  \<^item> The effects recorded are the lines handed to the log sink \<^verbatim>\<open>setLogs\<close> and the
    HTTP requests issued with \<^verbatim>\<open>fetch\<close>. Output on the console is not recorded.
  \<^item> The log sink is the parameter \<^verbatim>\<open>setLogs\<close> of every function, as in the source.
    Whether it returns or throws on a line depends on the line alone, not on the calls
    before; what it throws is an \<^verbatim>\<open>Error\<close>, or a value that \<^verbatim>\<open>String\<close> converts.
  \<^item> The platform functions \<^verbatim>\<open>JSON.parse\<close> and \<^verbatim>\<open>JSON.stringify\<close>, the rendering of a
    number as a string and the answers of the two HTTP endpoints are parameters,
    collected in the record \<open>env\<close>. The answer of the
    model endpoint is a function of the request (the prompt and the flag \<open>useJson\<close>), and
    the properties below hold for every such function.
\<close>

subsection \<open>Values\<close>

datatype json =
    JNull
  | JBool bool
  | JNum int
  | JStr string
  | JArr "json list"
  | JObj "(string \<times> json) list"

datatype role = user | assistant | system

record Message =
  role :: role
  content :: string

text \<open>
  The registry \<^verbatim>\<open>mcpConfigs: Record<string, any>\<close> is the list of its own properties in the
  order in which \<^verbatim>\<open>Object.keys\<close> and \<^verbatim>\<open>Object.entries\<close> enumerate them.
\<close>

type_synonym registry = "(string \<times> json) list"

datatype event =
    SetLogs string
  | FetchCompletion string bool
  | FetchConfig

type_synonym trace = "event list"

type_synonym 'a outcome = "(string + 'a) \<times> trace"

text \<open>
  The log sink \<^verbatim>\<open>setLogs: (log: string) => void\<close>: on a line it returns (\<open>None\<close>) or throws
  (\<open>Some err\<close>, where \<open>err\<close> is the text that
  \<^verbatim>\<open>error instanceof Error ? error.message : String(error)\<close> gives for what it throws).
\<close>

type_synonym sink = "string \<Rightarrow> string option"

text \<open>
  What the POST to the chat-completion endpoint does inside the \<^verbatim>\<open>try\<close> block of
  \<^verbatim>\<open>callOpenAI\<close>:
  \<^item> \<open>FetchThrows m\<close>: an exception with message \<open>m\<close> (the request was rejected, a body
    was not JSON, or \<^verbatim>\<open>data.choices[0].message.content\<close> could not be read);
  \<^item> \<open>FetchNotOk em st\<close>: \<^verbatim>\<open>response.ok\<close> is false, \<open>em\<close> is
    \<^verbatim>\<open>errorData.error?.message\<close> and \<open>st\<close> is \<^verbatim>\<open>response.statusText\<close>;
  \<^item> \<open>FetchOk content\<close>: success, \<open>content\<close> is \<^verbatim>\<open>data.choices[0].message.content\<close>,
    which the endpoint gives as a string or as \<^verbatim>\<open>null\<close> (\<open>None\<close>).
\<close>

datatype fetch_result =
    FetchThrows string
  | FetchNotOk "string option" string
  | FetchOk "string option"

text \<open>
  What the GET of \<^verbatim>\<open>/config.json\<close> does in \<^verbatim>\<open>processMessage\<close>: an exception, a response
  that is not ok (with its status text), or a document whose \<^verbatim>\<open>mcpServers\<close> member is the
  registry (\<open>None\<close> when the document has no such member).
\<close>

datatype config_result =
    ConfigThrows string
  | ConfigNotOk string
  | ConfigOk "registry option"

record env =
  JSON_parse :: "string \<Rightarrow> json option"
  JSON_stringify :: "json \<Rightarrow> string"
  JSON_stringify_indent :: "json \<Rightarrow> string"
  Number_toString :: "int \<Rightarrow> string"
  completion :: "string \<Rightarrow> bool \<Rightarrow> fetch_result"
  config_json :: config_result

subsection \<open>JavaScript primitives used by the pipeline\<close>

text \<open>Truthiness, of a value and of a possibly undefined value.\<close>

fun truthy_json :: "json \<Rightarrow> bool" where
  "truthy_json JNull = False"
| "truthy_json (JBool b) = b"
| "truthy_json (JNum n) = (n \<noteq> 0)"
| "truthy_json (JStr s) = (s \<noteq> [])"
| "truthy_json (JArr xs) = True"
| "truthy_json (JObj kvs) = True"

fun truthy :: "json option \<Rightarrow> bool" where
  "truthy None = False"
| "truthy (Some v) = truthy_json v"

text \<open>\<^verbatim>\<open>!apiKey\<close> for \<^verbatim>\<open>apiKey: string | null\<close>.\<close>

fun truthy_key :: "string option \<Rightarrow> bool" where
  "truthy_key None = False"
| "truthy_key (Some k) = (k \<noteq> [])"

text \<open>
  Reading a property of a value other than \<^verbatim>\<open>null\<close>. Only the names \<^verbatim>\<open>needsMCP\<close>,
  \<^verbatim>\<open>serverName\<close> and \<^verbatim>\<open>reasoning\<close> are read, which no prototype defines, so everything
  but an object answers \<^verbatim>\<open>undefined\<close>.
\<close>

fun get_prop :: "json \<Rightarrow> string \<Rightarrow> json option" where
  "get_prop (JObj kvs) k = map_of kvs k"
| "get_prop v k = None"

text \<open>The assignment \<^verbatim>\<open>obj[k] = v\<close>: an existing property keeps its place, a new one goes last.\<close>

fun assign :: "(string \<times> json) list \<Rightarrow> string \<Rightarrow> json \<Rightarrow> (string \<times> json) list" where
  "assign [] k v = [(k, v)]"
| "assign (p # ps) k v = (if fst p = k then (k, v) # ps else p # assign ps k v)"

fun set_prop :: "json \<Rightarrow> string \<Rightarrow> json \<Rightarrow> json" where
  "set_prop (JObj kvs) k v = JObj (assign kvs k v)"
| "set_prop w k v = w"

text \<open>\<^verbatim>\<open>Array.prototype.join\<close> on strings.\<close>

fun join :: "string \<Rightarrow> string list \<Rightarrow> string" where
  "join sep [] = []"
| "join sep [x] = x"
| "join sep (x # y # ys) = x @ sep @ join sep (y # ys)"

text \<open>The decimal digits of a length (\<^verbatim>\<open>response.length\<close> in a template literal).\<close>

definition digit :: "nat \<Rightarrow> char" where
  "digit d = char_of (48 + d)"

fun show_nat :: "nat \<Rightarrow> string" where
  "show_nat n = (if n < 10 then [digit n] else show_nat (n div 10) @ [digit (n mod 10)])"

declare show_nat.simps [simp del]

text \<open>
  The conversion to a string that a template literal and a property key apply; \<open>None\<close> is
  the \<^verbatim>\<open>TypeError\<close> of a conversion that fails.
  \<^item> A number is rendered by the platform (\<open>Number_toString\<close>).
  \<^item> An array is joined with commas; an element \<^verbatim>\<open>null\<close> is rendered as the empty string,
    and the conversion of the array fails when that of an element does.
  \<^item> An object without an own property \<^verbatim>\<open>toString\<close> inherits the method that answers
    \<^verbatim>\<open>[object Object]\<close>. An own property \<^verbatim>\<open>toString\<close> of a parsed object is never a
    function; the method \<^verbatim>\<open>valueOf\<close>, own or inherited, gives no primitive value either,
    so the conversion fails.
\<close>

definition to_primitive_error :: string where
  "to_primitive_error = ''Cannot convert object to primitive value''"

fun js_to_string :: "env \<Rightarrow> json \<Rightarrow> string option"
  and js_elements :: "env \<Rightarrow> json list \<Rightarrow> string list option" where
  "js_to_string e JNull = Some ''null''"
| "js_to_string e (JBool b) = Some (if b then ''true'' else ''false'')"
| "js_to_string e (JNum n) = Some (Number_toString e n)"
| "js_to_string e (JStr s) = Some s"
| "js_to_string e (JArr xs) = map_option (join '','') (js_elements e xs)"
| "js_to_string e (JObj kvs) =
     (if map_of kvs ''toString'' \<noteq> None then None else Some ''[object Object]'')"
| "js_elements e [] = Some []"
| "js_elements e (x # xs) =
     (case (if x = JNull then Some [] else js_to_string e x) of
        None \<Rightarrow> None
      | Some s \<Rightarrow> map_option ((#) s) (js_elements e xs))"

fun display :: "env \<Rightarrow> json option \<Rightarrow> string option" where
  "display e None = Some ''undefined''"
| "display e (Some v) = js_to_string e v"

text \<open>
  White space as \<^verbatim>\<open>\s\<close> and \<^verbatim>\<open>trim\<close> see it, among the code units below 256: tab, line
  feed, vertical tab, form feed, carriage return, space and no-break space.
\<close>

definition is_space :: "char \<Rightarrow> bool" where
  "is_space c = (c = CHR 0x09 \<or> c = CHR 0x0A \<or> c = CHR 0x0B \<or> c = CHR 0x0C \<or> c = CHR 0x0D
     \<or> c = CHR 0x20 \<or> c = CHR 0xA0)"

definition trim :: "string \<Rightarrow> string" where
  "trim s = rev (dropWhile is_space (rev (dropWhile is_space s)))"

subsection \<open>Calls of the log sink, sequencing and \<^verbatim>\<open>try\<close>\<close>

text \<open>
  \<open>say setLogs lines\<close>: the calls \<^verbatim>\<open>setLogs(line)\<close> for the lines in turn. Every call is
  recorded; the first one that throws ends the sequence with its error.
\<close>

fun say :: "sink \<Rightarrow> string list \<Rightarrow> trace \<Rightarrow> unit outcome" where
  "say setLogs [] t = (Inr (), t)"
| "say setLogs (line # lines) t =
     (case setLogs line of
        Some err \<Rightarrow> (Inl err, t @ [SetLogs line])
      | None \<Rightarrow> say setLogs lines (t @ [SetLogs line]))"

text \<open>Statements in sequence: what follows runs only when what comes first did not throw.\<close>

definition and_then :: "unit outcome \<Rightarrow> (trace \<Rightarrow> 'a outcome) \<Rightarrow> 'a outcome" where
  "and_then r continue =
     (case r of (Inl err, t) \<Rightarrow> (Inl err, t) | (Inr u, t) \<Rightarrow> continue t)"

text \<open>\<^verbatim>\<open>try { body } catch (error) { handler }\<close>.\<close>

definition try_catch :: "'a outcome \<Rightarrow> (string \<Rightarrow> trace \<Rightarrow> 'a outcome) \<Rightarrow> 'a outcome" where
  "try_catch body handler =
     (case body of (Inl err, t) \<Rightarrow> handler err t | (Inr v, t) \<Rightarrow> (Inr v, t))"

text \<open>The log sink that returns on every line.\<close>

definition quiet :: sink where
  "quiet = (\<lambda>line. None)"

subsection \<open>The three regular expressions of the response parser\<close>

text \<open>
  Each function gives the first capture group of the leftmost match, \<open>None\<close> when the
  expression does not match. A search tries the start positions from left to right.

  \<open>ws_fence s\<close>: the tail \<^verbatim>\<open>\s*```\<close> of the first two expressions matches at the head of
  \<open>s\<close>. The greedy \<^verbatim>\<open>\s*\<close> takes all the white space; giving some of it back cannot help,
  since a backquote is not white space.
\<close>

definition ws_fence :: "string \<Rightarrow> bool" where
  "ws_fence s = prefix ''```'' (dropWhile is_space s)"

text \<open>
  \<open>lazy_capture s\<close>: \<^verbatim>\<open>([\s\S]*?)\s*```\<close> at the head of \<open>s\<close>. The lazy group first tries to
  stop, and takes one more character only when the rest does not match.
\<close>

fun lazy_capture :: "string \<Rightarrow> string option" where
  "lazy_capture [] = None"
| "lazy_capture (c # cs) =
     (if ws_fence (c # cs) then Some []
      else map_option ((#) c) (lazy_capture cs))"

text \<open>
  \<^verbatim>\<open>/```json\s*([\s\S]*?)\s*```/\<close> and \<^verbatim>\<open>/```\s*([\s\S]*?)\s*```/\<close> differ in their opening
  only. \<open>match_opened opening s\<close> searches \<open>s\<close> for the opening followed by
  \<^verbatim>\<open>\s*([\s\S]*?)\s*```\<close>. After the opening, the greedy \<^verbatim>\<open>\s*\<close> takes all the white
  space (lemma \<open>lazy_capture_spaces\<close> below: giving some back never turns a failure into a
  match). A start position where the rest does not match is passed over.
\<close>

fun match_opened :: "string \<Rightarrow> string \<Rightarrow> string option" where
  "match_opened opening [] = None"
| "match_opened opening (c # cs) =
     (if prefix opening (c # cs) then
        (case lazy_capture (dropWhile is_space (drop (length opening) (c # cs))) of
           Some cap \<Rightarrow> Some cap
         | None \<Rightarrow> match_opened opening cs)
      else match_opened opening cs)"

definition match_json_fence :: "string \<Rightarrow> string option" where
  "match_json_fence = match_opened ''```json''"

definition match_fence :: "string \<Rightarrow> string option" where
  "match_fence = match_opened ''```''"

text \<open>
  \<^verbatim>\<open>/(\{[\s\S]*\})/\<close>. \<open>greedy_to_brace cs\<close>: the greedy \<^verbatim>\<open>[\s\S]*\}\<close> at the head of \<open>cs\<close>
  runs to the end and comes back to the last closing brace.
\<close>

definition greedy_to_brace :: "string \<Rightarrow> string option" where
  "greedy_to_brace cs =
     (let r = dropWhile (\<lambda>c. c \<noteq> CHR ''}'') (rev cs)
      in if r = [] then None else Some (rev r))"

fun match_braces :: "string \<Rightarrow> string option" where
  "match_braces [] = None"
| "match_braces (c # cs) =
     (if c = CHR ''{'' then
        (case greedy_to_brace cs of
           Some body \<Rightarrow> Some (c # body)
         | None \<Rightarrow> match_braces cs)
      else match_braces cs)"

text \<open>\<^verbatim>\<open>a || b\<close> on match results.\<close>

fun or_else :: "'a option \<Rightarrow> 'a option \<Rightarrow> 'a option" where
  "or_else (Some x) y = Some x"
| "or_else None y = y"

subsection \<open>The model client\<close>

definition sentinel_raw :: "string \<Rightarrow> json" where
  "sentinel_raw resultText = JObj
     [(''needsMCP'', JBool False),
      (''reasoning'',
       JStr (''Fallback due to JSON parsing error. Raw response: '' @ take 100 resultText))]"

definition sentinel_none :: json where
  "sentinel_none = JObj
     [(''needsMCP'', JBool False),
      (''reasoning'', JStr ''Fallback due to JSON parsing error. No JSON pattern found.'')]"

text \<open>
  The branch \<^verbatim>\<open>if (useJson) { ... }\<close> of \<^verbatim>\<open>callOpenAI\<close>, the response parser; \<open>None\<close> of
  \<open>JSON_parse\<close> is the \<^verbatim>\<open>SyntaxError\<close> that the two \<^verbatim>\<open>catch\<close> clauses receive.
\<close>

definition jsonMatch :: "string \<Rightarrow> string option" where
  "jsonMatch resultText =
     or_else (match_json_fence resultText)
       (or_else (match_fence resultText) (match_braces resultText))"

text \<open>
  The body of the outer \<^verbatim>\<open>catch (e)\<close> clause on the match \<open>m\<close>: the test
  \<^verbatim>\<open>jsonMatch && jsonMatch[1]\<close> fails on no match and on an empty capture.
\<close>

definition parse_extracted :: "env \<Rightarrow> string \<Rightarrow> string option \<Rightarrow> json" where
  "parse_extracted e resultText m =
     (case m of
        Some cap \<Rightarrow>
          (if cap \<noteq> [] then
             (case JSON_parse e (trim cap) of
                Some v \<Rightarrow> v
              | None \<Rightarrow> sentinel_raw resultText)
           else sentinel_none)
      | None \<Rightarrow> sentinel_none)"

definition parse_response :: "env \<Rightarrow> string \<Rightarrow> json" where
  "parse_response e resultText =
     (case JSON_parse e resultText of
        Some v \<Rightarrow> v
      | None \<Rightarrow> parse_extracted e resultText (jsonMatch resultText))"

definition apology :: string where
  "apology = ''I apologize, but I encountered an error while processing your request. Could you try rephrasing your question?''"

text \<open>The \<^verbatim>\<open>catch (error)\<close> clause of \<^verbatim>\<open>callOpenAI\<close>.\<close>

definition client_fallback :: "bool \<Rightarrow> string \<Rightarrow> json" where
  "client_fallback useJson msg =
     (if useJson then
        JObj [(''needsMCP'', JBool False),
              (''reasoning'', JStr (''Fallback due to error: '' @ msg))]
      else JStr apology)"

text \<open>\<^verbatim>\<open>errorData.error?.message || response.statusText\<close>.\<close>

fun upstream_text :: "string option \<Rightarrow> string \<Rightarrow> string" where
  "upstream_text None st = st"
| "upstream_text (Some m) st = (if m \<noteq> [] then m else st)"

text \<open>
  The \<^verbatim>\<open>try\<close> block of \<^verbatim>\<open>callOpenAI\<close> with its \<^verbatim>\<open>catch\<close> clause, on the outcome of the
  request. On the content \<^verbatim>\<open>null\<close> the function returns \<^verbatim>\<open>null\<close>: directly, or from
  \<^verbatim>\<open>JSON.parse(null)\<close>, which parses the text \<^verbatim>\<open>null\<close>.
\<close>

fun client_answer :: "env \<Rightarrow> bool \<Rightarrow> fetch_result \<Rightarrow> json" where
  "client_answer e useJson (FetchThrows m) = client_fallback useJson m"
| "client_answer e useJson (FetchNotOk em st) =
     client_fallback useJson (''OpenAI API error: '' @ upstream_text em st)"
| "client_answer e useJson (FetchOk None) = JNull"
| "client_answer e useJson (FetchOk (Some resultText)) =
     (if useJson then parse_response e resultText else JStr resultText)"

definition callOpenAI :: "env \<Rightarrow> string \<Rightarrow> string option \<Rightarrow> bool \<Rightarrow> trace \<Rightarrow> json outcome" where
  "callOpenAI e prompt apiKey useJson t =
     (if \<not> truthy_key apiKey then (Inl ''OpenAI API key is required'', t)
      else (Inr (client_answer e useJson (completion e prompt useJson)),
            t @ [FetchCompletion prompt useJson]))"

subsection \<open>Prompts\<close>

fun role_name :: "role \<Rightarrow> string" where
  "role_name user = ''user''"
| "role_name assistant = ''assistant''"
| "role_name system = ''system''"

text \<open>\<^verbatim>\<open>chatHistory.map(msg => `${msg.role}: ${msg.content}`).join('\n')\<close>\<close>

definition history_lines :: "Message list \<Rightarrow> string" where
  "history_lines chatHistory =
     join ''\<newline>'' (map (\<lambda>msg. role_name (role msg) @ '': '' @ content msg) chatHistory)"

text \<open>\<^verbatim>\<open>Object.entries(mcpConfigs).map(([name, config]) => `${name}: ${JSON.stringify(config)}`).join('\n')\<close>\<close>

definition serverDescriptions :: "env \<Rightarrow> registry \<Rightarrow> string" where
  "serverDescriptions e mcpConfigs =
     join ''\<newline>'' (map (\<lambda>(name, config). name @ '': '' @ JSON_stringify e config) mcpConfigs)"

definition evaluate_prompt :: "env \<Rightarrow> Message list \<Rightarrow> string \<Rightarrow> registry \<Rightarrow> string" where
  "evaluate_prompt e chatHistory latestMessage mcpConfigs =
     ''\<newline>      Given the following chat history and latest message, determine if an MCP server is needed to handle the request.''
     @ ''\<newline>      ''
     @ ''\<newline>      Chat History:''
     @ ''\<newline>      ''
     @ history_lines chatHistory
     @ ''\<newline>      ''
     @ ''\<newline>      Latest Message: ''
     @ latestMessage
     @ ''\<newline>      ''
     @ ''\<newline>      Available MCP Servers:''
     @ ''\<newline>      ''
     @ serverDescriptions e mcpConfigs
     @ ''\<newline>      ''
     @ ''\<newline>      CAREFULLY EVALUATE whether this query requires accessing external data or services via an MCP server.''
     @ ''\<newline>      Consider whether using one of the available MCP servers would SIGNIFICANTLY IMPROVE the quality, accuracy, or relevance of the response.''
     @ ''\<newline>      ''
     @ ''\<newline>      If ANY of these conditions apply, an MCP server IS needed:''
     @ ''\<newline>      1. The query requires specific data access that isn't part of your general knowledge''
     @ ''\<newline>      2. The query would benefit from specialized tools or APIs''
     @ ''\<newline>      3. The user is asking for real-time information or data processing''
     @ ''\<newline>      4. The request requires integration with external systems''
     @ ''\<newline>      5. The query involves domain-specific knowledge that an MCP server provides''
     @ ''\<newline>      ''
     @ ''\<newline>      If the query is a simple greeting, general question, opinion, chitchat, or can be fully answered with your general knowledge, NO MCP server is needed.''
     @ ''\<newline>      ''
     @ ''\<newline>      Evaluate carefully - if there's any doubt, evaluate which approach would give the best user experience.''
     @ ''\<newline>      ''
     @ ''\<newline>      Return a JSON object with:''
     @ ''\<newline>      - needsMCP: boolean indicating if an MCP server is needed (true/false)''
     @ ''\<newline>      - serverName: (only if needsMCP is true) name of the chosen server''
     @ ''\<newline>      - reasoning: detailed explanation of your decision, including why a particular server was chosen or why MCP is not needed''
     @ ''\<newline>      ''
     @ ''\<newline>      IMPORTANT: Return ONLY a valid JSON object that can be parsed with JSON.parse(). Do NOT wrap it in markdown code blocks.''
     @ ''\<newline>    ''"

definition direct_prompt :: "Message list \<Rightarrow> string \<Rightarrow> string" where
  "direct_prompt chatHistory latestMessage =
     ''\<newline>      Given the following chat history and latest message, provide a helpful response.''
     @ ''\<newline>      ''
     @ ''\<newline>      Chat History:''
     @ ''\<newline>      ''
     @ history_lines chatHistory
     @ ''\<newline>      ''
     @ ''\<newline>      Latest Message: ''
     @ latestMessage
     @ ''\<newline>      ''
     @ ''\<newline>      Provide a helpful, natural-sounding response to the user's message.''
     @ ''\<newline>    ''"

definition execute_prompt :: "string \<Rightarrow> string \<Rightarrow> Message list \<Rightarrow> string \<Rightarrow> string" where
  "execute_prompt serverName configText chatHistory latestMessage =
     ''\<newline>        You have access to the ''
     @ serverName
     @ '' MCP server with these commands:''
     @ ''\<newline>        ''
     @ configText
     @ ''\<newline>        ''
     @ ''\<newline>        Based on the chat history and latest message, determine which command to use and what arguments to provide.''
     @ ''\<newline>        ''
     @ ''\<newline>        Chat History:''
     @ ''\<newline>        ''
     @ history_lines chatHistory
     @ ''\<newline>        ''
     @ ''\<newline>        Latest Message: ''
     @ latestMessage
     @ ''\<newline>        ''
     @ ''\<newline>        Return a detailed explanation of what information you would retrieve from the server for this query.''
     @ ''\<newline>      ''"

definition format_prompt :: "Message list \<Rightarrow> string \<Rightarrow> string \<Rightarrow> string" where
  "format_prompt chatHistory latestMessage mcpResult =
     ''\<newline>      Given the chat history, latest user message, and the result from the MCP server, ''
     @ ''\<newline>      format a helpful, natural-sounding response to the user.''
     @ ''\<newline>      ''
     @ ''\<newline>      Chat History:''
     @ ''\<newline>      ''
     @ history_lines chatHistory
     @ ''\<newline>      ''
     @ ''\<newline>      Latest Message: ''
     @ latestMessage
     @ ''\<newline>      ''
     @ ''\<newline>      MCP Result: ''
     @ mcpResult
     @ ''\<newline>      ''
     @ ''\<newline>      Your response should incorporate the information from the MCP result in a helpful way.''
     @ ''\<newline>    ''"

subsection \<open>The decision stage\<close>

definition evaluation_fallback :: json where
  "evaluation_fallback = JObj
     [(''needsMCP'', JBool False),
      (''reasoning'', JStr ''Error during evaluation, falling back to direct response'')]"

text \<open>The \<^verbatim>\<open>catch (e)\<close> clause of \<^verbatim>\<open>EvaluateQuery\<close>.\<close>

definition evaluate_catch :: "sink \<Rightarrow> string \<Rightarrow> trace \<Rightarrow> json outcome" where
  "evaluate_catch setLogs m t =
     and_then (say setLogs [''*Error during query evaluation: '' @ m @ ''*''] t)
       (\<lambda>t'. (Inr evaluation_fallback, t'))"

text \<open>
  The body of the \<^verbatim>\<open>try\<close> block after the client has answered \<open>result\<close>. Two statements
  can throw a \<^verbatim>\<open>TypeError\<close> here: reading \<^verbatim>\<open>result.needsMCP\<close> of \<^verbatim>\<open>null\<close>, and the
  conversion of \<^verbatim>\<open>result.reasoning\<close> to a string in the template literal of
  \<^verbatim>\<open>reasoningLog\<close>. Both lines are built before either is logged.
\<close>

definition evaluate_result ::
  "env \<Rightarrow> sink \<Rightarrow> registry \<Rightarrow> json \<Rightarrow> trace \<Rightarrow> json outcome" where
  "evaluate_result e setLogs mcpConfigs result t =
     and_then (say setLogs [''*Received response from LLM for query evaluation*''] t)
       (\<lambda>t0.
          if result = JNull then
            (Inl ''Cannot read properties of null (reading 'needsMCP')'', t0)
          else
            (case display e (get_prop result ''reasoning'') of
               None \<Rightarrow> (Inl to_primitive_error, t0)
             | Some reasoning \<Rightarrow>
                 and_then
                   (say setLogs
                      [''*Query evaluation complete: ''
                         @ (if truthy (get_prop result ''needsMCP'')
                            then ''Needs MCP'' else ''No MCP needed'')
                         @ ''*'',
                       ''*Reasoning: '' @ reasoning @ ''*''] t0)
                   (\<lambda>t1.
                      if truthy (get_prop result ''needsMCP'')
                         \<and> \<not> truthy (get_prop result ''serverName'')
                         \<and> length mcpConfigs > 0
                      then
                        (let firstServerName = fst (mcpConfigs ! 0) in
                         and_then
                           (say setLogs
                              [''*No specific server selected, using default: ''
                                 @ firstServerName @ ''*''] t1)
                           (\<lambda>t2. (Inr (set_prop result ''serverName'' (JStr firstServerName)),
                                  t2)))
                      else (Inr result, t1))))"

definition EvaluateQuery ::
  "env \<Rightarrow> Message list \<Rightarrow> string \<Rightarrow> registry \<Rightarrow> string option \<Rightarrow> sink \<Rightarrow> trace
     \<Rightarrow> json outcome" where
  "EvaluateQuery e chatHistory latestMessage mcpConfigs apiKey setLogs t =
     and_then
       (say setLogs
          [''*Starting query evaluation process...*'',
           ''*Generating prompt for query evaluation...*'',
           ''*Sending request to LLM for query evaluation...*''] t)
       (\<lambda>t1.
          try_catch
            (case callOpenAI e (evaluate_prompt e chatHistory latestMessage mcpConfigs)
                    apiKey True t1 of
               (Inl m, t2) \<Rightarrow> (Inl m, t2)
             | (Inr result, t2) \<Rightarrow> evaluate_result e setLogs mcpConfigs result t2)
            (evaluate_catch setLogs))"

subsection \<open>The stages that ask the model for text\<close>

text \<open>
  The three stages below share the tail of their \<^verbatim>\<open>try\<close> block: the answer is logged with
  its length and its first 50 characters and returned. With \<open>useJson\<close> false the client
  answers a string or \<^verbatim>\<open>null\<close>. Reading \<^verbatim>\<open>response.length\<close> of \<^verbatim>\<open>null\<close> is a
  \<^verbatim>\<open>TypeError\<close>, which goes to the stage's \<^verbatim>\<open>catch\<close> clause; so would the call of
  \<^verbatim>\<open>response.substring\<close> on any other value.
\<close>

definition received_lines :: "string \<Rightarrow> string \<Rightarrow> string list" where
  "received_lines what response =
     [''*Received '' @ what @ '' ('' @ show_nat (length response) @ '' chars)*'',
      ''*Response snippet: '' @ [CHR 0x22] @ take 50 response @ ''...'' @ [CHR 0x22] @ ''*'']"

fun not_a_string :: "json \<Rightarrow> string" where
  "not_a_string JNull = ''Cannot read properties of null (reading 'length')''"
| "not_a_string other = ''response.substring is not a function''"

definition answered :: "sink \<Rightarrow> string \<Rightarrow> json outcome \<Rightarrow> string outcome" where
  "answered setLogs what r =
     (case r of
        (Inl m, t) \<Rightarrow> (Inl m, t)
      | (Inr (JStr response), t) \<Rightarrow>
          and_then (say setLogs (received_lines what response) t) (\<lambda>t'. (Inr response, t'))
      | (Inr other, t) \<Rightarrow> (Inl (not_a_string other), t))"

definition direct_catch :: "sink \<Rightarrow> string \<Rightarrow> trace \<Rightarrow> string outcome" where
  "direct_catch setLogs m t =
     and_then (say setLogs [''*Error generating direct response: '' @ m @ ''*''] t)
       (\<lambda>t'. (Inr apology, t'))"

definition GenerateDirectResponse ::
  "env \<Rightarrow> Message list \<Rightarrow> string \<Rightarrow> string option \<Rightarrow> sink \<Rightarrow> trace \<Rightarrow> string outcome" where
  "GenerateDirectResponse e chatHistory latestMessage apiKey setLogs t =
     and_then
       (say setLogs
          [''*Generating direct response without MCP...*'',
           ''*Generating prompt for direct response...*'',
           ''*Sending request to LLM for direct response...*''] t)
       (\<lambda>t1.
          try_catch
            (answered setLogs ''direct response''
               (callOpenAI e (direct_prompt chatHistory latestMessage) apiKey False t1))
            (direct_catch setLogs))"

text \<open>
  \<^verbatim>\<open>mcpConfigs[serverName]\<close>. The registry is a plain object, so a name that is not an
  own property is looked up in \<^verbatim>\<open>Object.prototype\<close>: eleven names answer a function there,
  and \<^verbatim>\<open>__proto__\<close> answers \<^verbatim>\<open>Object.prototype\<close> itself.
\<close>

datatype looked_up =
    Own json
  | ProtoFunction
  | ProtoObject

definition prototype_functions :: "string list" where
  "prototype_functions =
     [''constructor'', ''hasOwnProperty'', ''isPrototypeOf'', ''propertyIsEnumerable'',
      ''toString'', ''toLocaleString'', ''valueOf'', ''__defineGetter__'', ''__defineSetter__'',
      ''__lookupGetter__'', ''__lookupSetter__'']"

definition lookup_config :: "registry \<Rightarrow> string \<Rightarrow> looked_up option" where
  "lookup_config mcpConfigs serverName =
     (case map_of mcpConfigs serverName of
        Some v \<Rightarrow> Some (Own v)
      | None \<Rightarrow>
          if serverName \<in> set prototype_functions then Some ProtoFunction
          else if serverName = ''__proto__'' then Some ProtoObject
          else None)"

text \<open>\<^verbatim>\<open>!serverConfig\<close> is false on \<open>config_truthy\<close>.\<close>

fun config_truthy :: "looked_up option \<Rightarrow> bool" where
  "config_truthy None = False"
| "config_truthy (Some (Own v)) = truthy_json v"
| "config_truthy (Some ProtoFunction) = True"
| "config_truthy (Some ProtoObject) = True"

text \<open>
  \<^verbatim>\<open>JSON.stringify\<close> in a template literal: a function gives \<^verbatim>\<open>undefined\<close>, and
  \<^verbatim>\<open>Object.prototype\<close> has no enumerable property.
\<close>

fun config_text :: "(json \<Rightarrow> string) \<Rightarrow> looked_up option \<Rightarrow> string" where
  "config_text f (Some (Own v)) = f v"
| "config_text f (Some ProtoObject) = ''{}''"
| "config_text f (Some ProtoFunction) = ''undefined''"
| "config_text f None = ''undefined''"

definition execute_catch :: "sink \<Rightarrow> string \<Rightarrow> trace \<Rightarrow> string outcome" where
  "execute_catch setLogs m t =
     and_then (say setLogs [''*MCP execution error: '' @ m @ ''*''] t)
       (\<lambda>t'. (Inr (''Error executing MCP call: '' @ m), t'))"

text \<open>
  \<^verbatim>\<open>ExecuteMCPCall\<close>. Its first log line and the branch for a configuration that is not
  found stand in front of the \<^verbatim>\<open>try\<close> block. The parameter \<open>serverName\<close> is the name as a
  string: every use of it in the source converts it to one.
\<close>

definition ExecuteMCPCall ::
  "env \<Rightarrow> string \<Rightarrow> Message list \<Rightarrow> string \<Rightarrow> registry \<Rightarrow> string option \<Rightarrow> sink \<Rightarrow> trace
     \<Rightarrow> string outcome" where
  "ExecuteMCPCall e serverName chatHistory latestMessage mcpConfigs apiKey setLogs t =
     and_then (say setLogs [''*Executing MCP call with server: '' @ serverName @ ''*''] t)
       (\<lambda>t1.
          let serverConfig = lookup_config mcpConfigs serverName in
          if \<not> config_truthy serverConfig then
            and_then
              (say setLogs
                 [''*Error: MCP server configuration not found for '' @ serverName @ ''*''] t1)
              (\<lambda>t2. (Inr (''Error: Could not find MCP server configuration for '' @ serverName),
                     t2))
          else
            try_catch
              (and_then
                 (say setLogs
                    [''*MCP context created for '' @ [CHR 0x27] @ serverName @ [CHR 0x27]
                       @ '' server*'',
                     ''*Server config: '' @ config_text (JSON_stringify_indent e) serverConfig
                       @ ''*'',
                     ''*User query: '' @ [CHR 0x22] @ latestMessage @ [CHR 0x22] @ ''*'',
                     ''*Generating prompt for MCP execution...*'',
                     ''*Sending request to LLM for MCP execution...*''] t1)
                 (\<lambda>t2.
                    answered setLogs ''MCP execution response''
                      (callOpenAI e
                         (execute_prompt serverName
                            (config_text (JSON_stringify e) serverConfig)
                            chatHistory latestMessage)
                         apiKey False t2)))
              (execute_catch setLogs))"

definition format_apology :: string where
  "format_apology = ''I encountered an error while formatting my response. Please try asking your question again in a different way.''"

definition format_catch :: "sink \<Rightarrow> string \<Rightarrow> trace \<Rightarrow> string outcome" where
  "format_catch setLogs m t =
     and_then (say setLogs [''*Response formatting error: '' @ m @ ''*''] t)
       (\<lambda>t'. (Inr format_apology, t'))"

definition FormatResponse ::
  "env \<Rightarrow> Message list \<Rightarrow> string \<Rightarrow> string \<Rightarrow> string option \<Rightarrow> sink \<Rightarrow> trace
     \<Rightarrow> string outcome" where
  "FormatResponse e chatHistory latestMessage mcpResult apiKey setLogs t =
     and_then
       (say setLogs
          [''*Formatting final response based on MCP result...*'',
           ''*Generating prompt for response formatting...*'',
           ''*Sending request to LLM for response formatting...*''] t)
       (\<lambda>t1.
          try_catch
            (answered setLogs ''formatted response''
               (callOpenAI e (format_prompt chatHistory latestMessage mcpResult) apiKey False t1))
            (format_catch setLogs))"

subsection \<open>The orchestrator\<close>

type_synonym evaluate_stage =
  "Message list \<Rightarrow> string \<Rightarrow> registry \<Rightarrow> string option \<Rightarrow> sink \<Rightarrow> trace \<Rightarrow> json outcome"

type_synonym execute_stage =
  "string \<Rightarrow> Message list \<Rightarrow> string \<Rightarrow> registry \<Rightarrow> string option \<Rightarrow> sink \<Rightarrow> trace
     \<Rightarrow> string outcome"

type_synonym direct_stage =
  "Message list \<Rightarrow> string \<Rightarrow> string option \<Rightarrow> sink \<Rightarrow> trace \<Rightarrow> string outcome"

type_synonym format_stage =
  "Message list \<Rightarrow> string \<Rightarrow> string \<Rightarrow> string option \<Rightarrow> sink \<Rightarrow> trace \<Rightarrow> string outcome"

text \<open>The \<^verbatim>\<open>catch (error)\<close> clause of \<^verbatim>\<open>Chatbot\<close>, its outer boundary.\<close>

definition error_line :: "string \<Rightarrow> string" where
  "error_line m = ''*ERROR: '' @ m @ ''*''"

definition chatbot_catch :: "sink \<Rightarrow> string \<Rightarrow> trace \<Rightarrow> string outcome" where
  "chatbot_catch setLogs m t =
     and_then (say setLogs [error_line m] t)
       (\<lambda>t'. (Inr (''Sorry, I encountered an error while processing your request: '' @ m), t'))"

text \<open>
  The log lines of \<^verbatim>\<open>Chatbot\<close>: the two in front of its \<^verbatim>\<open>try\<close> block, the first one
  inside, and those that open the tool path and the direct path, for the selected name and
  the reasoning as strings.
\<close>

definition chatbot_open :: "string \<Rightarrow> string list" where
  "chatbot_open latestMessage =
     [''*==== Starting Chatbot Process ====*'',
      ''*Processing user message: '' @ [CHR 0x22] @ latestMessage @ [CHR 0x22] @ ''*'']"

definition step_one :: string where
  "step_one = ''*STEP 1: Evaluating if MCP is needed...*''"

definition tool_lines :: "string \<Rightarrow> string \<Rightarrow> string list" where
  "tool_lines serverName reasoning =
     [''*MCP needed - Selected server: '' @ serverName @ ''*'',
      ''*Reasoning: '' @ reasoning @ ''*'',
      ''*STEP 2: Executing MCP call with '' @ serverName @ ''...*'']"

definition direct_lines :: "string \<Rightarrow> string list" where
  "direct_lines reasoning =
     [''*No MCP needed - Generating direct response*'',
      ''*Reasoning: '' @ reasoning @ ''*'',
      ''*STEP 2: Generating direct response without MCP...*'']"

text \<open>The end of the \<^verbatim>\<open>try\<close> block: the closing log line, then \<^verbatim>\<open>return response\<close>.\<close>

definition finish :: "sink \<Rightarrow> string outcome \<Rightarrow> string outcome" where
  "finish setLogs r =
     (case r of
        (Inl m, t) \<Rightarrow> (Inl m, t)
      | (Inr response, t) \<Rightarrow>
          and_then (say setLogs [''*==== Chatbot Process Complete ====*''] t)
            (\<lambda>t'. (Inr response, t')))"

text \<open>
  The \<^verbatim>\<open>try\<close> block of \<^verbatim>\<open>Chatbot\<close> with the four stages it awaits as parameters, so that it
  can be studied for stages that do throw. The decision is destructured; on \<^verbatim>\<open>null\<close> that
  is a \<^verbatim>\<open>TypeError\<close>. On the tool path the template literals convert \<^verbatim>\<open>serverName\<close> and
  then \<^verbatim>\<open>reasoning\<close> to strings before anything is logged, on the direct path
  \<^verbatim>\<open>reasoning\<close>; a conversion that fails is a \<^verbatim>\<open>TypeError\<close>. The selected name reaches
  \<^verbatim>\<open>ExecuteMCPCall\<close> as it is; every use there converts it to a string, which has then
  succeeded here.
\<close>

definition chatbot_try ::
  "evaluate_stage \<Rightarrow> execute_stage \<Rightarrow> direct_stage \<Rightarrow> format_stage
     \<Rightarrow> env \<Rightarrow> Message list \<Rightarrow> string \<Rightarrow> registry \<Rightarrow> string option \<Rightarrow> sink \<Rightarrow> trace
     \<Rightarrow> string outcome" where
  "chatbot_try evaluate execute direct format e chatHistory latestMessage mcpConfigs apiKey
     setLogs t =
     and_then (say setLogs [step_one] t)
       (\<lambda>t1.
          case evaluate chatHistory latestMessage mcpConfigs apiKey setLogs t1 of
            (Inl m, t2) \<Rightarrow> (Inl m, t2)
          | (Inr decision, t2) \<Rightarrow>
              if decision = JNull then
                (Inl ''Cannot destructure property 'needsMCP' of null'', t2)
              else if truthy (get_prop decision ''needsMCP'')
                      \<and> truthy (get_prop decision ''serverName'')
              then
                (case display e (get_prop decision ''serverName'') of
                   None \<Rightarrow> (Inl to_primitive_error, t2)
                 | Some serverName \<Rightarrow>
                     (case display e (get_prop decision ''reasoning'') of
                        None \<Rightarrow> (Inl to_primitive_error, t2)
                      | Some reasoning \<Rightarrow>
                          and_then (say setLogs (tool_lines serverName reasoning) t2)
                            (\<lambda>t3.
                               case execute serverName chatHistory latestMessage mcpConfigs
                                      apiKey setLogs t3 of
                                 (Inl m, t4) \<Rightarrow> (Inl m, t4)
                               | (Inr mcpResult, t4) \<Rightarrow>
                                   and_then
                                     (say setLogs
                                        [''*STEP 3: Formatting response with MCP results...*'']
                                        t4)
                                     (\<lambda>t5. finish setLogs
                                              (format chatHistory latestMessage mcpResult
                                                 apiKey setLogs t5)))))
              else
                (case display e (get_prop decision ''reasoning'') of
                   None \<Rightarrow> (Inl to_primitive_error, t2)
                 | Some reasoning \<Rightarrow>
                     and_then (say setLogs (direct_lines reasoning) t2)
                       (\<lambda>t3. finish setLogs
                                (direct chatHistory latestMessage apiKey setLogs t3))))"

text \<open>\<^verbatim>\<open>Chatbot\<close>: two log lines, then the \<^verbatim>\<open>try\<close> block and its \<^verbatim>\<open>catch\<close> clause.\<close>

definition Chatbot_with ::
  "evaluate_stage \<Rightarrow> execute_stage \<Rightarrow> direct_stage \<Rightarrow> format_stage
     \<Rightarrow> env \<Rightarrow> Message list \<Rightarrow> string \<Rightarrow> registry \<Rightarrow> string option \<Rightarrow> sink \<Rightarrow> trace
     \<Rightarrow> string outcome" where
  "Chatbot_with evaluate execute direct format e chatHistory latestMessage mcpConfigs apiKey
     setLogs t =
     and_then (say setLogs (chatbot_open latestMessage) t)
       (\<lambda>t0.
          try_catch
            (chatbot_try evaluate execute direct format e chatHistory latestMessage mcpConfigs
               apiKey setLogs t0)
            (chatbot_catch setLogs))"

definition Chatbot ::
  "env \<Rightarrow> Message list \<Rightarrow> string \<Rightarrow> registry \<Rightarrow> string option \<Rightarrow> sink \<Rightarrow> trace
     \<Rightarrow> string outcome" where
  "Chatbot e =
     Chatbot_with (EvaluateQuery e) (ExecuteMCPCall e) (GenerateDirectResponse e)
       (FormatResponse e) e"

definition process_apology :: string where
  "process_apology = ''Sorry, there was an error processing your request. Please check your API key and try again.''"

definition process_catch :: "sink \<Rightarrow> string \<Rightarrow> trace \<Rightarrow> string outcome" where
  "process_catch setLogs m t =
     and_then (say setLogs [''*Error processing message: '' @ m @ ''*''] t)
       (\<lambda>t'. (Inr process_apology, t'))"

definition loaded_line :: "registry \<Rightarrow> string" where
  "loaded_line mcpServers =
     ''*Loaded MCP server configurations: '' @ join '', '' (map fst mcpServers) @ ''*''"

text \<open>
  \<^verbatim>\<open>processMessage\<close>: everything stands in its \<^verbatim>\<open>try\<close> block. A document without
  \<^verbatim>\<open>mcpServers\<close> makes \<^verbatim>\<open>Object.keys(mcpServers)\<close> throw a \<^verbatim>\<open>TypeError\<close>.
\<close>

definition processMessage ::
  "env \<Rightarrow> Message list \<Rightarrow> string \<Rightarrow> string option \<Rightarrow> sink \<Rightarrow> trace \<Rightarrow> string outcome" where
  "processMessage e chatHistory latestMessage apiKey setLogs t =
     try_catch
       (case config_json e of
          ConfigThrows m \<Rightarrow> (Inl m, t @ [FetchConfig])
        | ConfigNotOk statusText \<Rightarrow>
            (Inl (''Failed to fetch configuration: '' @ statusText), t @ [FetchConfig])
        | ConfigOk None \<Rightarrow> (Inl ''Cannot convert undefined or null to object'', t @ [FetchConfig])
        | ConfigOk (Some mcpServers) \<Rightarrow>
            and_then (say setLogs [loaded_line mcpServers] (t @ [FetchConfig]))
              (\<lambda>t1. Chatbot e chatHistory latestMessage mcpServers apiKey setLogs t1))
       (process_catch setLogs)"

subsection \<open>Notions for the statements\<close>

text \<open>
  The value that the substitution step at the end of \<open>evaluate_result\<close> returns for the
  client's answer \<open>result\<close> (lemma \<open>evaluate_result_value\<close>).
\<close>

definition substituted :: "registry \<Rightarrow> json \<Rightarrow> json" where
  "substituted cfgs result =
     (if truthy (get_prop result ''needsMCP'') \<and> \<not> truthy (get_prop result ''serverName'')
         \<and> cfgs \<noteq> []
      then set_prop result ''serverName'' (JStr (fst (hd cfgs)))
      else result)"

text \<open>
  The text that a stage returns for the client's answer: the answer when it is a string, and
  the text of the stage's \<^verbatim>\<open>catch\<close> clause otherwise.
\<close>

fun stage_text :: "string \<Rightarrow> json \<Rightarrow> string" where
  "stage_text caught (JStr response) = response"
| "stage_text caught other = caught"

text \<open>
  The first statement of \<^verbatim>\<open>ExecuteMCPCall\<close> hands the line
  \<^verbatim>\<open>*Executing MCP call with server: ...*\<close> to the log sink, so the events of this form in
  a trace count the invocations of that stage.
\<close>

fun execute_event :: "event \<Rightarrow> bool" where
  "execute_event (SetLogs line) = prefix ''*Executing MCP call with server: '' line"
| "execute_event (FetchCompletion prompt useJson) = False"
| "execute_event FetchConfig = False"

text \<open>
  The events of \<^verbatim>\<open>Chatbot\<close> before the decision stage is awaited, when the log sink has
  returned on each of the three lines.
\<close>

definition chatbot_start :: "string \<Rightarrow> event list" where
  "chatbot_start latestMessage = map SetLogs (chatbot_open latestMessage @ [step_one])"

text \<open>
  The end of a run of \<^verbatim>\<open>Chatbot\<close> on the outcome \<open>r\<close> of its last stage: the closing log
  line and \<^verbatim>\<open>return response\<close> inside the \<^verbatim>\<open>try\<close> block, and the \<^verbatim>\<open>catch\<close> clause.
\<close>

definition complete :: "sink \<Rightarrow> string outcome \<Rightarrow> string outcome" where
  "complete setLogs r = try_catch (finish setLogs r) (chatbot_catch setLogs)"

subsection \<open>The response parser as the specification words it\<close>

text \<open>
  The specification lists the strategies of the parser as: (a) strict parse of the whole
  text; (b) extraction of the first fenced block labelled \<^verbatim>\<open>json\<close>; (c) extraction of the
  first unlabeled fenced block; (d) extraction of the first brace-delimited substring. The
  definitions below follow these words, for comparison with \<open>parse_response\<close>; they are
  not taken from the source. Steps (a), (b) and (d), the trimming, and what is returned
  for an extraction are read as the source has them, so that the two differ in step (c)
  alone.

  \<open>spec_pieces\<close> cuts a text at its fences \<^verbatim>\<open>```\<close>. The fences pair up from the left into
  an opening and a closing one, so the fenced blocks are the second, fourth, ... piece, as
  far as a closing fence follows. The label of a block is what follows its opening fence
  directly: a block is unlabeled when it is empty or begins with white space.
\<close>

fun spec_pieces :: "string \<Rightarrow> string \<Rightarrow> string list" where
  "spec_pieces piece [] = [rev piece]"
| "spec_pieces piece (c # cs) =
     (if prefix ''```'' (c # cs) then rev piece # spec_pieces [] (drop 2 cs)
      else spec_pieces (c # piece) cs)"

fun spec_blocks :: "string list \<Rightarrow> string list" where
  "spec_blocks (outside # block # after # rest) = block # spec_blocks (after # rest)"
| "spec_blocks other = []"

definition spec_unlabeled :: "string \<Rightarrow> bool" where
  "spec_unlabeled block = (block = [] \<or> is_space (hd block))"

definition spec_unlabeled_fence :: "string \<Rightarrow> string option" where
  "spec_unlabeled_fence resultText =
     (case filter spec_unlabeled (spec_blocks (spec_pieces [] resultText)) of
        [] \<Rightarrow> None
      | block # blocks \<Rightarrow> Some (trim block))"

definition spec_jsonMatch :: "string \<Rightarrow> string option" where
  "spec_jsonMatch resultText =
     or_else (match_json_fence resultText)
       (or_else (spec_unlabeled_fence resultText) (match_braces resultText))"

definition spec_parse :: "env \<Rightarrow> string \<Rightarrow> json" where
  "spec_parse e resultText =
     (case JSON_parse e resultText of
        Some v \<Rightarrow> v
      | None \<Rightarrow> parse_extracted e resultText (spec_jsonMatch resultText))"

subsection \<open>An environment for the examples\<close>

text \<open>
  The examples run the pipeline on a registry with the one tool \<^verbatim>\<open>weather\<close>, whose
  configuration is the empty object. The JSON functions of the example environment are
  tables that agree with \<^verbatim>\<open>JSON.parse\<close> and \<^verbatim>\<open>JSON.stringify\<close> on the texts and values
  the examples meet: two decision objects are accepted, every other text met is not JSON.
  The model endpoint gives the same answer to every request.
\<close>

definition demo_registry :: registry where
  "demo_registry = [(''weather'', JObj [])]"

definition text_bogus :: string where
  \<open>text_bogus = ''{"needsMCP":true,"serverName":"bogus","reasoning":"r"}''\<close>

definition decision_bogus :: json where
  "decision_bogus = JObj
     [(''needsMCP'', JBool True), (''serverName'', JStr ''bogus''), (''reasoning'', JStr ''r'')]"

definition text_unnamed :: string where
  \<open>text_unnamed = ''{"needsMCP":true,"reasoning":"r"}''\<close>

definition decision_unnamed :: json where
  "decision_unnamed = JObj [(''needsMCP'', JBool True), (''reasoning'', JStr ''r'')]"

text \<open>
  Four texts that wrap the second decision object: in a fence labelled \<^verbatim>\<open>json\<close> with
  prose around it, in a fence without a label, in a fence labelled \<^verbatim>\<open>JSON\<close>, and in
  prose alone. None of them is JSON.
\<close>

definition text_fenced :: string where
  "text_fenced = ''Here you go: ```json\<newline>'' @ text_unnamed @ ''\<newline>``` Hope it helps {x}''"

definition text_plain_fence :: string where
  "text_plain_fence = ''```\<newline>'' @ text_unnamed @ ''\<newline>```''"

definition text_labelled :: string where
  "text_labelled = ''```JSON\<newline>'' @ text_unnamed @ ''\<newline>```''"

definition text_prose :: string where
  "text_prose = ''Sure: '' @ text_unnamed @ '' ok''"

definition demo_parse :: "string \<Rightarrow> json option" where
  "demo_parse = map_of [(text_bogus, decision_bogus), (text_unnamed, decision_unnamed)]"

definition demo_stringify :: "json \<Rightarrow> string" where
  "demo_stringify v = (if v = JNull then ''null'' else ''{}'')"

text \<open>The decimal digits of an integer, for \<open>Number_toString\<close> in the examples.\<close>

definition show_int :: "int \<Rightarrow> string" where
  "show_int i = (if i < 0 then ''-'' @ show_nat (nat (- i)) else show_nat (nat i))"

definition demo_env :: "fetch_result \<Rightarrow> env" where
  "demo_env reply =
     \<lparr>JSON_parse = demo_parse,
      JSON_stringify = demo_stringify,
      JSON_stringify_indent = demo_stringify,
      Number_toString = show_int,
      completion = (\<lambda>prompt useJson. reply),
      config_json = ConfigOk (Some demo_registry)\<rparr>"

text \<open>
  An environment for whole runs: the model answers a request for structured output with
  \<open>decisionText\<close> and any other request with \<open>answerText\<close>. Its \<open>JSON_parse\<close> accepts four
  more decision objects: one that selects the registered tool, one that needs none, one
  whose \<^verbatim>\<open>reasoning\<close> is an object with the own property \<^verbatim>\<open>toString\<close>, and one whose
  \<^verbatim>\<open>serverName\<close> is such an object.
\<close>

definition text_weather :: string where
  \<open>text_weather = ''{"needsMCP":true,"serverName":"weather","reasoning":"live data"}''\<close>

definition decision_weather :: json where
  "decision_weather = JObj
     [(''needsMCP'', JBool True), (''serverName'', JStr ''weather''),
      (''reasoning'', JStr ''live data'')]"

definition text_greeting :: string where
  \<open>text_greeting = ''{"needsMCP":false,"reasoning":"a greeting"}''\<close>

definition decision_greeting :: json where
  "decision_greeting = JObj [(''needsMCP'', JBool False), (''reasoning'', JStr ''a greeting'')]"

definition text_odd_reasoning :: string where
  \<open>text_odd_reasoning = ''{"needsMCP":true,"reasoning":{"toString":null}}''\<close>

definition decision_odd_reasoning :: json where
  "decision_odd_reasoning = JObj
     [(''needsMCP'', JBool True), (''reasoning'', JObj [(''toString'', JNull)])]"

definition text_odd_name :: string where
  \<open>text_odd_name = ''{"needsMCP":true,"serverName":{"toString":null},"reasoning":"r"}''\<close>

definition decision_odd_name :: json where
  "decision_odd_name = JObj
     [(''needsMCP'', JBool True), (''serverName'', JObj [(''toString'', JNull)]),
      (''reasoning'', JStr ''r'')]"

definition scenario_parse :: "string \<Rightarrow> json option" where
  "scenario_parse = map_of
     [(text_weather, decision_weather), (text_greeting, decision_greeting),
      (text_odd_reasoning, decision_odd_reasoning), (text_odd_name, decision_odd_name)]"

definition scenario_env :: "registry \<Rightarrow> string \<Rightarrow> string \<Rightarrow> env" where
  "scenario_env mcpServers decisionText answerText =
     \<lparr>JSON_parse = scenario_parse,
      JSON_stringify = demo_stringify,
      JSON_stringify_indent = demo_stringify,
      Number_toString = show_int,
      completion = (\<lambda>prompt useJson.
         if useJson then FetchOk (Some decisionText) else FetchOk (Some answerText)),
      config_json = ConfigOk (Some mcpServers)\<rparr>"

text \<open>
  Two log sinks that throw: \<open>broken\<close> on every line, \<open>picky lines\<close> on the lines listed
  and on no other. Each throws an \<^verbatim>\<open>Error\<close> with the message \<^verbatim>\<open>log sink failed\<close>.
\<close>

definition broken :: sink where
  "broken = (\<lambda>line. Some ''log sink failed'')"

definition picky :: "string list \<Rightarrow> sink" where
  "picky lines = (\<lambda>line. if line \<in> set lines then Some ''log sink failed'' else None)"

text \<open>Stages for the examples of \<open>Chatbot_with\<close>: they throw, or answer a fixed value.\<close>

definition raise_evaluate :: "string \<Rightarrow> evaluate_stage" where
  "raise_evaluate err = (\<lambda>chatHistory latestMessage mcpConfigs apiKey setLogs t. (Inl err, t))"

definition const_evaluate :: "json \<Rightarrow> evaluate_stage" where
  "const_evaluate d = (\<lambda>chatHistory latestMessage mcpConfigs apiKey setLogs t. (Inr d, t))"

definition raise_execute :: "string \<Rightarrow> execute_stage" where
  "raise_execute err =
     (\<lambda>serverName chatHistory latestMessage mcpConfigs apiKey setLogs t. (Inl err, t))"

definition const_execute :: "string \<Rightarrow> execute_stage" where
  "const_execute r =
     (\<lambda>serverName chatHistory latestMessage mcpConfigs apiKey setLogs t. (Inr r, t))"

definition raise_direct :: "string \<Rightarrow> direct_stage" where
  "raise_direct err = (\<lambda>chatHistory latestMessage apiKey setLogs t. (Inl err, t))"

definition raise_format :: "string \<Rightarrow> format_stage" where
  "raise_format err = (\<lambda>chatHistory latestMessage mcpResult apiKey setLogs t. (Inl err, t))"

section \<open>Properties\<close>

subsection \<open>Sequencing and the log sink\<close>

text \<open>
  The equations of \<open>say\<close> are used where a proof names them. With the sink that returns on
  every line the lines are appended to the trace.
\<close>

declare say.simps [simp del]

lemma say_quiet: "say quiet lines t = (Inr (), t @ map SetLogs lines)"
  by (induction lines arbitrary: t) (simp_all add: quiet_def say.simps)

lemma and_then_Inr: "and_then (Inr u, t) continue = continue t"
  by (simp add: and_then_def)

lemma and_then_Inl: "and_then (Inl err, t) continue = (Inl err, t)"
  by (simp add: and_then_def)

lemma try_catch_Inr: "try_catch (Inr v, t) handler = (Inr v, t)"
  by (simp add: try_catch_def)

lemma try_catch_Inl: "try_catch (Inl err, t) handler = handler err t"
  by (simp add: try_catch_def)

lemmas seq_simps = say_quiet and_then_Inr and_then_Inl try_catch_Inr try_catch_Inl

text \<open>The trace a sequence of log lines starts from is handed on unchanged.\<close>

lemma say_trace: "say setLogs lines t = (fst (say setLogs lines []), t @ snd (say setLogs lines []))"
proof (induction lines arbitrary: t)
  case Nil
  show ?case by (simp add: say.simps)
next
  case (Cons line lines)
  show ?case
  proof (cases "setLogs line")
    case None
    then show ?thesis
      using Cons [of "t @ [SetLogs line]"] Cons [of "[SetLogs line]"] by (simp add: say.simps)
  next
    case (Some err)
    then show ?thesis by (simp add: say.simps)
  qed
qed

subsection \<open>The model client\<close>

lemma callOpenAI_no_key:
  "\<not> truthy_key apiKey \<Longrightarrow>
     callOpenAI e prompt apiKey useJson t = (Inl ''OpenAI API key is required'', t)"
  by (simp add: callOpenAI_def)

lemma callOpenAI_with_key:
  "truthy_key apiKey \<Longrightarrow>
     callOpenAI e prompt apiKey useJson t =
       (Inr (client_answer e useJson (completion e prompt useJson)),
        t @ [FetchCompletion prompt useJson])"
  by (simp add: callOpenAI_def)

lemma client_answer_text:
  "client_answer e False r = JNull \<or> (\<exists>s. client_answer e False r = JStr s)"
  by (cases "(e, False, r)" rule: client_answer.cases) (simp_all add: client_fallback_def)

lemma client_answer_text_env: "client_answer e False r = client_answer e' False r"
  by (cases "(e, False, r)" rule: client_answer.cases) simp_all

text \<open>
  Claim C8, as the specification states it: on a transport failure or a response that is not
  a success, \<^verbatim>\<open>callOpenAI\<close> raises to its caller and never manufactures an answer. The code
  does otherwise. With a key present, a rejected request is answered with the canned apology
  text, and a response that is not ok, when structured output was asked for, is answered
  with a fabricated decision object: both are fulfilled results, not exceptions.
\<close>

theorem callOpenAI_failure_is_answered:
  "fst (callOpenAI (demo_env (FetchThrows ''Failed to fetch'')) ''hello'' (Some ''sk-test'') False [])
     = Inr (JStr ''I apologize, but I encountered an error while processing your request. Could you try rephrasing your question?'')
   \<and> fst (callOpenAI (demo_env (FetchNotOk None ''Unauthorized'')) ''hello'' (Some ''sk-test'') True [])
     = Inr (JObj [(''needsMCP'', JBool False),
                  (''reasoning'', JStr ''Fallback due to error: OpenAI API error: Unauthorized'')])"
  by (simp add: callOpenAI_def demo_env_def client_fallback_def apology_def)

text \<open>
  Claim C8, amended: \<^verbatim>\<open>callOpenAI\<close> raises exactly when no credential is configured, with
  the message \<^verbatim>\<open>OpenAI API key is required\<close>. With a credential, every failure inside its
  \<^verbatim>\<open>try\<close> block is caught by the client itself and answered with a fallback: when structured
  output was asked for, the object \<^verbatim>\<open>{needsMCP: false, reasoning: "Fallback due to error: ..."}\<close>
  carrying the failure's message, and otherwise the fixed apology text.
\<close>

theorem callOpenAI_raises_only_without_key:
  "(fst (callOpenAI e prompt apiKey useJson t) = Inl msg
      \<longleftrightarrow> \<not> truthy_key apiKey \<and> msg = ''OpenAI API key is required'')
   \<and> (truthy_key apiKey \<and> completion e prompt useJson = FetchThrows m \<longrightarrow>
        fst (callOpenAI e prompt apiKey useJson t) =
          Inr (if useJson
               then JObj [(''needsMCP'', JBool False),
                          (''reasoning'', JStr (''Fallback due to error: '' @ m))]
               else JStr apology))
   \<and> (truthy_key apiKey \<and> completion e prompt useJson = FetchNotOk em st \<longrightarrow>
        fst (callOpenAI e prompt apiKey useJson t) =
          Inr (if useJson
               then JObj [(''needsMCP'', JBool False),
                          (''reasoning'',
                           JStr (''Fallback due to error: OpenAI API error: '' @ upstream_text em st))]
               else JStr apology))"
  by (cases "truthy_key apiKey")
     (auto simp add: callOpenAI_no_key callOpenAI_with_key client_fallback_def)

theorem callOpenAI_raises_only_without_key_witness:
  "fst (callOpenAI (demo_env (FetchNotOk (Some ''quota'') ''Too Many Requests'')) ''hello''
          (Some ''sk-test'') True [])
     = Inr (JObj [(''needsMCP'', JBool False),
                  (''reasoning'', JStr ''Fallback due to error: OpenAI API error: quota'')])
   \<and> fst (callOpenAI (demo_env (FetchThrows ''Failed to fetch'')) ''hello'' (Some ''sk-test'') False [])
     = Inr (JStr apology)
   \<and> fst (callOpenAI (demo_env (FetchOk (Some ''hi''))) ''hello'' None False [])
     = Inl ''OpenAI API key is required''"
  using callOpenAI_raises_only_without_key
          [of "demo_env (FetchNotOk (Some ''quota'') ''Too Many Requests'')" "''hello''"
              "Some ''sk-test''" True "[]" "''x''" "''y''" "Some ''quota''" "''Too Many Requests''"]
        callOpenAI_raises_only_without_key
          [of "demo_env (FetchThrows ''Failed to fetch'')" "''hello''"
              "Some ''sk-test''" False "[]" "''x''" "''Failed to fetch''"]
        callOpenAI_raises_only_without_key
          [of "demo_env (FetchOk (Some ''hi''))" "''hello''" None False "[]" "''OpenAI API key is required''"]
  by (simp add: demo_env_def)

subsection \<open>Every stage returns when the log sink does\<close>

lemma answered_quiet:
  "answered quiet what (Inr v, t) =
     (case v of JStr response \<Rightarrow> (Inr response, t @ map SetLogs (received_lines what response))
      | other \<Rightarrow> (Inl (not_a_string other), t))"
  by (simp add: answered_def seq_simps split: json.splits)

lemma answered_Inl: "answered setLogs what (Inl m, t) = (Inl m, t)"
  by (simp add: answered_def)

lemma EvaluateQuery_total:
  "\<exists>d t'. EvaluateQuery e h m cfgs k quiet t = (Inr d, t')"
  by (cases "truthy_key k")
     (simp_all add: EvaluateQuery_def Let_def callOpenAI_no_key callOpenAI_with_key
        evaluate_catch_def evaluate_result_def seq_simps split: option.splits)

lemma GenerateDirectResponse_total:
  "\<exists>s t'. GenerateDirectResponse e h m k quiet t = (Inr s, t')"
  by (cases "truthy_key k")
     (simp_all add: GenerateDirectResponse_def Let_def callOpenAI_no_key callOpenAI_with_key
        direct_catch_def seq_simps answered_quiet answered_Inl split: json.splits)

lemma ExecuteMCPCall_total:
  "\<exists>s t'. ExecuteMCPCall e n h m cfgs k quiet t = (Inr s, t')"
  by (cases "truthy_key k")
     (simp_all add: ExecuteMCPCall_def Let_def callOpenAI_no_key callOpenAI_with_key
        execute_catch_def seq_simps answered_quiet answered_Inl split: json.splits)

lemma FormatResponse_total:
  "\<exists>s t'. FormatResponse e h m r k quiet t = (Inr s, t')"
  by (cases "truthy_key k")
     (simp_all add: FormatResponse_def Let_def callOpenAI_no_key callOpenAI_with_key
        format_catch_def seq_simps answered_quiet answered_Inl split: json.splits)

lemma finish_quiet:
  "finish quiet (Inr response, t) = (Inr response, t @ [SetLogs ''*==== Chatbot Process Complete ====*''])"
  "finish setLogs (Inl err, t) = (Inl err, t)"
  by (simp_all add: finish_def seq_simps)

lemma chatbot_catch_quiet:
  "chatbot_catch quiet err t =
     (Inr (''Sorry, I encountered an error while processing your request: '' @ err),
      t @ [SetLogs (error_line err)])"
  by (simp add: chatbot_catch_def seq_simps)

lemma complete_quiet:
  "complete quiet (Inr response, t) = (Inr response, t @ [SetLogs ''*==== Chatbot Process Complete ====*''])"
  "complete quiet (Inl err, t) = chatbot_catch quiet err t"
  by (simp_all add: complete_def finish_quiet seq_simps)

lemma complete_total: "\<exists>s t'. complete quiet r = (Inr s, t')"
proof (cases r)
  case (Pair a u)
  then show ?thesis
    by (cases a) (simp_all add: complete_quiet chatbot_catch_quiet)
qed

lemma Chatbot_with_quiet:
  "Chatbot_with ev ex dr fm e h m cfgs k quiet t =
     (case ev h m cfgs k quiet (t @ chatbot_start m) of
        (Inl err, t1) \<Rightarrow> chatbot_catch quiet err t1
      | (Inr d, t1) \<Rightarrow>
          if d = JNull then
            chatbot_catch quiet ''Cannot destructure property 'needsMCP' of null'' t1
          else if truthy (get_prop d ''needsMCP'') \<and> truthy (get_prop d ''serverName'') then
            (case display e (get_prop d ''serverName'') of
               None \<Rightarrow> chatbot_catch quiet to_primitive_error t1
             | Some n \<Rightarrow>
                 (case display e (get_prop d ''reasoning'') of
                    None \<Rightarrow> chatbot_catch quiet to_primitive_error t1
                  | Some why \<Rightarrow>
                      (case ex n h m cfgs k quiet (t1 @ map SetLogs (tool_lines n why)) of
                         (Inl err, t2) \<Rightarrow> chatbot_catch quiet err t2
                       | (Inr r, t2) \<Rightarrow>
                           complete quiet
                             (fm h m r k quiet
                                (t2 @ [SetLogs ''*STEP 3: Formatting response with MCP results...*''])))))
          else
            (case display e (get_prop d ''reasoning'') of
               None \<Rightarrow> chatbot_catch quiet to_primitive_error t1
             | Some why \<Rightarrow> complete quiet (dr h m k quiet (t1 @ map SetLogs (direct_lines why)))))"
  by (simp add: Chatbot_with_def chatbot_try_def seq_simps chatbot_start_def complete_def
        split: prod.splits sum.splits option.splits)

lemma Chatbot_with_total:
  "\<exists>s t'. Chatbot_with ev ex dr fm e h m cfgs k quiet t = (Inr s, t')"
  unfolding Chatbot_with_quiet
  by (auto simp add: chatbot_catch_quiet complete_total split: prod.splits sum.splits option.splits)

lemma Chatbot_total: "\<exists>s t'. Chatbot e h m cfgs k quiet t = (Inr s, t')"
  by (simp add: Chatbot_def Chatbot_with_total)

lemma process_catch_quiet:
  "process_catch quiet err t =
     (Inr process_apology, t @ [SetLogs (''*Error processing message: '' @ err @ ''*'')])"
  by (simp add: process_catch_def seq_simps)

lemma processMessage_quiet:
  "processMessage e h m k quiet t =
     (case config_json e of
        ConfigThrows msg \<Rightarrow> process_catch quiet msg (t @ [FetchConfig])
      | ConfigNotOk st \<Rightarrow>
          process_catch quiet (''Failed to fetch configuration: '' @ st) (t @ [FetchConfig])
      | ConfigOk None \<Rightarrow>
          process_catch quiet ''Cannot convert undefined or null to object'' (t @ [FetchConfig])
      | ConfigOk (Some mcpServers) \<Rightarrow>
          Chatbot e h m mcpServers k quiet (t @ [FetchConfig, SetLogs (loaded_line mcpServers)]))"
proof (cases "config_json e")
  case (ConfigOk reg)
  show ?thesis
  proof (cases reg)
    case None
    with ConfigOk show ?thesis by (simp add: processMessage_def seq_simps)
  next
    case (Some cfgs)
    obtain s u where "Chatbot e h m cfgs k quiet (t @ [FetchConfig, SetLogs (loaded_line cfgs)]) = (Inr s, u)"
      using Chatbot_total by blast
    with ConfigOk Some show ?thesis by (simp add: processMessage_def seq_simps)
  qed
qed (simp_all add: processMessage_def seq_simps)

lemma processMessage_total: "\<exists>s t'. processMessage e h m k quiet t = (Inr s, t')"
  unfolding processMessage_quiet
  by (auto simp add: process_catch_quiet Chatbot_total
           split: config_result.splits option.splits)

subsection \<open>The formatting stage\<close>

lemma answered_cases:
  "answered setLogs what (Inr v, t) =
     (case v of
        JStr response \<Rightarrow>
          and_then (say setLogs (received_lines what response) t) (\<lambda>t'. (Inr response, t'))
      | other \<Rightarrow> (Inl (not_a_string other), t))"
  by (simp add: answered_def split: json.splits)

lemma say_from: "say setLogs lines [] = (a, u) \<Longrightarrow> say setLogs lines t = (a, t @ u)"
  using say_trace [of setLogs lines t] by simp

text \<open>
  A stage that logs, asks the model for text and has a \<^verbatim>\<open>catch\<close> clause that logs one line
  and answers a fixed text: its outcome does not depend on the trace it starts from.
\<close>

lemma text_stage_trace:
  assumes "\<And>err u. handler err u = and_then (say setLogs [caught err] u) (\<lambda>t'. (Inr fixed, t'))"
  shows "and_then (say setLogs lines t)
           (\<lambda>t1. try_catch (answered setLogs what (callOpenAI e p k False t1)) handler)
         = (fst (and_then (say setLogs lines [])
                   (\<lambda>t1. try_catch (answered setLogs what (callOpenAI e p k False t1)) handler)),
            t @ snd (and_then (say setLogs lines [])
                   (\<lambda>t1. try_catch (answered setLogs what (callOpenAI e p k False t1)) handler)))"
proof -
  obtain a u where s: "say setLogs lines [] = (a, u)" by (cases "say setLogs lines []")
  note s' = say_from [OF s, of t]
  have h: "handler err (t @ v) = (fst (handler err v), t @ snd (handler err v))" for err v
    unfolding assms
    by (simp add: say.simps and_then_def split: option.splits)
  show ?thesis
  proof (cases a)
    case (Inl err)
    with s s' show ?thesis by (simp add: and_then_Inl)
  next
    case (Inr x)
    show ?thesis
    proof (cases "truthy_key k")
      case False
      with Inr s s' h [of "''OpenAI API key is required''" u] show ?thesis
        by (simp add: and_then_Inr callOpenAI_no_key answered_Inl try_catch_Inl)
    next
      case True
      let ?v = "client_answer e False (completion e p False)"
      let ?w = "u @ [FetchCompletion p False]"
      show ?thesis
      proof (cases ?v)
        case (JStr response)
        obtain b w where r: "say setLogs (received_lines what response) [] = (b, w)"
          by (cases "say setLogs (received_lines what response) []")
        note r1 = say_from [OF r, of "t @ ?w"]
        note r2 = say_from [OF r, of ?w]
        show ?thesis
        proof (cases b)
          case (Inl err)
          with Inr s s' True JStr r1 r2 h [of err "?w @ w"] show ?thesis
            by (simp add: and_then_Inr and_then_Inl callOpenAI_with_key answered_cases try_catch_Inl)
        next
          case (Inr y)
          with \<open>a = Inr x\<close> s s' True JStr r1 r2 show ?thesis
            by (simp add: and_then_Inr callOpenAI_with_key answered_cases try_catch_Inr)
        qed
      qed (use Inr s s' True h [of _ ?w] in
             \<open>simp_all add: and_then_Inr callOpenAI_with_key answered_cases try_catch_Inl\<close>)
    qed
  qed
qed

lemma FormatResponse_trace:
  "FormatResponse e h m r k setLogs t =
     (fst (FormatResponse e h m r k setLogs []), t @ snd (FormatResponse e h m r k setLogs []))"
  unfolding FormatResponse_def
  by (rule text_stage_trace [where fixed = format_apology
         and caught = "\<lambda>err. ''*Response formatting error: '' @ err @ ''*''"])
     (simp add: format_catch_def)

lemma FormatResponse_env:
  assumes "completion e (format_prompt h m r) False = completion e' (format_prompt h m r) False"
  shows "FormatResponse e h m r k setLogs t = FormatResponse e' h m r k setLogs t"
proof (cases "truthy_key k")
  case True
  have "client_answer e False (completion e (format_prompt h m r) False)
          = client_answer e' False (completion e' (format_prompt h m r) False)"
    using assms client_answer_text_env [of e _ e'] by simp
  with True show ?thesis
    by (simp add: FormatResponse_def callOpenAI_with_key)
next
  case False
  then show ?thesis by (simp add: FormatResponse_def callOpenAI_no_key)
qed

text \<open>
  Claim C9: with a deterministic model stub, \<^verbatim>\<open>FormatResponse\<close> is deterministic. The stub
  is the function \<open>completion e\<close> from requests to answers. Two calls with the same history,
  message, tool result, credential and log sink have the same outcome (the same string
  returned, or the same error of the log sink thrown) whatever the log sink and the
  endpoint have seen before (the traces \<open>t\<close> and \<open>t'\<close>), and they add the same events to the
  trace. The outcome depends on the stub only through its answer to the one request that
  the stage sends.
\<close>

theorem FormatResponse_deterministic:
  "fst (FormatResponse e h m r k setLogs t) = fst (FormatResponse e h m r k setLogs t')
   \<and> snd (FormatResponse e h m r k setLogs t) = t @ snd (FormatResponse e h m r k setLogs [])
   \<and> (completion e (format_prompt h m r) False = completion e' (format_prompt h m r) False
        \<longrightarrow> fst (FormatResponse e h m r k setLogs t) = fst (FormatResponse e' h m r k setLogs t'))"
proof -
  have a: "fst (FormatResponse e h m r k setLogs u) = fst (FormatResponse e h m r k setLogs [])" for e u
    by (subst FormatResponse_trace) simp
  have b: "snd (FormatResponse e h m r k setLogs t) = t @ snd (FormatResponse e h m r k setLogs [])"
    by (subst FormatResponse_trace) simp
  have c: "completion e (format_prompt h m r) False = completion e' (format_prompt h m r) False
        \<longrightarrow> fst (FormatResponse e h m r k setLogs []) = fst (FormatResponse e' h m r k setLogs [])"
    using FormatResponse_env [of e h m r e' k setLogs "[]"] by simp
  from a [of e t] a [of e t'] a [of e' t'] b c show ?thesis by simp
qed

theorem FormatResponse_deterministic_witness:
  "fst (FormatResponse (demo_env (FetchOk (Some ''It is sunny.''))) [] ''weather?'' ''sunny''
          (Some ''sk-test'') quiet [])
     = fst (FormatResponse (demo_env (FetchOk (Some ''It is sunny.''))) [] ''weather?'' ''sunny''
              (Some ''sk-test'') quiet [SetLogs ''earlier''])
   \<and> fst (FormatResponse (demo_env (FetchOk (Some ''It is sunny.''))) [] ''weather?'' ''sunny''
            (Some ''sk-test'') quiet [])
     = Inr ''It is sunny.''
   \<and> fst (FormatResponse (demo_env (FetchOk (Some ''It is sunny.''))) [] ''weather?'' ''sunny''
            (Some ''sk-test'') broken [])
     = fst (FormatResponse (demo_env (FetchOk (Some ''It is sunny.''))) [] ''weather?'' ''sunny''
              (Some ''sk-test'') broken [SetLogs ''earlier''])
   \<and> fst (FormatResponse (demo_env (FetchOk (Some ''It is sunny.''))) [] ''weather?'' ''sunny''
            (Some ''sk-test'') broken [])
     = Inl ''log sink failed''"
proof -
  let ?e = "demo_env (FetchOk (Some ''It is sunny.''))"
  have a: "fst (FormatResponse ?e [] ''weather?'' ''sunny'' (Some ''sk-test'') quiet [])
             = Inr ''It is sunny.''"
    by (simp add: FormatResponse_def callOpenAI_def demo_env_def answered_quiet seq_simps)
  have b: "fst (FormatResponse ?e [] ''weather?'' ''sunny'' (Some ''sk-test'') broken [])
             = Inl ''log sink failed''"
    by (simp add: FormatResponse_def broken_def say.simps and_then_Inl)
  from FormatResponse_deterministic
         [of ?e "[]" "''weather?''" "''sunny''" "Some ''sk-test''" quiet "[]"
             "[SetLogs ''earlier'']" ?e]
       FormatResponse_deterministic
         [of ?e "[]" "''weather?''" "''sunny''" "Some ''sk-test''" broken "[]"
             "[SetLogs ''earlier'']" ?e]
       a b
  show ?thesis by simp
qed

subsection \<open>The decision stage\<close>

lemma map_of_assign: "map_of (assign kvs k v) = (map_of kvs)(k \<mapsto> v)"
  by (induction kvs k v rule: assign.induct) auto

lemma get_prop_set_prop:
  "get_prop (set_prop (JObj kvs) k v) k' = (if k' = k then Some v else get_prop (JObj kvs) k')"
  by (simp add: map_of_assign)

lemma truthy_prop_object: "truthy (get_prop d k) \<Longrightarrow> \<exists>kvs. d = JObj kvs"
  by (cases d) simp_all

lemma evaluate_catch_quiet:
  "evaluate_catch quiet err t =
     (Inr evaluation_fallback, t @ [SetLogs (''*Error during query evaluation: '' @ err @ ''*'')])"
  by (simp add: evaluate_catch_def seq_simps)

lemma EvaluateQuery_no_key:
  "\<not> truthy_key k \<Longrightarrow>
     EvaluateQuery e h m cfgs k quiet t =
       (Inr evaluation_fallback,
        t @ [SetLogs ''*Starting query evaluation process...*'',
             SetLogs ''*Generating prompt for query evaluation...*'',
             SetLogs ''*Sending request to LLM for query evaluation...*'',
             SetLogs ''*Error during query evaluation: OpenAI API key is required*''])"
  by (simp add: EvaluateQuery_def callOpenAI_no_key evaluate_catch_quiet seq_simps)

text \<open>
  The value of the body of the \<^verbatim>\<open>try\<close> block with its \<^verbatim>\<open>catch\<close> clause: the fallback when
  the answer is \<^verbatim>\<open>null\<close> or its \<^verbatim>\<open>reasoning\<close> has no conversion to a string, and the answer
  after the substitution step otherwise.
\<close>

lemma evaluate_result_value:
  "fst (try_catch (evaluate_result e quiet cfgs result t) (evaluate_catch quiet)) =
     Inr (if result = JNull \<or> display e (get_prop result ''reasoning'') = None
          then evaluation_fallback else substituted cfgs result)"
  by (simp add: evaluate_result_def evaluate_catch_quiet substituted_def Let_def hd_conv_nth
        seq_simps split: option.splits)

lemma EvaluateQuery_with_key:
  "truthy_key k \<Longrightarrow>
     fst (EvaluateQuery e h m cfgs k quiet t) =
       Inr (let result = client_answer e True (completion e (evaluate_prompt e h m cfgs) True)
            in if result = JNull \<or> display e (get_prop result ''reasoning'') = None
               then evaluation_fallback else substituted cfgs result)"
  by (simp add: EvaluateQuery_def Let_def callOpenAI_with_key evaluate_result_value seq_simps)

lemma EvaluateQuery_parsed:
  assumes "truthy_key k"
    and "completion e (evaluate_prompt e h m cfgs) True = FetchOk (Some text)"
    and "parse_response e text = result"
    and "result \<noteq> JNull"
    and "display e (get_prop result ''reasoning'') \<noteq> None"
  shows "fst (EvaluateQuery e h m cfgs k quiet t) = Inr (substituted cfgs result)"
  using assms by (auto simp add: EvaluateQuery_with_key)

lemma EvaluateQuery_unconvertible:
  assumes "truthy_key k"
    and "completion e (evaluate_prompt e h m cfgs) True = FetchOk (Some text)"
    and "parse_response e text = result"
    and "display e (get_prop result ''reasoning'') = None"
  shows "fst (EvaluateQuery e h m cfgs k quiet t) = Inr evaluation_fallback"
  using assms by (simp add: EvaluateQuery_with_key)

text \<open>
  What the stage returns has a \<^verbatim>\<open>reasoning\<close> that converts to a string, and is not
  \<^verbatim>\<open>null\<close>.
\<close>

lemma display_substituted:
  "display e (get_prop (substituted cfgs result) ''reasoning'') = display e (get_prop result ''reasoning'')"
proof (cases result)
  case (JObj kvs)
  show ?thesis
    unfolding JObj substituted_def
    by (simp add: get_prop_set_prop del: get_prop.simps set_prop.simps)
qed (simp_all add: substituted_def)

lemma substituted_null: "substituted cfgs result = JNull \<longleftrightarrow> result = JNull"
  by (cases result) (simp_all add: substituted_def)

lemma EvaluateQuery_decision:
  assumes "EvaluateQuery e h m cfgs k quiet t = (Inr d, t1)"
  shows "d \<noteq> JNull \<and> (\<exists>why. display e (get_prop d ''reasoning'') = Some why)"
proof (cases "truthy_key k")
  case False
  with assms show ?thesis by (auto simp add: EvaluateQuery_no_key evaluation_fallback_def)
next
  case True
  let ?r = "client_answer e True (completion e (evaluate_prompt e h m cfgs) True)"
  from assms have "fst (EvaluateQuery e h m cfgs k quiet t) = Inr d" by simp
  with True have d: "d = (if ?r = JNull \<or> display e (get_prop ?r ''reasoning'') = None
               then evaluation_fallback else substituted cfgs ?r)"
    by (simp add: EvaluateQuery_with_key Let_def)
  show ?thesis
  proof (cases "?r = JNull \<or> display e (get_prop ?r ''reasoning'') = None")
    case True
    with d show ?thesis by (simp add: evaluation_fallback_def)
  next
    case False
    with d have "d = substituted cfgs ?r" by simp
    with False show ?thesis by (auto simp add: display_substituted substituted_null)
  qed
qed

lemma demo_parse_decisions:
  "parse_response (demo_env reply) text_bogus = decision_bogus"
  "parse_response (demo_env reply) text_unnamed = decision_unnamed"
  by (simp_all add: parse_response_def demo_env_def demo_parse_def text_unnamed_def text_bogus_def)

lemma scenario_parse_decisions:
  "parse_response (scenario_env cfgs d a) text_weather = decision_weather"
  "parse_response (scenario_env cfgs d a) text_greeting = decision_greeting"
  "parse_response (scenario_env cfgs d a) text_odd_reasoning = decision_odd_reasoning"
  "parse_response (scenario_env cfgs d a) text_odd_name = decision_odd_name"
  by (simp_all add: parse_response_def scenario_env_def scenario_parse_def text_weather_def
        text_greeting_def text_odd_reasoning_def text_odd_name_def)

text \<open>
  Claim C6, as the specification states it: whenever the model reports \<^verbatim>\<open>needsMCP\<close> true
  and omits \<^verbatim>\<open>serverName\<close>, and the registry has a tool, the decision stage substitutes the
  first registered tool. The code does otherwise when the \<^verbatim>\<open>reasoning\<close> of the answer has no
  conversion to a string. For the answer
  \<^verbatim>\<open>{"needsMCP":true,"reasoning":{"toString":null}}\<close> and the registry with the one tool
  \<^verbatim>\<open>weather\<close>, the template literal of the reasoning log line throws a \<^verbatim>\<open>TypeError\<close> in front
  of the substitution step, and the \<^verbatim>\<open>catch\<close> clause returns its fallback: \<^verbatim>\<open>needsMCP\<close> false
  and no \<^verbatim>\<open>serverName\<close>.
\<close>

theorem EvaluateQuery_reasoning_object:
  "parse_response (scenario_env demo_registry text_odd_reasoning ''x'') text_odd_reasoning
     = JObj [(''needsMCP'', JBool True), (''reasoning'', JObj [(''toString'', JNull)])]
   \<and> demo_registry = [(''weather'', JObj [])]
   \<and> fst (EvaluateQuery (scenario_env demo_registry text_odd_reasoning ''x'') []
            ''weather in Paris?'' demo_registry (Some ''sk-test'') quiet [])
     = Inr (JObj [(''needsMCP'', JBool False),
                  (''reasoning'', JStr ''Error during evaluation, falling back to direct response'')])"
proof -
  let ?e = "scenario_env demo_registry text_odd_reasoning ''x''"
  have p: "parse_response ?e text_odd_reasoning = decision_odd_reasoning"
    by (rule scenario_parse_decisions)
  have c: "completion ?e (evaluate_prompt ?e [] ''weather in Paris?'' demo_registry) True
             = FetchOk (Some text_odd_reasoning)"
    by (simp add: scenario_env_def)
  have "fst (EvaluateQuery ?e [] ''weather in Paris?'' demo_registry (Some ''sk-test'') quiet [])
          = Inr evaluation_fallback"
    by (rule EvaluateQuery_unconvertible [OF _ c p]) (simp_all add: decision_odd_reasoning_def)
  with p show ?thesis
    by (simp add: decision_odd_reasoning_def demo_registry_def evaluation_fallback_def)
qed

text \<open>
  Claim C6, amended: let the log sink return on every line. When the model reports
  \<^verbatim>\<open>needsMCP\<close> true and omits \<^verbatim>\<open>serverName\<close>, the \<^verbatim>\<open>reasoning\<close> of its answer converts to a
  string, and the registry has at least one tool, the decision stage sets \<^verbatim>\<open>serverName\<close> to
  the first key of the registry in the order of \<^verbatim>\<open>Object.keys\<close>. Every other property of
  the decision is the model's.
\<close>

theorem EvaluateQuery_substitutes_first:
  assumes "truthy_key k"
    and "completion e (evaluate_prompt e h m cfgs) True = FetchOk (Some text)"
    and "parse_response e text = result"
    and "truthy (get_prop result ''needsMCP'')"
    and "get_prop result ''serverName'' = None"
    and "cfgs \<noteq> []"
    and "display e (get_prop result ''reasoning'') = Some why"
  shows "\<exists>d. fst (EvaluateQuery e h m cfgs k quiet t) = Inr d
           \<and> get_prop d ''serverName'' = Some (JStr (fst (hd cfgs)))
           \<and> fst (hd cfgs) \<in> set (map fst cfgs)
           \<and> (\<forall>key. key \<noteq> ''serverName'' \<longrightarrow> get_prop d key = get_prop result key)"
proof -
  from assms(4) obtain kvs where obj: "result = JObj kvs"
    using truthy_prop_object by blast
  then have "result \<noteq> JNull" by simp
  with assms have "fst (EvaluateQuery e h m cfgs k quiet t) = Inr (substituted cfgs result)"
    by (simp add: EvaluateQuery_parsed)
  moreover have "substituted cfgs result = set_prop result ''serverName'' (JStr (fst (hd cfgs)))"
    using assms by (simp add: substituted_def)
  moreover have "fst (hd cfgs) \<in> set (map fst cfgs)"
    using assms(6) by simp
  ultimately show ?thesis
    unfolding obj by (simp add: get_prop_set_prop del: get_prop.simps set_prop.simps)
qed

theorem EvaluateQuery_substitutes_first_witness:
  "\<exists>d. fst (EvaluateQuery (demo_env (FetchOk (Some text_unnamed))) [] ''weather in Paris?''
              demo_registry (Some ''sk-test'') quiet []) = Inr d
       \<and> get_prop d ''serverName'' = Some (JStr ''weather'')"
proof -
  let ?e = "demo_env (FetchOk (Some text_unnamed))"
  have k: "truthy_key (Some ''sk-test'')" by simp
  have c: "completion ?e (evaluate_prompt ?e [] ''weather in Paris?'' demo_registry) True
             = FetchOk (Some text_unnamed)"
    by (simp add: demo_env_def)
  have p: "parse_response ?e text_unnamed = decision_unnamed"
    by (rule demo_parse_decisions)
  have n: "truthy (get_prop decision_unnamed ''needsMCP'')"
    by (simp add: decision_unnamed_def)
  have s: "get_prop decision_unnamed ''serverName'' = None"
    by (simp add: decision_unnamed_def)
  have r: "demo_registry \<noteq> []" by (simp add: demo_registry_def)
  have w: "display ?e (get_prop decision_unnamed ''reasoning'') = Some ''r''"
    by (simp add: decision_unnamed_def)
  show ?thesis
    using EvaluateQuery_substitutes_first [OF k c p n s r w, of "[]"]
    by (auto simp add: demo_registry_def)
qed

text \<open>
  Claim C1, as the specification states it: whenever \<^verbatim>\<open>needsMCP\<close> is true, the
  \<^verbatim>\<open>serverName\<close> of the decision keys into the registry, a name that does not being replaced
  by the first registered tool. The code does otherwise. On the registry with the one tool
  \<^verbatim>\<open>weather\<close>, the model's choice \<^verbatim>\<open>bogus\<close> is returned as it is; and on the empty registry
  a decision without a name keeps having none.
\<close>

theorem EvaluateQuery_keeps_unknown_name:
  "fst (EvaluateQuery (demo_env (FetchOk (Some text_bogus))) [] ''weather in Paris?'' demo_registry
          (Some ''sk-test'') quiet [])
     = Inr (JObj [(''needsMCP'', JBool True), (''serverName'', JStr ''bogus''),
                  (''reasoning'', JStr ''r'')])
   \<and> ''bogus'' \<notin> set (map fst demo_registry)
   \<and> fst (EvaluateQuery (demo_env (FetchOk (Some text_unnamed))) [] ''weather in Paris?'' []
            (Some ''sk-test'') quiet [])
     = Inr (JObj [(''needsMCP'', JBool True), (''reasoning'', JStr ''r'')])"
proof -
  let ?e = "demo_env (FetchOk (Some text_bogus))"
  let ?e' = "demo_env (FetchOk (Some text_unnamed))"
  have c: "completion ?e (evaluate_prompt ?e [] ''weather in Paris?'' demo_registry) True
             = FetchOk (Some text_bogus)"
    by (simp add: demo_env_def)
  have p: "parse_response ?e text_bogus = decision_bogus"
    by (rule demo_parse_decisions)
  have "fst (EvaluateQuery ?e [] ''weather in Paris?'' demo_registry (Some ''sk-test'') quiet [])
          = Inr (substituted demo_registry decision_bogus)"
    by (rule EvaluateQuery_parsed [OF _ c p]) (simp_all add: decision_bogus_def)
  then have one:
    "fst (EvaluateQuery ?e [] ''weather in Paris?'' demo_registry (Some ''sk-test'') quiet [])
       = Inr (JObj [(''needsMCP'', JBool True), (''serverName'', JStr ''bogus''),
                    (''reasoning'', JStr ''r'')])"
    by (simp add: substituted_def decision_bogus_def)
  have c': "completion ?e' (evaluate_prompt ?e' [] ''weather in Paris?'' []) True
             = FetchOk (Some text_unnamed)"
    by (simp add: demo_env_def)
  have p': "parse_response ?e' text_unnamed = decision_unnamed"
    by (rule demo_parse_decisions)
  have "fst (EvaluateQuery ?e' [] ''weather in Paris?'' [] (Some ''sk-test'') quiet [])
          = Inr (substituted [] decision_unnamed)"
    by (rule EvaluateQuery_parsed [OF _ c' p']) (simp_all add: decision_unnamed_def)
  then have two:
    "fst (EvaluateQuery ?e' [] ''weather in Paris?'' [] (Some ''sk-test'') quiet [])
       = Inr (JObj [(''needsMCP'', JBool True), (''reasoning'', JStr ''r'')])"
    by (simp add: substituted_def decision_unnamed_def)
  have "''bogus'' \<notin> set (map fst demo_registry)"
    by (simp add: demo_registry_def)
  with one two show ?thesis by blast
qed

text \<open>
  Claim C1, amended: let the log sink return on every line, and let the model's answer
  report \<^verbatim>\<open>needsMCP\<close> true. When the \<^verbatim>\<open>reasoning\<close> of the answer has no conversion to a
  string, the stage returns its fallback, with \<^verbatim>\<open>needsMCP\<close> false. Otherwise a
  \<^verbatim>\<open>serverName\<close> that the model supplies is kept, and the answer returned as it is, whether
  or not the name keys into the registry; a missing (or falsy) \<^verbatim>\<open>serverName\<close> is replaced by
  the first key of a registry that is not empty, which is then a key of the registry; and
  on the empty registry the answer is returned unchanged.
\<close>

theorem EvaluateQuery_serverName:
  "truthy_key k
     \<and> completion e (evaluate_prompt e h m cfgs) True = FetchOk (Some resultText)
     \<and> parse_response e resultText = result
     \<and> truthy (get_prop result ''needsMCP'') \<longrightarrow>
   (display e (get_prop result ''reasoning'') = None \<longrightarrow>
      fst (EvaluateQuery e h m cfgs k quiet t) = Inr evaluation_fallback)
   \<and> (display e (get_prop result ''reasoning'') \<noteq> None
        \<and> truthy (get_prop result ''serverName'') \<longrightarrow>
      fst (EvaluateQuery e h m cfgs k quiet t) = Inr result)
   \<and> (display e (get_prop result ''reasoning'') \<noteq> None
        \<and> \<not> truthy (get_prop result ''serverName'') \<and> cfgs \<noteq> [] \<longrightarrow>
      (\<exists>d. fst (EvaluateQuery e h m cfgs k quiet t) = Inr d
         \<and> get_prop d ''serverName'' = Some (JStr (fst (hd cfgs)))
         \<and> fst (hd cfgs) \<in> set (map fst cfgs)
         \<and> (\<forall>key. key \<noteq> ''serverName'' \<longrightarrow> get_prop d key = get_prop result key)))
   \<and> (display e (get_prop result ''reasoning'') \<noteq> None
        \<and> \<not> truthy (get_prop result ''serverName'') \<and> cfgs = [] \<longrightarrow>
      fst (EvaluateQuery e h m cfgs k quiet t) = Inr result)"
proof (intro impI)
  assume asm: "truthy_key k
        \<and> completion e (evaluate_prompt e h m cfgs) True = FetchOk (Some resultText)
        \<and> parse_response e resultText = result
        \<and> truthy (get_prop result ''needsMCP'')"
  then have needs: "truthy (get_prop result ''needsMCP'')" by simp
  then obtain kvs where obj: "result = JObj kvs"
    using truthy_prop_object by blast
  then have nn: "result \<noteq> JNull" by simp
  have a: "display e (get_prop result ''reasoning'') = None \<longrightarrow>
      fst (EvaluateQuery e h m cfgs k quiet t) = Inr evaluation_fallback"
    using asm by (simp add: EvaluateQuery_unconvertible)
  have run: "display e (get_prop result ''reasoning'') \<noteq> None \<longrightarrow>
      fst (EvaluateQuery e h m cfgs k quiet t) = Inr (substituted cfgs result)"
    using asm nn by (simp add: EvaluateQuery_parsed)
  have b: "truthy (get_prop result ''serverName'') \<longrightarrow> substituted cfgs result = result"
    by (simp add: substituted_def)
  have c: "\<not> truthy (get_prop result ''serverName'') \<and> cfgs = [] \<longrightarrow>
      substituted cfgs result = result"
    by (simp add: substituted_def)
  have d: "\<not> truthy (get_prop result ''serverName'') \<and> cfgs \<noteq> [] \<longrightarrow>
      get_prop (substituted cfgs result) ''serverName'' = Some (JStr (fst (hd cfgs)))
      \<and> fst (hd cfgs) \<in> set (map fst cfgs)
      \<and> (\<forall>key. key \<noteq> ''serverName'' \<longrightarrow>
            get_prop (substituted cfgs result) key = get_prop result key)"
    using needs unfolding obj substituted_def
    by (simp add: get_prop_set_prop del: get_prop.simps set_prop.simps)
  from a run b c d
  show "(display e (get_prop result ''reasoning'') = None \<longrightarrow>
      fst (EvaluateQuery e h m cfgs k quiet t) = Inr evaluation_fallback)
   \<and> (display e (get_prop result ''reasoning'') \<noteq> None
        \<and> truthy (get_prop result ''serverName'') \<longrightarrow>
      fst (EvaluateQuery e h m cfgs k quiet t) = Inr result)
   \<and> (display e (get_prop result ''reasoning'') \<noteq> None
        \<and> \<not> truthy (get_prop result ''serverName'') \<and> cfgs \<noteq> [] \<longrightarrow>
      (\<exists>d. fst (EvaluateQuery e h m cfgs k quiet t) = Inr d
         \<and> get_prop d ''serverName'' = Some (JStr (fst (hd cfgs)))
         \<and> fst (hd cfgs) \<in> set (map fst cfgs)
         \<and> (\<forall>key. key \<noteq> ''serverName'' \<longrightarrow> get_prop d key = get_prop result key)))
   \<and> (display e (get_prop result ''reasoning'') \<noteq> None
        \<and> \<not> truthy (get_prop result ''serverName'') \<and> cfgs = [] \<longrightarrow>
      fst (EvaluateQuery e h m cfgs k quiet t) = Inr result)"
    by (intro conjI impI) (auto simp del: not_None_eq)
qed

theorem EvaluateQuery_serverName_witness:
  "fst (EvaluateQuery (demo_env (FetchOk (Some text_bogus))) [] ''weather in Paris?''
          demo_registry (Some ''sk-test'') quiet []) = Inr decision_bogus
   \<and> (\<exists>d. fst (EvaluateQuery (demo_env (FetchOk (Some text_unnamed))) [] ''weather in Paris?''
                 demo_registry (Some ''sk-test'') quiet []) = Inr d
          \<and> get_prop d ''serverName'' = Some (JStr ''weather''))
   \<and> fst (EvaluateQuery (demo_env (FetchOk (Some text_unnamed))) [] ''weather in Paris?''
            [] (Some ''sk-test'') quiet []) = Inr decision_unnamed
   \<and> fst (EvaluateQuery (scenario_env demo_registry text_odd_reasoning ''x'') []
            ''weather in Paris?'' demo_registry (Some ''sk-test'') quiet [])
       = Inr evaluation_fallback"
proof -
  let ?e = "demo_env (FetchOk (Some text_bogus))"
  let ?e' = "demo_env (FetchOk (Some text_unnamed))"
  let ?o = "scenario_env demo_registry text_odd_reasoning ''x''"
  have k: "truthy_key (Some ''sk-test'')" by simp
  have c: "completion ?e (evaluate_prompt ?e [] ''weather in Paris?'' demo_registry) True
             = FetchOk (Some text_bogus)"
    by (simp add: demo_env_def)
  have p: "parse_response ?e text_bogus = decision_bogus"
    by (rule demo_parse_decisions)
  have n: "truthy (get_prop decision_bogus ''needsMCP'')"
    by (simp add: decision_bogus_def)
  have s: "display ?e (get_prop decision_bogus ''reasoning'') \<noteq> None
           \<and> truthy (get_prop decision_bogus ''serverName'')"
    by (simp add: decision_bogus_def)
  have c': "completion ?e' (evaluate_prompt ?e' [] ''weather in Paris?'' cfgs) True
             = FetchOk (Some text_unnamed)" for cfgs
    by (simp add: demo_env_def)
  have p': "parse_response ?e' text_unnamed = decision_unnamed"
    by (rule demo_parse_decisions)
  have n': "truthy (get_prop decision_unnamed ''needsMCP'')"
    by (simp add: decision_unnamed_def)
  have s': "display ?e' (get_prop decision_unnamed ''reasoning'') \<noteq> None
            \<and> \<not> truthy (get_prop decision_unnamed ''serverName'') \<and> demo_registry \<noteq> []"
    by (simp add: decision_unnamed_def demo_registry_def)
  have co: "completion ?o (evaluate_prompt ?o [] ''weather in Paris?'' demo_registry) True
             = FetchOk (Some text_odd_reasoning)"
    by (simp add: scenario_env_def)
  have po: "parse_response ?o text_odd_reasoning = decision_odd_reasoning"
    by (rule scenario_parse_decisions)
  have no: "truthy (get_prop decision_odd_reasoning ''needsMCP'')"
    by (simp add: decision_odd_reasoning_def)
  have so: "display ?o (get_prop decision_odd_reasoning ''reasoning'') = None"
    by (simp add: decision_odd_reasoning_def)
  from EvaluateQuery_serverName
         [where e = ?e and h = "[]" and m = "''weather in Paris?''" and cfgs = demo_registry
            and k = "Some ''sk-test''" and t = "[]" and resultText = text_bogus
            and result = decision_bogus]
       k c p n s
  have one: "fst (EvaluateQuery ?e [] ''weather in Paris?'' demo_registry (Some ''sk-test'') quiet [])
               = Inr decision_bogus"
    by blast
  from EvaluateQuery_serverName
         [where e = ?e' and h = "[]" and m = "''weather in Paris?''" and cfgs = demo_registry
            and k = "Some ''sk-test''" and t = "[]" and resultText = text_unnamed
            and result = decision_unnamed]
       k c' p' n' s'
  have two: "\<exists>d. fst (EvaluateQuery ?e' [] ''weather in Paris?'' demo_registry
                        (Some ''sk-test'') quiet []) = Inr d
               \<and> get_prop d ''serverName'' = Some (JStr ''weather'')"
    by (auto simp add: demo_registry_def)
  from EvaluateQuery_serverName
         [where e = ?e' and h = "[]" and m = "''weather in Paris?''" and cfgs = "[]"
            and k = "Some ''sk-test''" and t = "[]" and resultText = text_unnamed
            and result = decision_unnamed]
       k c' p' n' s'
  have three: "fst (EvaluateQuery ?e' [] ''weather in Paris?'' [] (Some ''sk-test'') quiet [])
                 = Inr decision_unnamed"
    by blast
  from EvaluateQuery_serverName
         [where e = ?o and h = "[]" and m = "''weather in Paris?''" and cfgs = demo_registry
            and k = "Some ''sk-test''" and t = "[]" and resultText = text_odd_reasoning
            and result = decision_odd_reasoning]
       k co po no so
  have four: "fst (EvaluateQuery ?o [] ''weather in Paris?'' demo_registry (Some ''sk-test'') quiet [])
                = Inr evaluation_fallback"
    by blast
  from one two three four show ?thesis by blast
qed

lemma GenerateDirectResponse_no_key:
  "\<not> truthy_key k \<Longrightarrow> fst (GenerateDirectResponse e h m k quiet t) = Inr apology"
  by (simp add: GenerateDirectResponse_def callOpenAI_no_key direct_catch_def answered_Inl seq_simps)

lemma complete_value: "fst r = Inr s \<Longrightarrow> fst (complete quiet r) = Inr s"
  by (cases r) (simp add: complete_quiet)

lemma Chatbot_no_key: 
  assumes "\<not> truthy_key k"
  shows "fst (Chatbot e h m cfgs k quiet t) = Inr apology"
proof -
  have "fst (complete quiet (GenerateDirectResponse e h m k quiet u)) = Inr apology" for u
    using assms by (simp add: complete_value GenerateDirectResponse_no_key)
  then show ?thesis
    using assms
    by (simp add: Chatbot_def Chatbot_with_quiet EvaluateQuery_no_key evaluation_fallback_def)
qed

lemma processMessage_no_key:
  assumes "\<not> truthy_key k"
  shows "fst (processMessage e h m k quiet t) = Inr apology
         \<or> fst (processMessage e h m k quiet t) = Inr process_apology"
  unfolding processMessage_quiet
  by (simp add: process_catch_quiet Chatbot_no_key [OF assms]
        split: config_result.splits option.splits)

lemma sentinel_props:
  "get_prop (sentinel_raw text) ''needsMCP'' = Some (JBool False)"
  "get_prop sentinel_none ''needsMCP'' = Some (JBool False)"
  "get_prop (sentinel_raw text) ''reasoning'' =
     Some (JStr (''Fallback due to JSON parsing error. Raw response: '' @ take 100 text))"
  "get_prop sentinel_none ''reasoning'' =
     Some (JStr ''Fallback due to JSON parsing error. No JSON pattern found.'')"
  by (simp_all add: sentinel_raw_def sentinel_none_def)

lemma substituted_not_needed:
  "\<not> truthy (get_prop result ''needsMCP'') \<Longrightarrow> substituted cfgs result = result"
  by (simp add: substituted_def)

text \<open>
  Claim C5: on every failure of the model call the decision stage returns a decision with
  \<^verbatim>\<open>needsMCP\<close> false and a reasoning that describes the failure. The log sink returns on
  every line.
  \<^item> Credential absent: the reasoning is \<^verbatim>\<open>Error during evaluation, falling back to
    direct response\<close>, and the message of the error goes to the log. \<^verbatim>\<open>Chatbot\<close> then
    returns the apology of the direct stage and \<^verbatim>\<open>processMessage\<close> a reply that is not
    empty.
  \<^item> Response that is not a success: the reasoning is \<^verbatim>\<open>Fallback due to error: OpenAI API
    error: \<close> with the upstream text; a rejected request gives \<^verbatim>\<open>Fallback due to error: \<close>
    with its message.
  \<^item> Parse sentinel: the sentinel is returned as the decision.
\<close>

theorem EvaluateQuery_failures:
  "(\<not> truthy_key k \<longrightarrow>
      fst (EvaluateQuery e h m cfgs k quiet t) =
        Inr (JObj [(''needsMCP'', JBool False),
                   (''reasoning'', JStr ''Error during evaluation, falling back to direct response'')])
      \<and> SetLogs ''*Error during query evaluation: OpenAI API key is required*''
            \<in> set (snd (EvaluateQuery e h m cfgs k quiet t))
      \<and> fst (Chatbot e h m cfgs k quiet t) = Inr apology
      \<and> (\<exists>reply. fst (processMessage e h m k quiet t) = Inr reply \<and> reply \<noteq> []))
   \<and> (truthy_key k \<and> completion e (evaluate_prompt e h m cfgs) True = FetchNotOk em st \<longrightarrow>
        fst (EvaluateQuery e h m cfgs k quiet t) =
          Inr (JObj [(''needsMCP'', JBool False),
                     (''reasoning'',
                      JStr (''Fallback due to error: OpenAI API error: '' @ upstream_text em st))]))
   \<and> (truthy_key k \<and> completion e (evaluate_prompt e h m cfgs) True = FetchThrows msg \<longrightarrow>
        fst (EvaluateQuery e h m cfgs k quiet t) =
          Inr (JObj [(''needsMCP'', JBool False),
                     (''reasoning'', JStr (''Fallback due to error: '' @ msg))]))
   \<and> (truthy_key k \<and> completion e (evaluate_prompt e h m cfgs) True = FetchOk (Some resultText)
        \<and> parse_response e resultText = sentinel_raw resultText \<longrightarrow>
        fst (EvaluateQuery e h m cfgs k quiet t) =
          Inr (JObj [(''needsMCP'', JBool False),
                     (''reasoning'',
                      JStr (''Fallback due to JSON parsing error. Raw response: ''
                            @ take 100 resultText))]))
   \<and> (truthy_key k \<and> completion e (evaluate_prompt e h m cfgs) True = FetchOk (Some resultText)
        \<and> parse_response e resultText = sentinel_none \<longrightarrow>
        fst (EvaluateQuery e h m cfgs k quiet t) =
          Inr (JObj [(''needsMCP'', JBool False),
                     (''reasoning'',
                      JStr ''Fallback due to JSON parsing error. No JSON pattern found.'')]))"
proof -
  have a: "\<not> truthy_key k \<longrightarrow>
      fst (EvaluateQuery e h m cfgs k quiet t) =
        Inr (JObj [(''needsMCP'', JBool False),
                   (''reasoning'', JStr ''Error during evaluation, falling back to direct response'')])
      \<and> SetLogs ''*Error during query evaluation: OpenAI API key is required*''
            \<in> set (snd (EvaluateQuery e h m cfgs k quiet t))"
    by (simp add: EvaluateQuery_no_key evaluation_fallback_def)
  have b: "\<not> truthy_key k \<longrightarrow> fst (Chatbot e h m cfgs k quiet t) = Inr apology"
    by (simp add: Chatbot_no_key)
  have c: "\<not> truthy_key k \<longrightarrow>
      (\<exists>reply. fst (processMessage e h m k quiet t) = Inr reply \<and> reply \<noteq> [])"
    using processMessage_no_key [of k e h m t]
    by (auto simp add: apology_def process_apology_def)
  have d: "truthy_key k \<and> completion e (evaluate_prompt e h m cfgs) True = FetchNotOk em st \<longrightarrow>
        fst (EvaluateQuery e h m cfgs k quiet t) =
          Inr (JObj [(''needsMCP'', JBool False),
                     (''reasoning'',
                      JStr (''Fallback due to error: OpenAI API error: '' @ upstream_text em st))])"
    by (simp add: EvaluateQuery_with_key client_fallback_def substituted_def)
  have f: "truthy_key k \<and> completion e (evaluate_prompt e h m cfgs) True = FetchThrows msg \<longrightarrow>
        fst (EvaluateQuery e h m cfgs k quiet t) =
          Inr (JObj [(''needsMCP'', JBool False),
                     (''reasoning'', JStr (''Fallback due to error: '' @ msg))])"
    by (simp add: EvaluateQuery_with_key client_fallback_def substituted_def)
  have g: "truthy_key k \<and> completion e (evaluate_prompt e h m cfgs) True = FetchOk (Some resultText)
        \<and> parse_response e resultText = sentinel_raw resultText \<longrightarrow>
        fst (EvaluateQuery e h m cfgs k quiet t) =
          Inr (JObj [(''needsMCP'', JBool False),
                     (''reasoning'',
                      JStr (''Fallback due to JSON parsing error. Raw response: ''
                            @ take 100 resultText))])"
    by (simp add: EvaluateQuery_with_key sentinel_raw_def substituted_def)
  have i: "truthy_key k \<and> completion e (evaluate_prompt e h m cfgs) True = FetchOk (Some resultText)
        \<and> parse_response e resultText = sentinel_none \<longrightarrow>
        fst (EvaluateQuery e h m cfgs k quiet t) =
          Inr (JObj [(''needsMCP'', JBool False),
                     (''reasoning'',
                      JStr ''Fallback due to JSON parsing error. No JSON pattern found.'')])"
    by (simp add: EvaluateQuery_with_key sentinel_none_def substituted_def)
  from a b c d f g i show ?thesis by blast
qed

theorem EvaluateQuery_failures_witness:
  "fst (EvaluateQuery (demo_env (FetchOk (Some ''hi''))) [] ''hello'' demo_registry None quiet [])
     = Inr (JObj [(''needsMCP'', JBool False),
                  (''reasoning'', JStr ''Error during evaluation, falling back to direct response'')])
   \<and> fst (Chatbot (demo_env (FetchOk (Some ''hi''))) [] ''hello'' demo_registry None quiet [])
       = Inr apology
   \<and> fst (EvaluateQuery (demo_env (FetchNotOk None ''Unauthorized'')) [] ''hello'' demo_registry
            (Some ''sk-test'') quiet [])
     = Inr (JObj [(''needsMCP'', JBool False),
                  (''reasoning'', JStr ''Fallback due to error: OpenAI API error: Unauthorized'')])
   \<and> fst (EvaluateQuery (demo_env (FetchThrows ''Failed to fetch'')) [] ''hello'' demo_registry
            (Some ''sk-test'') quiet [])
     = Inr (JObj [(''needsMCP'', JBool False),
                  (''reasoning'', JStr ''Fallback due to error: Failed to fetch'')])
   \<and> fst (EvaluateQuery (demo_env (FetchOk (Some ''Sure: {oops}''))) [] ''hello'' demo_registry
            (Some ''sk-test'') quiet [])
     = Inr (JObj [(''needsMCP'', JBool False),
                  (''reasoning'',
                   JStr ''Fallback due to JSON parsing error. Raw response: Sure: {oops}'')])
   \<and> fst (EvaluateQuery (demo_env (FetchOk (Some ''maybe''))) [] ''hello'' demo_registry
            (Some ''sk-test'') quiet [])
     = Inr (JObj [(''needsMCP'', JBool False),
                  (''reasoning'', JStr ''Fallback due to JSON parsing error. No JSON pattern found.'')])"
proof -
  have p: "parse_response (demo_env (FetchOk (Some ''maybe''))) ''maybe'' = sentinel_none"
    by (simp add: parse_response_def parse_extracted_def demo_env_def demo_parse_def text_bogus_def text_unnamed_def
          jsonMatch_def match_json_fence_def match_fence_def)
  have q: "parse_response (demo_env (FetchOk (Some ''Sure: {oops}''))) ''Sure: {oops}''
             = sentinel_raw ''Sure: {oops}''"
    by (simp add: parse_response_def parse_extracted_def demo_env_def demo_parse_def text_bogus_def text_unnamed_def
          jsonMatch_def match_json_fence_def match_fence_def greedy_to_brace_def trim_def is_space_def)
  show ?thesis
    using EvaluateQuery_failures
            [where k = None and e = "demo_env (FetchOk (Some ''hi''))" and h = "[]" and m = "''hello''"
               and cfgs = demo_registry and t = "[]"]
          EvaluateQuery_failures
            [where k = "Some ''sk-test''" and e = "demo_env (FetchNotOk None ''Unauthorized'')"
               and h = "[]" and m = "''hello''" and cfgs = demo_registry and t = "[]"
               and em = None and st = "''Unauthorized''"]
          EvaluateQuery_failures
            [where k = "Some ''sk-test''" and e = "demo_env (FetchThrows ''Failed to fetch'')"
               and h = "[]" and m = "''hello''" and cfgs = demo_registry and t = "[]"
               and msg = "''Failed to fetch''"]
          EvaluateQuery_failures
            [where k = "Some ''sk-test''" and e = "demo_env (FetchOk (Some ''Sure: {oops}''))"
               and h = "[]" and m = "''hello''" and cfgs = demo_registry and t = "[]"
               and resultText = "''Sure: {oops}''"]
          EvaluateQuery_failures
            [where k = "Some ''sk-test''" and e = "demo_env (FetchOk (Some ''maybe''))"
               and h = "[]" and m = "''hello''" and cfgs = demo_registry and t = "[]"
               and resultText = "''maybe''"]
          p q
    by (simp add: demo_env_def)
qed

subsection \<open>The direct path\<close>

lemma callOpenAI_no_execute_event:
  "filter execute_event (snd (callOpenAI e p k j t)) = filter execute_event t"
  by (simp add: callOpenAI_def)

lemma say_no_execute_event:
  "\<forall>line \<in> set lines. \<not> execute_event (SetLogs line) \<Longrightarrow>
     filter execute_event (snd (say setLogs lines t)) = filter execute_event t"
  by (induction lines arbitrary: t) (simp_all add: say.simps split: option.splits)

lemma EvaluateQuery_no_execute_event:
  "filter execute_event (snd (EvaluateQuery e h m cfgs k quiet t)) = filter execute_event t"
  by (cases "truthy_key k")
     (simp_all add: EvaluateQuery_def callOpenAI_no_key callOpenAI_with_key evaluate_catch_quiet
        evaluate_result_def seq_simps Let_def split: option.splits)

lemma GenerateDirectResponse_no_execute_event:
  "filter execute_event (snd (GenerateDirectResponse e h m k quiet t)) = filter execute_event t"
  by (cases "truthy_key k")
     (simp_all add: GenerateDirectResponse_def callOpenAI_no_key callOpenAI_with_key
        direct_catch_def received_lines_def answered_quiet answered_Inl seq_simps
        split: json.splits)

lemma complete_no_execute_event:
  "filter execute_event (snd (complete quiet r)) = filter execute_event (snd r)"
proof (cases r)
  case (Pair a u)
  then show ?thesis
    by (cases a) (simp_all add: complete_quiet chatbot_catch_quiet error_line_def)
qed

lemma ExecuteMCPCall_execute_event:
  "filter execute_event (snd (ExecuteMCPCall e n h m cfgs k quiet t))
     = filter execute_event t @ [SetLogs (''*Executing MCP call with server: '' @ n @ ''*'')]"
  by (cases "truthy_key k")
     (simp_all add: ExecuteMCPCall_def Let_def callOpenAI_no_key callOpenAI_with_key
        execute_catch_def received_lines_def answered_quiet answered_Inl seq_simps
        split: json.splits)

text \<open>
  Claim C10: when the decision has \<^verbatim>\<open>needsMCP\<close> true and no \<^verbatim>\<open>serverName\<close> (one that is
  not truthy), \<^verbatim>\<open>Chatbot\<close> takes the direct path. The log sink returns on every line. The
  outcome of \<^verbatim>\<open>Chatbot\<close> is that of \<^verbatim>\<open>GenerateDirectResponse\<close>, called after the three log
  lines of the direct path with the reasoning of the decision as a string, and followed by
  the closing log line; the outcome is the same whatever is put in the place of
  \<^verbatim>\<open>ExecuteMCPCall\<close> and \<^verbatim>\<open>FormatResponse\<close>; the trace shows the first log line of
  \<^verbatim>\<open>GenerateDirectResponse\<close> and no new invocation of \<^verbatim>\<open>ExecuteMCPCall\<close>.
\<close>

theorem Chatbot_direct_when_unnamed:
  assumes "EvaluateQuery e h m cfgs k quiet (t @ chatbot_start m) = (Inr d, t1)"
    and "truthy (get_prop d ''needsMCP'')"
    and "\<not> truthy (get_prop d ''serverName'')"
  shows "(\<exists>why. display e (get_prop d ''reasoning'') = Some why
            \<and> Chatbot e h m cfgs k quiet t =
                complete quiet
                  (GenerateDirectResponse e h m k quiet (t1 @ map SetLogs (direct_lines why))))
         \<and> Chatbot_with (EvaluateQuery e) ex (GenerateDirectResponse e) fm e h m cfgs k quiet t
             = Chatbot e h m cfgs k quiet t
         \<and> SetLogs ''*Generating direct response without MCP...*''
             \<in> set (snd (Chatbot e h m cfgs k quiet t))
         \<and> filter execute_event (snd (Chatbot e h m cfgs k quiet t)) = filter execute_event t"
proof -
  from EvaluateQuery_decision [OF assms(1)] obtain why where
    nn: "d \<noteq> JNull" and why: "display e (get_prop d ''reasoning'') = Some why"
    by blast
  let ?u = "t1 @ map SetLogs (direct_lines why)"
  from assms nn why have direct:
    "Chatbot_with (EvaluateQuery e) ex' (GenerateDirectResponse e) fm' e h m cfgs k quiet t
       = complete quiet (GenerateDirectResponse e h m k quiet ?u)" for ex' fm'
    by (simp add: Chatbot_with_quiet)
  then have run: "Chatbot e h m cfgs k quiet t
       = complete quiet (GenerateDirectResponse e h m k quiet ?u)"
    by (simp add: Chatbot_def)
  have "filter execute_event t1 = filter execute_event (t @ chatbot_start m)"
    using EvaluateQuery_no_execute_event [of e h m cfgs k "t @ chatbot_start m"] assms(1)
    by simp
  then have none: "filter execute_event (snd (Chatbot e h m cfgs k quiet t)) = filter execute_event t"
    by (simp add: run complete_no_execute_event GenerateDirectResponse_no_execute_event
          direct_lines_def chatbot_start_def chatbot_open_def step_one_def)
  obtain s u where g: "GenerateDirectResponse e h m k quiet ?u = (Inr s, u)"
    using GenerateDirectResponse_total by blast
  have "SetLogs ''*Generating direct response without MCP...*''
          \<in> set (snd (GenerateDirectResponse e h m k quiet ?u))"
    by (cases "truthy_key k")
       (simp_all add: GenerateDirectResponse_def callOpenAI_no_key callOpenAI_with_key
          direct_catch_def answered_quiet answered_Inl seq_simps split: json.splits)
  with g have "SetLogs ''*Generating direct response without MCP...*''
          \<in> set (snd (Chatbot e h m cfgs k quiet t))"
    by (simp add: run complete_quiet)
  with direct run none why show ?thesis by simp
qed

theorem Chatbot_direct_when_unnamed_witness:
  "fst (Chatbot (demo_env (FetchOk (Some text_unnamed))) [] ''weather in Paris?'' []
          (Some ''sk-test'') quiet [])
     = Inr text_unnamed
   \<and> filter execute_event
        (snd (Chatbot (demo_env (FetchOk (Some text_unnamed))) [] ''weather in Paris?'' []
                (Some ''sk-test'') quiet [])) = []"
proof -
  let ?e = "demo_env (FetchOk (Some text_unnamed))"
  let ?t = "[] @ chatbot_start ''weather in Paris?''"
  have c: "completion ?e (evaluate_prompt ?e [] ''weather in Paris?'' []) True
             = FetchOk (Some text_unnamed)"
    by (simp add: demo_env_def)
  have p: "parse_response ?e text_unnamed = decision_unnamed"
    by (rule demo_parse_decisions)
  have "fst (EvaluateQuery ?e [] ''weather in Paris?'' [] (Some ''sk-test'') quiet ?t)
          = Inr (substituted [] decision_unnamed)"
    by (rule EvaluateQuery_parsed [OF _ c p]) (simp_all add: decision_unnamed_def)
  then have ev: "EvaluateQuery ?e [] ''weather in Paris?'' [] (Some ''sk-test'') quiet ?t
              = (Inr decision_unnamed,
                 snd (EvaluateQuery ?e [] ''weather in Paris?'' [] (Some ''sk-test'') quiet ?t))"
    by (simp add: substituted_def prod_eq_iff)
  have n: "truthy (get_prop decision_unnamed ''needsMCP'')"
    by (simp add: decision_unnamed_def)
  have s: "\<not> truthy (get_prop decision_unnamed ''serverName'')"
    by (simp add: decision_unnamed_def)
  have g: "fst (complete quiet (GenerateDirectResponse ?e [] ''weather in Paris?'' (Some ''sk-test'') quiet u))
             = Inr text_unnamed" for u
    by (simp add: complete_value GenerateDirectResponse_def callOpenAI_def demo_env_def
          answered_quiet seq_simps)
  note run = Chatbot_direct_when_unnamed
                [OF ev n s, where ex = "ExecuteMCPCall ?e" and fm = "FormatResponse ?e"]
  from run obtain why where
    "Chatbot ?e [] ''weather in Paris?'' [] (Some ''sk-test'') quiet [] =
       complete quiet (GenerateDirectResponse ?e [] ''weather in Paris?'' (Some ''sk-test'') quiet
         (snd (EvaluateQuery ?e [] ''weather in Paris?'' [] (Some ''sk-test'') quiet ?t)
            @ map SetLogs (direct_lines why)))"
    by blast
  then have "fst (Chatbot ?e [] ''weather in Paris?'' [] (Some ''sk-test'') quiet []) = Inr text_unnamed"
    by (simp only: g)
  moreover from run have
    "filter execute_event (snd (Chatbot ?e [] ''weather in Paris?'' [] (Some ''sk-test'') quiet []))
       = filter execute_event []"
    by blast
  ultimately show ?thesis by simp
qed

subsection \<open>The tool execution stage\<close>

text \<open>A name that finds nothing, own or inherited: the error text, and no request.\<close>

lemma ExecuteMCPCall_not_found:
  "\<not> config_truthy (lookup_config cfgs n) \<Longrightarrow>
     ExecuteMCPCall e n h m cfgs k quiet t =
       (Inr (''Error: Could not find MCP server configuration for '' @ n),
        t @ [SetLogs (''*Executing MCP call with server: '' @ n @ ''*''),
             SetLogs (''*Error: MCP server configuration not found for '' @ n @ ''*'')])"
  by (simp add: ExecuteMCPCall_def Let_def seq_simps)

lemma lookup_config_None:
  "lookup_config cfgs n = None \<longleftrightarrow>
     n \<notin> set (map fst cfgs) \<and> n \<notin> set prototype_functions \<and> n \<noteq> ''__proto__''"
proof (cases "map_of cfgs n")
  case None
  then have "n \<notin> set (map fst cfgs)" by (simp add: map_of_eq_None_iff)
  with None show ?thesis by (simp add: lookup_config_def)
next
  case (Some v)
  then have "n \<in> set (map fst cfgs)"
    by (metis map_of_eq_None_iff option.distinct(1) set_map)
  with Some show ?thesis by (simp add: lookup_config_def)
qed

text \<open>An exception of the client inside the stage becomes the error text of the stage.\<close>

lemma ExecuteMCPCall_catches:
  assumes "config_truthy (lookup_config cfgs n)"
    and "fst (callOpenAI e
               (execute_prompt n (config_text (JSON_stringify e) (lookup_config cfgs n)) h m)
               k False u) = Inl err"
  shows "fst (ExecuteMCPCall e n h m cfgs k quiet t) = Inr (''Error executing MCP call: '' @ err)"
proof -
  from assms(2) have nk: "\<not> truthy_key k" and err: "err = ''OpenAI API key is required''"
    by (cases "truthy_key k"; simp add: callOpenAI_no_key callOpenAI_with_key)+
  with assms(1) show ?thesis
    by (simp add: ExecuteMCPCall_def Let_def callOpenAI_no_key execute_catch_def answered_Inl
          seq_simps)
qed

text \<open>With a configuration and a credential the stage returns the client's text.\<close>

lemma ExecuteMCPCall_found:
  assumes "config_truthy (lookup_config cfgs n)" and "truthy_key k"
  shows "fst (ExecuteMCPCall e n h m cfgs k quiet t) =
           Inr (let answer = client_answer e False
                  (completion e
                     (execute_prompt n (config_text (JSON_stringify e) (lookup_config cfgs n))
                        h m) False)
                in stage_text (''Error executing MCP call: '' @ not_a_string answer) answer)
         \<and> FetchCompletion
             (execute_prompt n (config_text (JSON_stringify e) (lookup_config cfgs n)) h m) False
             \<in> set (snd (ExecuteMCPCall e n h m cfgs k quiet t))"
  using assms
  by (simp add: ExecuteMCPCall_def Let_def callOpenAI_with_key execute_catch_def answered_quiet
        seq_simps split: json.splits)

text \<open>
  Claim C7 says that a tool name that is not a key of the registry is answered with an
  error text and without a request to the model. The lookup \<^verbatim>\<open>mcpConfigs[serverName]\<close>
  misses the names that every object inherits: for \<^verbatim>\<open>constructor\<close>, which is not a key of
  the registry, it finds the inherited function, the test \<^verbatim>\<open>!serverConfig\<close> does not fire,
  and the stage sends its request and returns the model's text. (The other parts of the
  claim hold when the log sink returns on every line: lemmas \<open>ExecuteMCPCall_total\<close>,
  \<open>ExecuteMCPCall_not_found\<close> and \<open>ExecuteMCPCall_catches\<close>.)
\<close>

theorem ExecuteMCPCall_inherited_name:
  "''constructor'' \<notin> set (map fst demo_registry)
   \<and> fst (ExecuteMCPCall (demo_env (FetchOk (Some ''I would look it up.''))) ''constructor'' []
            ''weather in Paris?'' demo_registry (Some ''sk-test'') quiet [])
       = Inr ''I would look it up.''
   \<and> FetchCompletion (execute_prompt ''constructor'' ''undefined'' [] ''weather in Paris?'') False
       \<in> set (snd (ExecuteMCPCall (demo_env (FetchOk (Some ''I would look it up.''))) ''constructor'' []
                      ''weather in Paris?'' demo_registry (Some ''sk-test'') quiet []))"
proof -
  have l: "lookup_config demo_registry ''constructor'' = Some ProtoFunction"
    by (simp add: lookup_config_def demo_registry_def prototype_functions_def)
  have "''constructor'' \<notin> set (map fst demo_registry)"
    by (simp add: demo_registry_def)
  moreover have "fst (ExecuteMCPCall (demo_env (FetchOk (Some ''I would look it up.''))) ''constructor'' []
            ''weather in Paris?'' demo_registry (Some ''sk-test'') quiet [])
       = Inr ''I would look it up.''"
    using ExecuteMCPCall_found
            [of demo_registry "''constructor''" "Some ''sk-test''"
                "demo_env (FetchOk (Some ''I would look it up.''))" "[]" "''weather in Paris?''" "[]"]
    by (simp add: l demo_env_def)
  moreover have "FetchCompletion (execute_prompt ''constructor'' ''undefined'' [] ''weather in Paris?'') False
       \<in> set (snd (ExecuteMCPCall (demo_env (FetchOk (Some ''I would look it up.''))) ''constructor'' []
                      ''weather in Paris?'' demo_registry (Some ''sk-test'') quiet []))"
    using ExecuteMCPCall_found
            [of demo_registry "''constructor''" "Some ''sk-test''"
                "demo_env (FetchOk (Some ''I would look it up.''))" "[]" "''weather in Paris?''" "[]"]
    by (simp add: l)
  ultimately show ?thesis by blast
qed

subsection \<open>The end-to-end scenarios of the specification\<close>

text \<open>
  A: empty registry and a greeting, the direct path is taken and the tool stage is not
  invoked. B: the model selects the registered tool \<^verbatim>\<open>weather\<close>, the tool stage runs once
  with that name and the formatted text is the reply. C: the decision text cannot be
  parsed, the decision is the sentinel and the run ends on the direct path. D: without a
  credential the decision is the fallback of the decision stage and the reply is the
  apology of the direct stage. The log sink returns on every line.
\<close>

lemmas run_defs =
  processMessage_def Chatbot_def Chatbot_with_def chatbot_try_def EvaluateQuery_def
  GenerateDirectResponse_def ExecuteMCPCall_def FormatResponse_def callOpenAI_def
  scenario_env_def scenario_parse_def Let_def
  parse_response_def parse_extracted_def jsonMatch_def match_json_fence_def match_fence_def
  evaluate_result_def evaluate_catch_def direct_catch_def answered_def finish_def
  decision_weather_def decision_greeting_def text_weather_def text_greeting_def
  text_odd_reasoning_def text_odd_name_def decision_odd_reasoning_def decision_odd_name_def
  lookup_config_def demo_registry_def tool_lines_def direct_lines_def chatbot_open_def
  step_one_def loaded_line_def received_lines_def sentinel_none_def evaluation_fallback_def
  seq_simps

lemma scenario_A:
  "fst (processMessage (scenario_env [] text_greeting ''Hello! How can I help?'') []
          ''hello'' (Some ''sk-test'') quiet [])
     = Inr ''Hello! How can I help?''
   \<and> filter execute_event
        (snd (processMessage (scenario_env [] text_greeting ''Hello! How can I help?'') []
                ''hello'' (Some ''sk-test'') quiet []))
     = []"
  by (simp add: run_defs)

lemma scenario_B:
  "fst (processMessage (scenario_env demo_registry text_weather ''It is sunny in Paris.'') []
          ''what is the weather in Paris'' (Some ''sk-test'') quiet [])
     = Inr ''It is sunny in Paris.''
   \<and> filter execute_event
        (snd (processMessage (scenario_env demo_registry text_weather ''It is sunny in Paris.'') []
                ''what is the weather in Paris'' (Some ''sk-test'') quiet []))
     = [SetLogs ''*Executing MCP call with server: weather*'']"
  by (simp add: run_defs)

lemma scenario_C:
  "fst (EvaluateQuery (scenario_env demo_registry ''I think so'' ''Sure.'') [] ''hello''
          demo_registry (Some ''sk-test'') quiet [])
     = Inr sentinel_none
   \<and> fst (processMessage (scenario_env demo_registry ''I think so'' ''Sure.'') []
          ''hello'' (Some ''sk-test'') quiet [])
     = Inr ''Sure.''
   \<and> filter execute_event
        (snd (processMessage (scenario_env demo_registry ''I think so'' ''Sure.'') []
                ''hello'' (Some ''sk-test'') quiet []))
     = []"
  by (simp add: run_defs)

lemma scenario_D:
  "fst (EvaluateQuery (scenario_env demo_registry text_weather ''Sure.'') [] ''hello''
          demo_registry None quiet [])
     = Inr evaluation_fallback
   \<and> fst (processMessage (scenario_env demo_registry text_weather ''Sure.'') []
          ''hello'' None quiet [])
     = Inr apology"
  by (simp add: run_defs)

subsection \<open>The outer boundary of the orchestrator\<close>

text \<open>
  Claim C2, as the specification states it: for every input, the log sink among them,
  \<^verbatim>\<open>processMessage\<close> and \<^verbatim>\<open>Chatbot\<close> return a string and never raise to their caller. The
  code does otherwise for a log sink that throws. The first two calls of the sink in
  \<^verbatim>\<open>Chatbot\<close> stand in front of its \<^verbatim>\<open>try\<close> block, and the \<^verbatim>\<open>catch\<close> clauses of \<^verbatim>\<open>Chatbot\<close>
  and of \<^verbatim>\<open>processMessage\<close> call the sink themselves. With the sink that throws on every
  line, \<^verbatim>\<open>Chatbot\<close> is rejected at its first log line, and \<^verbatim>\<open>processMessage\<close> inside its
  \<^verbatim>\<open>catch\<close> clause.
\<close>

theorem pipeline_raises_with_throwing_sink:
  "Chatbot (demo_env (FetchOk (Some ''hi''))) [] ''hello'' demo_registry (Some ''sk-test'')
      broken []
     = (Inl ''log sink failed'', [SetLogs ''*==== Starting Chatbot Process ====*''])
   \<and> processMessage (demo_env (FetchOk (Some ''hi''))) [] ''hello'' (Some ''sk-test'') broken []
     = (Inl ''log sink failed'',
        [FetchConfig,
         SetLogs ''*Loaded MCP server configurations: weather*'',
         SetLogs ''*Error processing message: log sink failed*''])"
  by (simp add: Chatbot_def Chatbot_with_def processMessage_def process_catch_def
        chatbot_open_def loaded_line_def demo_env_def demo_registry_def broken_def
        say.simps and_then_def try_catch_def)

text \<open>
  Claim C2, amended. With a log sink that returns on every line, \<^verbatim>\<open>processMessage\<close> and
  \<^verbatim>\<open>Chatbot\<close> return a string and never raise: \<^verbatim>\<open>processMessage\<close> returns its fixed apology
  when the configuration cannot be loaded, with the description of the failure in the log,
  and the outcome of \<^verbatim>\<open>Chatbot\<close> on the loaded registry otherwise.

  For every log sink that returns on the two opening lines of \<^verbatim>\<open>Chatbot\<close>: a value that
  the \<^verbatim>\<open>try\<close> block returns is the value of \<^verbatim>\<open>Chatbot\<close>; and an error \<open>err\<close> thrown inside
  the \<^verbatim>\<open>try\<close> block, whatever its source, is answered with the text
  \<^verbatim>\<open>Sorry, I encountered an error while processing your request: \<close> followed by \<open>err\<close>,
  when the sink returns on the line \<^verbatim>\<open>*ERROR: err*\<close> of the \<^verbatim>\<open>catch\<close> clause. A sink that
  throws on an opening line, or on that line of the \<^verbatim>\<open>catch\<close> clause, makes \<^verbatim>\<open>Chatbot\<close>
  raise what the sink throws.

  The sources of an error inside the \<^verbatim>\<open>try\<close> block are the four stages awaited in it
  (stated below for arbitrary stages and the sink that returns on every line), the log
  sink, and the conversion of the selected \<^verbatim>\<open>serverName\<close> to a string: a decision of
  \<^verbatim>\<open>EvaluateQuery\<close> whose \<^verbatim>\<open>serverName\<close> is truthy and has no conversion ends in the apology
  with the description \<^verbatim>\<open>Cannot convert object to primitive value\<close>.
\<close>

theorem pipeline_apology:
  "processMessage e h m k quiet t =
     (case config_json e of
        ConfigThrows msg \<Rightarrow>
          (Inr process_apology,
           t @ [FetchConfig, SetLogs (''*Error processing message: '' @ msg @ ''*'')])
      | ConfigNotOk st \<Rightarrow>
          (Inr process_apology,
           t @ [FetchConfig,
                SetLogs (''*Error processing message: Failed to fetch configuration: '' @ st
                         @ ''*'')])
      | ConfigOk None \<Rightarrow>
          (Inr process_apology,
           t @ [FetchConfig,
                SetLogs ''*Error processing message: Cannot convert undefined or null to object*''])
      | ConfigOk (Some mcpServers) \<Rightarrow>
          Chatbot e h m mcpServers k quiet (t @ [FetchConfig, SetLogs (loaded_line mcpServers)]))
   \<and> (\<exists>s t'. Chatbot e h m cfgs k quiet t = (Inr s, t'))
   \<and> (say setLogs (chatbot_open m) t = (Inr (), u)
        \<and> chatbot_try ev ex dr fm e h m cfgs k setLogs u = (Inr reply, v) \<longrightarrow>
      Chatbot_with ev ex dr fm e h m cfgs k setLogs t = (Inr reply, v))
   \<and> (say setLogs (chatbot_open m) t = (Inr (), u)
        \<and> chatbot_try ev ex dr fm e h m cfgs k setLogs u = (Inl err, v)
        \<and> setLogs (error_line err) = None \<longrightarrow>
      Chatbot_with ev ex dr fm e h m cfgs k setLogs t =
        (Inr (''Sorry, I encountered an error while processing your request: '' @ err),
         v @ [SetLogs (error_line err)]))
   \<and> (say setLogs (chatbot_open m) t = (Inl err, u) \<longrightarrow>
      Chatbot_with ev ex dr fm e h m cfgs k setLogs t = (Inl err, u))
   \<and> (say setLogs (chatbot_open m) t = (Inr (), u)
        \<and> chatbot_try ev ex dr fm e h m cfgs k setLogs u = (Inl err, v)
        \<and> setLogs (error_line err) = Some err' \<longrightarrow>
      Chatbot_with ev ex dr fm e h m cfgs k setLogs t = (Inl err', v @ [SetLogs (error_line err)]))
   \<and> (EvaluateQuery e h m cfgs k quiet (t @ chatbot_start m) = (Inr d, v)
        \<and> truthy (get_prop d ''needsMCP'') \<and> truthy (get_prop d ''serverName'')
        \<and> display e (get_prop d ''serverName'') = None \<longrightarrow>
      Chatbot e h m cfgs k quiet t =
        (Inr ''Sorry, I encountered an error while processing your request: Cannot convert object to primitive value'',
         v @ [SetLogs ''*ERROR: Cannot convert object to primitive value*'']))
   \<and> (ev h m cfgs k quiet (t @ chatbot_start m) = (Inl err, v) \<longrightarrow>
      Chatbot_with ev ex dr fm e h m cfgs k quiet t =
        (Inr (''Sorry, I encountered an error while processing your request: '' @ err),
         v @ [SetLogs (error_line err)]))
   \<and> (ev h m cfgs k quiet (t @ chatbot_start m) = (Inr d, v) \<and> d \<noteq> JNull
        \<and> truthy (get_prop d ''needsMCP'') \<and> truthy (get_prop d ''serverName'')
        \<and> display e (get_prop d ''serverName'') = Some n
        \<and> display e (get_prop d ''reasoning'') = Some why
        \<and> ex n h m cfgs k quiet (v @ map SetLogs (tool_lines n why)) = (Inl err, w) \<longrightarrow>
      Chatbot_with ev ex dr fm e h m cfgs k quiet t =
        (Inr (''Sorry, I encountered an error while processing your request: '' @ err),
         w @ [SetLogs (error_line err)]))
   \<and> (ev h m cfgs k quiet (t @ chatbot_start m) = (Inr d, v) \<and> d \<noteq> JNull
        \<and> truthy (get_prop d ''needsMCP'') \<and> truthy (get_prop d ''serverName'')
        \<and> display e (get_prop d ''serverName'') = Some n
        \<and> display e (get_prop d ''reasoning'') = Some why
        \<and> ex n h m cfgs k quiet (v @ map SetLogs (tool_lines n why)) = (Inr r, w)
        \<and> fm h m r k quiet (w @ [SetLogs ''*STEP 3: Formatting response with MCP results...*''])
            = (Inl err, x) \<longrightarrow>
      Chatbot_with ev ex dr fm e h m cfgs k quiet t =
        (Inr (''Sorry, I encountered an error while processing your request: '' @ err),
         x @ [SetLogs (error_line err)]))
   \<and> (ev h m cfgs k quiet (t @ chatbot_start m) = (Inr d, v) \<and> d \<noteq> JNull
        \<and> \<not> (truthy (get_prop d ''needsMCP'') \<and> truthy (get_prop d ''serverName''))
        \<and> display e (get_prop d ''reasoning'') = Some why
        \<and> dr h m k quiet (v @ map SetLogs (direct_lines why)) = (Inl err, w) \<longrightarrow>
      Chatbot_with ev ex dr fm e h m cfgs k quiet t =
        (Inr (''Sorry, I encountered an error while processing your request: '' @ err),
         w @ [SetLogs (error_line err)]))"
proof -
  have a: "processMessage e h m k quiet t =
     (case config_json e of
        ConfigThrows msg \<Rightarrow>
          (Inr process_apology,
           t @ [FetchConfig, SetLogs (''*Error processing message: '' @ msg @ ''*'')])
      | ConfigNotOk st \<Rightarrow>
          (Inr process_apology,
           t @ [FetchConfig,
                SetLogs (''*Error processing message: Failed to fetch configuration: '' @ st
                         @ ''*'')])
      | ConfigOk None \<Rightarrow>
          (Inr process_apology,
           t @ [FetchConfig,
                SetLogs ''*Error processing message: Cannot convert undefined or null to object*''])
      | ConfigOk (Some mcpServers) \<Rightarrow>
          Chatbot e h m mcpServers k quiet (t @ [FetchConfig, SetLogs (loaded_line mcpServers)]))"
    unfolding processMessage_quiet
    by (simp add: process_catch_quiet split: config_result.splits option.splits)
  have b: "\<exists>s t'. Chatbot e h m cfgs k quiet t = (Inr s, t')"
    by (rule Chatbot_total)
  have c: "say setLogs (chatbot_open m) t = (Inr (), u)
        \<and> chatbot_try ev ex dr fm e h m cfgs k setLogs u = (Inr reply, v) \<longrightarrow>
      Chatbot_with ev ex dr fm e h m cfgs k setLogs t = (Inr reply, v)"
    by (simp add: Chatbot_with_def and_then_Inr try_catch_Inr)
  have d: "say setLogs (chatbot_open m) t = (Inr (), u)
        \<and> chatbot_try ev ex dr fm e h m cfgs k setLogs u = (Inl err, v)
        \<and> setLogs (error_line err) = None \<longrightarrow>
      Chatbot_with ev ex dr fm e h m cfgs k setLogs t =
        (Inr (''Sorry, I encountered an error while processing your request: '' @ err),
         v @ [SetLogs (error_line err)])"
    by (simp add: Chatbot_with_def and_then_Inr and_then_Inl try_catch_Inl chatbot_catch_def
          say.simps)
  have o: "say setLogs (chatbot_open m) t = (Inl err, u) \<longrightarrow>
      Chatbot_with ev ex dr fm e h m cfgs k setLogs t = (Inl err, u)"
    by (simp add: Chatbot_with_def and_then_Inl)
  have q: "say setLogs (chatbot_open m) t = (Inr (), u)
        \<and> chatbot_try ev ex dr fm e h m cfgs k setLogs u = (Inl err, v)
        \<and> setLogs (error_line err) = Some err' \<longrightarrow>
      Chatbot_with ev ex dr fm e h m cfgs k setLogs t = (Inl err', v @ [SetLogs (error_line err)])"
    by (simp add: Chatbot_with_def and_then_Inr and_then_Inl try_catch_Inl chatbot_catch_def
          say.simps)
  have f: "EvaluateQuery e h m cfgs k quiet (t @ chatbot_start m) = (Inr d, v)
        \<and> truthy (get_prop d ''needsMCP'') \<and> truthy (get_prop d ''serverName'')
        \<and> display e (get_prop d ''serverName'') = None \<longrightarrow>
      Chatbot e h m cfgs k quiet t =
        (Inr ''Sorry, I encountered an error while processing your request: Cannot convert object to primitive value'',
         v @ [SetLogs ''*ERROR: Cannot convert object to primitive value*''])"
    by (auto simp add: Chatbot_def Chatbot_with_quiet chatbot_catch_quiet error_line_def
          to_primitive_error_def)
  have g: "ev h m cfgs k quiet (t @ chatbot_start m) = (Inl err, v) \<longrightarrow>
      Chatbot_with ev ex dr fm e h m cfgs k quiet t =
        (Inr (''Sorry, I encountered an error while processing your request: '' @ err),
         v @ [SetLogs (error_line err)])"
    by (simp add: Chatbot_with_quiet chatbot_catch_quiet)
  have i: "ev h m cfgs k quiet (t @ chatbot_start m) = (Inr d, v) \<and> d \<noteq> JNull
        \<and> truthy (get_prop d ''needsMCP'') \<and> truthy (get_prop d ''serverName'')
        \<and> display e (get_prop d ''serverName'') = Some n
        \<and> display e (get_prop d ''reasoning'') = Some why
        \<and> ex n h m cfgs k quiet (v @ map SetLogs (tool_lines n why)) = (Inl err, w) \<longrightarrow>
      Chatbot_with ev ex dr fm e h m cfgs k quiet t =
        (Inr (''Sorry, I encountered an error while processing your request: '' @ err),
         w @ [SetLogs (error_line err)])"
    by (simp add: Chatbot_with_quiet chatbot_catch_quiet)
  have j: "ev h m cfgs k quiet (t @ chatbot_start m) = (Inr d, v) \<and> d \<noteq> JNull
        \<and> truthy (get_prop d ''needsMCP'') \<and> truthy (get_prop d ''serverName'')
        \<and> display e (get_prop d ''serverName'') = Some n
        \<and> display e (get_prop d ''reasoning'') = Some why
        \<and> ex n h m cfgs k quiet (v @ map SetLogs (tool_lines n why)) = (Inr r, w)
        \<and> fm h m r k quiet (w @ [SetLogs ''*STEP 3: Formatting response with MCP results...*''])
            = (Inl err, x) \<longrightarrow>
      Chatbot_with ev ex dr fm e h m cfgs k quiet t =
        (Inr (''Sorry, I encountered an error while processing your request: '' @ err),
         x @ [SetLogs (error_line err)])"
    by (simp add: Chatbot_with_quiet chatbot_catch_quiet complete_quiet)
  have l: "ev h m cfgs k quiet (t @ chatbot_start m) = (Inr d, v) \<and> d \<noteq> JNull
        \<and> \<not> (truthy (get_prop d ''needsMCP'') \<and> truthy (get_prop d ''serverName''))
        \<and> display e (get_prop d ''reasoning'') = Some why
        \<and> dr h m k quiet (v @ map SetLogs (direct_lines why)) = (Inl err, w) \<longrightarrow>
      Chatbot_with ev ex dr fm e h m cfgs k quiet t =
        (Inr (''Sorry, I encountered an error while processing your request: '' @ err),
         w @ [SetLogs (error_line err)])"
    by (auto simp add: Chatbot_with_quiet chatbot_catch_quiet complete_quiet)
  from a b c d o q f g i j l show ?thesis by (intro conjI)
qed

theorem pipeline_apology_witness:
  "fst (Chatbot (scenario_env [] text_greeting ''Hello! How can I help?'') [] ''hello'' []
          (Some ''sk-test'') quiet [])
     = Inr ''Hello! How can I help?''
   \<and> Chatbot (demo_env (FetchOk (Some ''hi''))) [] ''hello'' demo_registry (Some ''sk-test'')
        (picky [''*Starting query evaluation process...*'']) []
     = (Inr ''Sorry, I encountered an error while processing your request: log sink failed'',
        [SetLogs ''*==== Starting Chatbot Process ====*'',
         SetLogs (''*Processing user message: '' @ [CHR 0x22] @ ''hello'' @ [CHR 0x22] @ ''*''),
         SetLogs ''*STEP 1: Evaluating if MCP is needed...*'',
         SetLogs ''*Starting query evaluation process...*'',
         SetLogs ''*ERROR: log sink failed*''])
   \<and> Chatbot (demo_env (FetchOk (Some ''hi''))) [] ''hello'' demo_registry (Some ''sk-test'')
        broken []
     = (Inl ''log sink failed'', [SetLogs ''*==== Starting Chatbot Process ====*''])
   \<and> Chatbot (demo_env (FetchOk (Some ''hi''))) [] ''hello'' demo_registry (Some ''sk-test'')
        (picky [''*Starting query evaluation process...*'', ''*ERROR: log sink failed*'']) []
     = (Inl ''log sink failed'',
        [SetLogs ''*==== Starting Chatbot Process ====*'',
         SetLogs (''*Processing user message: '' @ [CHR 0x22] @ ''hello'' @ [CHR 0x22] @ ''*''),
         SetLogs ''*STEP 1: Evaluating if MCP is needed...*'',
         SetLogs ''*Starting query evaluation process...*'',
         SetLogs ''*ERROR: log sink failed*''])
   \<and> fst (Chatbot (scenario_env demo_registry text_odd_name ''x'') [] ''weather in Paris?''
            demo_registry (Some ''sk-test'') quiet [])
     = Inr ''Sorry, I encountered an error while processing your request: Cannot convert object to primitive value''
   \<and> fst (Chatbot_with (raise_evaluate ''boom'') (raise_execute ''x'') (raise_direct ''x'')
            (raise_format ''x'') (demo_env (FetchOk None)) [] ''hi'' demo_registry None quiet [])
     = Inr ''Sorry, I encountered an error while processing your request: boom''
   \<and> fst (Chatbot_with (const_evaluate decision_bogus) (raise_execute ''tool down'')
            (raise_direct ''x'') (raise_format ''x'') (demo_env (FetchOk None)) [] ''hi''
            demo_registry None quiet [])
     = Inr ''Sorry, I encountered an error while processing your request: tool down''
   \<and> fst (Chatbot_with (const_evaluate decision_bogus) (const_execute ''result'')
            (raise_direct ''x'') (raise_format ''no format'') (demo_env (FetchOk None)) [] ''hi''
            demo_registry None quiet [])
     = Inr ''Sorry, I encountered an error while processing your request: no format''
   \<and> fst (Chatbot_with (const_evaluate decision_unnamed) (raise_execute ''x'')
            (raise_direct ''no answer'') (raise_format ''x'') (demo_env (FetchOk None)) [] ''hi''
            demo_registry None quiet [])
     = Inr ''Sorry, I encountered an error while processing your request: no answer''"
proof -
  let ?g = "scenario_env [] text_greeting ''Hello! How can I help?''"
  let ?k = "Some ''sk-test''"
  let ?try_g = "chatbot_try (EvaluateQuery ?g) (ExecuteMCPCall ?g) (GenerateDirectResponse ?g)
                  (FormatResponse ?g) ?g [] ''hello'' [] ?k quiet
                  (map SetLogs (chatbot_open ''hello''))"
  have g1: "say quiet (chatbot_open ''hello'') [] = (Inr (), map SetLogs (chatbot_open ''hello''))"
    by (simp add: say_quiet)
  have "fst ?try_g = Inr ''Hello! How can I help?''"
    by (simp add: run_defs)
  then obtain vg where g2: "?try_g = (Inr ''Hello! How can I help?'', vg)"
    by (cases ?try_g) simp
  from pipeline_apology
         [where setLogs = quiet and m = "''hello''" and t = "[]"
            and u = "map SetLogs (chatbot_open ''hello'')"
            and ev = "EvaluateQuery ?g" and ex = "ExecuteMCPCall ?g"
            and dr = "GenerateDirectResponse ?g" and fm = "FormatResponse ?g"
            and e = ?g and h = "[]" and cfgs = "[]" and k = ?k
            and reply = "''Hello! How can I help?''" and v = vg, THEN conjunct2, THEN conjunct2, THEN conjunct1]
       g1 g2
  have one: "fst (Chatbot ?g [] ''hello'' [] ?k quiet []) = Inr ''Hello! How can I help?''"
    by (simp add: Chatbot_def)
  let ?p = "demo_env (FetchOk (Some ''hi''))"
  let ?s = "picky [''*Starting query evaluation process...*'']"
  let ?s' = "picky [''*Starting query evaluation process...*'', ''*ERROR: log sink failed*'']"
  let ?u = "[SetLogs ''*==== Starting Chatbot Process ====*'',
             SetLogs (''*Processing user message: '' @ [CHR 0x22] @ ''hello'' @ [CHR 0x22] @ ''*'')]"
  let ?v = "?u @ [SetLogs ''*STEP 1: Evaluating if MCP is needed...*'',
                  SetLogs ''*Starting query evaluation process...*'']"
  have p1: "say ?s (chatbot_open ''hello'') [] = (Inr (), ?u)"
    by (simp add: say.simps picky_def chatbot_open_def)
  have p2: "chatbot_try (EvaluateQuery ?p) (ExecuteMCPCall ?p) (GenerateDirectResponse ?p)
              (FormatResponse ?p) ?p [] ''hello'' demo_registry ?k ?s ?u
            = (Inl ''log sink failed'', ?v)"
    by (simp add: chatbot_try_def EvaluateQuery_def step_one_def say.simps picky_def
          and_then_def)
  have p3: "?s (error_line ''log sink failed'') = None"
    by (simp add: picky_def error_line_def)
  from pipeline_apology
         [where setLogs = ?s and m = "''hello''" and t = "[]" and u = ?u
            and ev = "EvaluateQuery ?p" and ex = "ExecuteMCPCall ?p"
            and dr = "GenerateDirectResponse ?p" and fm = "FormatResponse ?p"
            and e = ?p and h = "[]" and cfgs = demo_registry and k = ?k
            and err = "''log sink failed''" and v = ?v, THEN conjunct2, THEN conjunct2, THEN conjunct2, THEN conjunct1]
       p1 p2 p3
  have two: "Chatbot ?p [] ''hello'' demo_registry ?k ?s []
     = (Inr ''Sorry, I encountered an error while processing your request: log sink failed'',
        [SetLogs ''*==== Starting Chatbot Process ====*'',
         SetLogs (''*Processing user message: '' @ [CHR 0x22] @ ''hello'' @ [CHR 0x22] @ ''*''),
         SetLogs ''*STEP 1: Evaluating if MCP is needed...*'',
         SetLogs ''*Starting query evaluation process...*'',
         SetLogs ''*ERROR: log sink failed*''])"
    by (simp add: Chatbot_def error_line_def)
  have b1: "say broken (chatbot_open ''hello'') []
              = (Inl ''log sink failed'', [SetLogs ''*==== Starting Chatbot Process ====*''])"
    by (simp add: say.simps broken_def chatbot_open_def)
  from pipeline_apology
         [where setLogs = broken and m = "''hello''" and t = "[]"
            and u = "[SetLogs ''*==== Starting Chatbot Process ====*'']"
            and ev = "EvaluateQuery ?p" and ex = "ExecuteMCPCall ?p"
            and dr = "GenerateDirectResponse ?p" and fm = "FormatResponse ?p"
            and e = ?p and h = "[]" and cfgs = demo_registry and k = ?k
            and err = "''log sink failed''", THEN conjunct2, THEN conjunct2, THEN conjunct2, THEN conjunct2, THEN conjunct1]
       b1
  have two': "Chatbot ?p [] ''hello'' demo_registry ?k broken []
     = (Inl ''log sink failed'', [SetLogs ''*==== Starting Chatbot Process ====*''])"
    by (simp add: Chatbot_def)
  have q1: "say ?s' (chatbot_open ''hello'') [] = (Inr (), ?u)"
    by (simp add: say.simps picky_def chatbot_open_def)
  have q2: "chatbot_try (EvaluateQuery ?p) (ExecuteMCPCall ?p) (GenerateDirectResponse ?p)
              (FormatResponse ?p) ?p [] ''hello'' demo_registry ?k ?s' ?u
            = (Inl ''log sink failed'', ?v)"
    by (simp add: chatbot_try_def EvaluateQuery_def step_one_def say.simps picky_def
          and_then_def)
  have q3: "?s' (error_line ''log sink failed'') = Some ''log sink failed''"
    by (simp add: picky_def error_line_def)
  from pipeline_apology
         [where setLogs = ?s' and m = "''hello''" and t = "[]" and u = ?u
            and ev = "EvaluateQuery ?p" and ex = "ExecuteMCPCall ?p"
            and dr = "GenerateDirectResponse ?p" and fm = "FormatResponse ?p"
            and e = ?p and h = "[]" and cfgs = demo_registry and k = ?k
            and err = "''log sink failed''" and err' = "''log sink failed''" and v = ?v, THEN conjunct2, THEN conjunct2, THEN conjunct2, THEN conjunct2, THEN conjunct2, THEN conjunct1]
       q1 q2 q3
  have two'': "Chatbot ?p [] ''hello'' demo_registry ?k ?s' []
     = (Inl ''log sink failed'',
        [SetLogs ''*==== Starting Chatbot Process ====*'',
         SetLogs (''*Processing user message: '' @ [CHR 0x22] @ ''hello'' @ [CHR 0x22] @ ''*''),
         SetLogs ''*STEP 1: Evaluating if MCP is needed...*'',
         SetLogs ''*Starting query evaluation process...*'',
         SetLogs ''*ERROR: log sink failed*''])"
    by (simp add: Chatbot_def error_line_def)
  let ?o = "scenario_env demo_registry text_odd_name ''x''"
  let ?t = "[] @ chatbot_start ''weather in Paris?''"
  have c: "completion ?o (evaluate_prompt ?o [] ''weather in Paris?'' demo_registry) True
             = FetchOk (Some text_odd_name)"
    by (simp add: scenario_env_def)
  have "fst (EvaluateQuery ?o [] ''weather in Paris?'' demo_registry ?k quiet ?t)
          = Inr (substituted demo_registry decision_odd_name)"
    by (rule EvaluateQuery_parsed [OF _ c scenario_parse_decisions(4)])
       (simp_all add: decision_odd_name_def)
  then have "fst (EvaluateQuery ?o [] ''weather in Paris?'' demo_registry ?k quiet ?t)
          = Inr decision_odd_name"
    by (simp add: substituted_def decision_odd_name_def)
  then obtain vo where o1: "EvaluateQuery ?o [] ''weather in Paris?'' demo_registry ?k quiet ?t
              = (Inr decision_odd_name, vo)"
    by (cases "EvaluateQuery ?o [] ''weather in Paris?'' demo_registry ?k quiet ?t") simp
  have o2: "truthy (get_prop decision_odd_name ''needsMCP'')
            \<and> truthy (get_prop decision_odd_name ''serverName'')
            \<and> display ?o (get_prop decision_odd_name ''serverName'') = None"
    by (simp add: decision_odd_name_def)
  from pipeline_apology
         [where e = ?o and h = "[]" and m = "''weather in Paris?''" and cfgs = demo_registry
            and k = ?k and t = "[]" and d = decision_odd_name
            and v = vo, THEN conjunct2, THEN conjunct2, THEN conjunct2, THEN conjunct2, THEN conjunct2, THEN conjunct2, THEN conjunct1]
       o1 o2
  have three: "fst (Chatbot ?o [] ''weather in Paris?'' demo_registry ?k quiet [])
     = Inr ''Sorry, I encountered an error while processing your request: Cannot convert object to primitive value''"
    by simp
  let ?n = "demo_env (FetchOk None)"
  let ?c = "[] @ chatbot_start ''hi''"
  from pipeline_apology
         [where ev = "raise_evaluate ''boom''" and h = "[]" and m = "''hi''"
            and cfgs = demo_registry and k = None and t = "[]" and err = "''boom''"
            and v = ?c and ex = "raise_execute ''x''"
            and dr = "raise_direct ''x''" and fm = "raise_format ''x''" and e = ?n, THEN conjunct2, THEN conjunct2, THEN conjunct2, THEN conjunct2, THEN conjunct2, THEN conjunct2, THEN conjunct2, THEN conjunct1]
  have four: "fst (Chatbot_with (raise_evaluate ''boom'') (raise_execute ''x'') (raise_direct ''x'')
            (raise_format ''x'') ?n [] ''hi'' demo_registry None quiet [])
     = Inr ''Sorry, I encountered an error while processing your request: boom''"
    by (simp add: raise_evaluate_def)
  have b: "decision_bogus \<noteq> JNull \<and> truthy (get_prop decision_bogus ''needsMCP'')
           \<and> truthy (get_prop decision_bogus ''serverName'')
           \<and> display ?n (get_prop decision_bogus ''serverName'') = Some ''bogus''
           \<and> display ?n (get_prop decision_bogus ''reasoning'') = Some ''r''"
    by (simp add: decision_bogus_def)
  from pipeline_apology
         [where ev = "const_evaluate decision_bogus" and h = "[]" and m = "''hi''"
            and cfgs = demo_registry and k = None and t = "[]" and err = "''tool down''"
            and v = ?c and ex = "raise_execute ''tool down''"
            and dr = "raise_direct ''x''" and fm = "raise_format ''x''" and e = ?n
            and d = decision_bogus and n = "''bogus''" and why = "''r''"
            and w = "?c @ map SetLogs (tool_lines ''bogus'' ''r'')", THEN conjunct2, THEN conjunct2, THEN conjunct2, THEN conjunct2, THEN conjunct2, THEN conjunct2, THEN conjunct2, THEN conjunct2, THEN conjunct1]
       b
  have five: "fst (Chatbot_with (const_evaluate decision_bogus) (raise_execute ''tool down'')
            (raise_direct ''x'') (raise_format ''x'') ?n [] ''hi'' demo_registry None quiet [])
     = Inr ''Sorry, I encountered an error while processing your request: tool down''"
    by (simp add: const_evaluate_def raise_execute_def)
  from pipeline_apology
         [where ev = "const_evaluate decision_bogus" and h = "[]" and m = "''hi''"
            and cfgs = demo_registry and k = None and t = "[]" and err = "''no format''"
            and v = ?c and ex = "const_execute ''result''"
            and dr = "raise_direct ''x''" and fm = "raise_format ''no format''" and e = ?n
            and d = decision_bogus and n = "''bogus''" and why = "''r''" and r = "''result''"
            and w = "?c @ map SetLogs (tool_lines ''bogus'' ''r'')"
            and x = "(?c @ map SetLogs (tool_lines ''bogus'' ''r''))
                       @ [SetLogs ''*STEP 3: Formatting response with MCP results...*'']", THEN conjunct2, THEN conjunct2, THEN conjunct2, THEN conjunct2, THEN conjunct2, THEN conjunct2, THEN conjunct2, THEN conjunct2, THEN conjunct2, THEN conjunct1]
       b
  have six: "fst (Chatbot_with (const_evaluate decision_bogus) (const_execute ''result'')
            (raise_direct ''x'') (raise_format ''no format'') ?n [] ''hi'' demo_registry None
            quiet [])
     = Inr ''Sorry, I encountered an error while processing your request: no format''"
    by (simp add: const_evaluate_def const_execute_def raise_format_def)
  have u: "decision_unnamed \<noteq> JNull
           \<and> \<not> (truthy (get_prop decision_unnamed ''needsMCP'')
                  \<and> truthy (get_prop decision_unnamed ''serverName''))
           \<and> display ?n (get_prop decision_unnamed ''reasoning'') = Some ''r''"
    by (simp add: decision_unnamed_def)
  from pipeline_apology
         [where ev = "const_evaluate decision_unnamed" and h = "[]" and m = "''hi''"
            and cfgs = demo_registry and k = None and t = "[]" and err = "''no answer''"
            and v = ?c and ex = "raise_execute ''x''"
            and dr = "raise_direct ''no answer''" and fm = "raise_format ''x''" and e = ?n
            and d = decision_unnamed and why = "''r''"
            and w = "?c @ map SetLogs (direct_lines ''r'')", THEN conjunct2, THEN conjunct2, THEN conjunct2, THEN conjunct2, THEN conjunct2, THEN conjunct2, THEN conjunct2, THEN conjunct2, THEN conjunct2, THEN conjunct2]
       u
  have seven: "fst (Chatbot_with (const_evaluate decision_unnamed) (raise_execute ''x'')
            (raise_direct ''no answer'') (raise_format ''x'') ?n [] ''hi'' demo_registry None
            quiet [])
     = Inr ''Sorry, I encountered an error while processing your request: no answer''"
    by (simp add: const_evaluate_def raise_direct_def)
  from one two two' two'' three four five six seven show ?thesis by (intro conjI)
qed

subsection \<open>The regular expressions\<close>

lemma not_space_backquote: "\<not> is_space (CHR 0x60)"
  by (simp add: is_space_def)

lemma all_space_takeWhile: "list_all is_space (takeWhile is_space r)"
  by (simp add: list_all_iff) (meson set_takeWhileD)

lemma ws_fence_iff:
  "ws_fence s \<longleftrightarrow> (\<exists>ws rest. s = ws @ ''```'' @ rest \<and> list_all is_space ws)"
proof
  assume "ws_fence s"
  then obtain rest where "dropWhile is_space s = ''```'' @ rest"
    by (auto simp add: ws_fence_def prefix_def)
  then have "s = takeWhile is_space s @ ''```'' @ rest"
    by (metis takeWhile_dropWhile_id)
  with all_space_takeWhile show "\<exists>ws rest. s = ws @ ''```'' @ rest \<and> list_all is_space ws"
    by blast
next
  assume "\<exists>ws rest. s = ws @ ''```'' @ rest \<and> list_all is_space ws"
  then obtain ws rest where s: "s = ws @ ''```'' @ rest" and ws: "list_all is_space ws"
    by blast
  from ws have "dropWhile is_space (ws @ ''```'' @ rest) = ''```'' @ rest"
    by (induction ws) (simp_all add: not_space_backquote)
  with s show "ws_fence s"
    by (simp add: ws_fence_def)
qed

text \<open>The lazy group stops in front of white space and a fence.\<close>

lemma lazy_capture_Some:
  "lazy_capture s = Some c \<Longrightarrow>
     \<exists>ws rest. s = c @ ws @ ''```'' @ rest \<and> list_all is_space ws"
proof (induction s arbitrary: c)
  case Nil
  then show ?case by simp
next
  case (Cons x xs)
  show ?case
  proof (cases "ws_fence (x # xs)")
    case True
    with Cons.prems have "c = []" by simp
    with True show ?thesis by (simp add: ws_fence_iff)
  next
    case False
    with Cons.prems obtain c' where c': "lazy_capture xs = Some c'" and c: "c = x # c'"
      by auto
    from Cons.IH [OF c'] c show ?thesis by auto
  qed
qed

text \<open>It stops at the first place where it can: no shorter capture is followed by a fence.\<close>

lemma lazy_capture_shortest:
  "lazy_capture s = Some c \<Longrightarrow> n < length c \<Longrightarrow> \<not> ws_fence (drop n s)"
proof (induction s arbitrary: c n)
  case Nil
  then show ?case by simp
next
  case (Cons x xs)
  from Cons.prems(2) have "c \<noteq> []" by auto
  with Cons.prems(1) have nf: "\<not> ws_fence (x # xs)"
    by (auto split: if_splits)
  with Cons.prems(1) obtain c' where c': "lazy_capture xs = Some c'" and c: "c = x # c'"
    by auto
  show ?case
  proof (cases n)
    case 0
    with nf show ?thesis by simp
  next
    case (Suc k)
    with Cons.prems(2) c have "k < length c'" by simp
    from Cons.IH [OF c' this] Suc show ?thesis by simp
  qed
qed

lemma lazy_capture_fence: "lazy_capture (a @ ''```'' @ b) \<noteq> None"
proof (induction a)
  case Nil
  have "ws_fence (''```'' @ b)" by (simp add: ws_fence_def not_space_backquote)
  then show ?case by simp
next
  case (Cons x a)
  then show ?case by simp
qed

text \<open>It fails exactly on a text without a fence.\<close>

lemma lazy_capture_None: "lazy_capture s = None \<longleftrightarrow> \<not> sublist ''```'' s"
proof
  assume none: "lazy_capture s = None"
  show "\<not> sublist ''```'' s"
  proof
    assume "sublist ''```'' s"
    then obtain a b where "s = a @ ''```'' @ b"
      unfolding sublist_def by blast
    with lazy_capture_fence [of a b] none show False by simp
  qed
next
  assume n: "\<not> sublist ''```'' s"
  show "lazy_capture s = None"
  proof (rule ccontr)
    assume "lazy_capture s \<noteq> None"
    then obtain c where "lazy_capture s = Some c" by blast
    from lazy_capture_Some [OF this] obtain ws rest where "s = (c @ ws) @ ''```'' @ rest"
      by auto
    then have "sublist ''```'' s" unfolding sublist_def by blast
    with n show False by simp
  qed
qed

lemma sublist_fence_spaces:
  "list_all is_space ws \<Longrightarrow> sublist ''```'' (ws @ d) \<longleftrightarrow> sublist ''```'' d"
proof (induction ws)
  case Nil
  then show ?case by simp
next
  case (Cons x ws)
  then have sp: "is_space x" and rest: "list_all is_space ws" by simp_all
  have "sublist ''```'' (x # ws @ d) \<longleftrightarrow> sublist ''```'' (ws @ d)"
  proof
    assume "sublist ''```'' (x # ws @ d)"
    then obtain a b where ab: "x # ws @ d = a @ ''```'' @ b"
      unfolding sublist_def by blast
    show "sublist ''```'' (ws @ d)"
    proof (cases a)
      case Nil
      with ab sp show ?thesis by (simp add: not_space_backquote)
    next
      case (Cons y a')
      with ab have "ws @ d = a' @ ''```'' @ b" by simp
      then show ?thesis unfolding sublist_def by blast
    qed
  next
    assume "sublist ''```'' (ws @ d)"
    then show "sublist ''```'' (x # ws @ d)"
      by (simp add: sublist_Cons_right)
  qed
  with Cons.IH [OF rest] show ?case by simp
qed

text \<open>Giving white space back to the capture group never turns a failure into a match.\<close>

lemma lazy_capture_spaces:
  "lazy_capture (dropWhile is_space r) = None \<longleftrightarrow> lazy_capture r = None"
  using sublist_fence_spaces [OF all_space_takeWhile, of r "dropWhile is_space r"]
  by (simp add: lazy_capture_None)

lemma opened_capture:
  assumes "prefix opening s"
    and "lazy_capture (dropWhile is_space (drop (length opening) s)) = Some c"
  shows "\<exists>ws1 ws2 post. s = opening @ ws1 @ c @ ws2 @ ''```'' @ post
           \<and> list_all is_space ws1 \<and> list_all is_space ws2"
proof -
  let ?r = "drop (length opening) s"
  from assms(1) have s: "s = opening @ ?r"
    by (auto simp add: prefix_def)
  from lazy_capture_Some [OF assms(2)] obtain ws2 post where
    d: "dropWhile is_space ?r = c @ ws2 @ ''```'' @ post" and ws2: "list_all is_space ws2"
    by blast
  have "?r = takeWhile is_space ?r @ dropWhile is_space ?r" by simp
  with d have "?r = takeWhile is_space ?r @ c @ ws2 @ ''```'' @ post" by simp
  with s have "s = opening @ takeWhile is_space ?r @ c @ ws2 @ ''```'' @ post" by metis
  with ws2 all_space_takeWhile show ?thesis by blast
qed

lemma opened_no_capture:
  assumes "lazy_capture (dropWhile is_space r) = None"
  shows "\<not> sublist ''```'' r"
proof -
  from assms have "lazy_capture r = None"
    using lazy_capture_spaces by blast
  then show ?thesis
    by (simp add: lazy_capture_None)
qed

text \<open>
  A match of an opened expression: the opening, white space, the capture, white space and
  a fence, in this order, somewhere in the text.
\<close>

lemma match_opened_Some:
  "match_opened opening s = Some c \<Longrightarrow>
     \<exists>pre ws1 ws2 post. s = pre @ opening @ ws1 @ c @ ws2 @ ''```'' @ post
        \<and> list_all is_space ws1 \<and> list_all is_space ws2"
proof (induction s)
  case Nil
  then show ?case by simp
next
  case (Cons x xs)
  show ?case
  proof (cases "prefix opening (x # xs)
                  \<and> lazy_capture (dropWhile is_space (drop (length opening) (x # xs))) \<noteq> None")
    case True
    with Cons.prems
    have cap: "lazy_capture (dropWhile is_space (drop (length opening) (x # xs))) = Some c"
      by (auto split: option.splits)
    from True have pfx: "prefix opening (x # xs)" by (rule conjunct1)
    from opened_capture [OF pfx cap] obtain ws1 ws2 post where
      "x # xs = [] @ opening @ ws1 @ c @ ws2 @ ''```'' @ post
         \<and> list_all is_space ws1 \<and> list_all is_space ws2"
      by auto
    then show ?thesis by blast
  next
    case False
    with Cons.prems have "match_opened opening xs = Some c"
      by (auto split: if_splits option.splits)
    from Cons.IH [OF this] obtain pre ws1 ws2 post where
      "xs = pre @ opening @ ws1 @ c @ ws2 @ ''```'' @ post"
      and "list_all is_space ws1" and "list_all is_space ws2"
      by blast
    then have "x # xs = (x # pre) @ opening @ ws1 @ c @ ws2 @ ''```'' @ post
        \<and> list_all is_space ws1 \<and> list_all is_space ws2"
      by simp
    then show ?thesis by blast
  qed
qed

text \<open>It fails only on a text without the opening followed, anywhere later, by a fence.\<close>

lemma match_opened_None:
  "match_opened opening s = None \<Longrightarrow> opening \<noteq> [] \<Longrightarrow>
     s \<noteq> pre @ opening @ mid @ ''```'' @ post"
proof (induction s arbitrary: pre)
  case Nil
  then show ?case by simp
next
  case (Cons x xs)
  show ?case
  proof (cases pre)
    case Nil
    show ?thesis
    proof
      assume eq: "x # xs = pre @ opening @ mid @ ''```'' @ post"
      with Nil have p: "prefix opening (x # xs)"
        and d: "drop (length opening) (x # xs) = mid @ ''```'' @ post"
        by simp_all
      with Cons.prems
      have "lazy_capture (dropWhile is_space (drop (length opening) (x # xs))) = None"
        by (auto split: option.splits)
      from opened_no_capture [OF this] have n: "\<not> sublist ''```'' (mid @ ''```'' @ post)"
        unfolding d .
      have "sublist ''```'' (mid @ ''```'' @ post)"
        by (rule sublist_appendI)
      with n show False by (rule notE)
    qed
  next
    case (Cons y pre')
    from Cons.prems have "match_opened opening xs = None"
      by (auto split: if_splits option.splits)
    from Cons.IH [OF this Cons.prems(2), of pre'] Cons show ?thesis by simp
  qed
qed

text \<open>It is the leftmost match: no earlier position has the opening and a fence after it.\<close>

lemma match_opened_leftmost:
  "match_opened opening s = Some c \<Longrightarrow>
     \<exists>pre rest. s = pre @ rest \<and> prefix opening rest
        \<and> lazy_capture (dropWhile is_space (drop (length opening) rest)) = Some c
        \<and> (\<forall>i<length pre. \<not> (prefix opening (drop i s)
                \<and> sublist ''```'' (drop (length opening) (drop i s))))"
proof (induction s)
  case Nil
  then show ?case by simp
next
  case (Cons x xs)
  show ?case
  proof (cases "prefix opening (x # xs)
                  \<and> lazy_capture (dropWhile is_space (drop (length opening) (x # xs))) \<noteq> None")
    case True
    with Cons.prems
    have "lazy_capture (dropWhile is_space (drop (length opening) (x # xs))) = Some c"
      by (auto split: option.splits)
    with True have "x # xs = [] @ (x # xs) \<and> prefix opening (x # xs)
        \<and> lazy_capture (dropWhile is_space (drop (length opening) (x # xs))) = Some c
        \<and> (\<forall>i<length ([]::string). \<not> (prefix opening (drop i (x # xs))
                \<and> sublist ''```'' (drop (length opening) (drop i (x # xs)))))"
      by simp
    then show ?thesis by blast
  next
    case False
    then have here: "\<not> (prefix opening (x # xs)
                \<and> sublist ''```'' (drop (length opening) (x # xs)))"
      using opened_no_capture by blast
    from False Cons.prems have "match_opened opening xs = Some c"
      by (auto split: if_splits option.splits)
    from Cons.IH [OF this] obtain pre rest where
      xs: "xs = pre @ rest" and p: "prefix opening rest"
      and cap: "lazy_capture (dropWhile is_space (drop (length opening) rest)) = Some c"
      and first: "\<forall>i<length pre. \<not> (prefix opening (drop i xs)
                \<and> sublist ''```'' (drop (length opening) (drop i xs)))"
      by blast
    have "\<forall>i<length (x # pre). \<not> (prefix opening (drop i (x # xs))
                \<and> sublist ''```'' (drop (length opening) (drop i (x # xs))))"
    proof (intro allI impI)
      fix i assume i: "i < length (x # pre)"
      show "\<not> (prefix opening (drop i (x # xs))
                \<and> sublist ''```'' (drop (length opening) (drop i (x # xs))))"
      proof (cases i)
        case 0
        with here show ?thesis by simp
      next
        case (Suc j)
        with i first show ?thesis by simp
      qed
    qed
    with xs p cap have "x # xs = (x # pre) @ rest \<and> prefix opening rest
        \<and> lazy_capture (dropWhile is_space (drop (length opening) rest)) = Some c
        \<and> (\<forall>i<length (x # pre). \<not> (prefix opening (drop i (x # xs))
                \<and> sublist ''```'' (drop (length opening) (drop i (x # xs)))))"
      by simp
    then show ?thesis by blast
  qed
qed

text \<open>The brace expression: from the first opening brace to the last closing brace.\<close>

lemma greedy_to_brace_Some:
  assumes "greedy_to_brace cs = Some b"
  shows "\<exists>post. cs = b @ post \<and> b \<noteq> [] \<and> last b = CHR ''}'' \<and> CHR ''}'' \<notin> set post"
proof -
  let ?r = "dropWhile (\<lambda>c. c \<noteq> CHR ''}'') (rev cs)"
  let ?p = "takeWhile (\<lambda>c. c \<noteq> CHR ''}'') (rev cs)"
  from assms have r: "?r \<noteq> []" and b: "b = rev ?r"
    by (auto simp add: greedy_to_brace_def Let_def split: if_splits)
  have "cs = rev (rev cs)" by simp
  also have "\<dots> = rev (?p @ ?r)" by (simp only: takeWhile_dropWhile_id)
  also have "\<dots> = rev ?r @ rev ?p" by (rule rev_append)
  finally have cs: "cs = b @ rev ?p" unfolding b .
  from r have "hd ?r = CHR ''}''" using hd_dropWhile [of "\<lambda>c. c \<noteq> CHR ''}''" "rev cs"] by simp
  with r b have "last b = CHR ''}''" by (simp add: last_rev)
  moreover have "CHR ''}'' \<notin> set (rev ?p)"
    using set_takeWhileD [of "CHR ''}''" "\<lambda>c. c \<noteq> CHR ''}''" "rev cs"] by auto
  ultimately show ?thesis using cs r b by blast
qed

lemma greedy_to_brace_None: "greedy_to_brace cs = None \<longleftrightarrow> CHR ''}'' \<notin> set cs"
proof -
  have "dropWhile (\<lambda>c. c \<noteq> CHR ''}'') (rev cs) = [] \<longleftrightarrow> CHR ''}'' \<notin> set cs"
    by auto
  then show ?thesis
    by (simp add: greedy_to_brace_def Let_def)
qed

lemma match_braces_no_close: "CHR ''}'' \<notin> set s \<Longrightarrow> match_braces s = None"
  by (induction s) (simp_all add: greedy_to_brace_None [THEN iffD2])

lemma match_braces_Some:
  "match_braces s = Some c \<Longrightarrow>
     \<exists>pre body post. s = pre @ c @ post \<and> c = CHR ''{'' # body \<and> body \<noteq> []
        \<and> last body = CHR ''}'' \<and> CHR ''{'' \<notin> set pre \<and> CHR ''}'' \<notin> set post"
proof (induction s)
  case Nil
  then show ?case by simp
next
  case (Cons x xs)
  show ?case
  proof (cases "x = CHR ''{''")
    case True
    show ?thesis
    proof (cases "greedy_to_brace xs")
      case None
      then have "match_braces xs = None"
        by (simp add: greedy_to_brace_None match_braces_no_close)
      with None True Cons.prems show ?thesis by simp
    next
      case (Some body)
      with True Cons.prems have c: "c = CHR ''{'' # body" by simp
      from greedy_to_brace_Some [OF Some] obtain post where
        "xs = body @ post" and "body \<noteq> []" and "last body = CHR ''}''"
        and "CHR ''}'' \<notin> set post"
        by blast
      with True c have "x # xs = [] @ c @ post \<and> c = CHR ''{'' # body \<and> body \<noteq> []
        \<and> last body = CHR ''}'' \<and> CHR ''{'' \<notin> set ([]::string) \<and> CHR ''}'' \<notin> set post"
        by simp
      then show ?thesis by blast
    qed
  next
    case False
    with Cons.prems have "match_braces xs = Some c" by simp
    from Cons.IH [OF this] obtain pre body post where
      "xs = pre @ c @ post" and "c = CHR ''{'' # body" and "body \<noteq> []"
      and "last body = CHR ''}''" and "CHR ''{'' \<notin> set pre" and "CHR ''}'' \<notin> set post"
      by blast
    with False have "x # xs = (x # pre) @ c @ post \<and> c = CHR ''{'' # body \<and> body \<noteq> []
        \<and> last body = CHR ''}'' \<and> CHR ''{'' \<notin> set (x # pre) \<and> CHR ''}'' \<notin> set post"
      by auto
    then show ?thesis by blast
  qed
qed

lemma match_braces_None:
  "match_braces s = None \<Longrightarrow> s \<noteq> pre @ ''{'' @ mid @ ''}'' @ post"
proof (induction s arbitrary: pre)
  case Nil
  then show ?case by simp
next
  case (Cons x xs)
  show ?case
  proof (cases pre)
    case Nil
    show ?thesis
    proof
      assume "x # xs = pre @ ''{'' @ mid @ ''}'' @ post"
      with Nil have x: "x = CHR ''{''" and xs: "xs = mid @ ''}'' @ post" by simp_all
      from xs have "greedy_to_brace xs \<noteq> None"
        by (simp add: greedy_to_brace_None)
      with x Cons.prems show False by (auto split: option.splits)
    qed
  next
    case (Cons y pre')
    from Cons.prems have "match_braces xs = None"
      by (auto split: if_splits option.splits)
    from Cons.IH [OF this, of pre'] Cons show ?thesis by simp
  qed
qed

subsection \<open>The response parser\<close>

lemma jsonMatch_cases:
  "jsonMatch s =
     (case match_json_fence s of
        Some c \<Rightarrow> Some c
      | None \<Rightarrow> (case match_fence s of Some c \<Rightarrow> Some c | None \<Rightarrow> match_braces s))"
  by (simp add: jsonMatch_def split: option.splits)

text \<open>
  The match of an opened expression in full: it is the leftmost position that has the
  opening and a fence somewhere after it; the greedy \<^verbatim>\<open>\s*\<close> after the opening leaves no
  white space at the head of the capture; and the capture is the shortest one that white
  space and a fence follow.
\<close>

lemma match_opened_first:
  assumes "match_opened opening s = Some c"
  shows "\<exists>pre ws1 ws2 post. s = pre @ opening @ ws1 @ c @ ws2 @ ''```'' @ post
        \<and> list_all is_space ws1 \<and> list_all is_space ws2
        \<and> (c \<noteq> [] \<longrightarrow> \<not> is_space (hd c))
        \<and> (\<forall>n<length c. \<not> ws_fence (drop n (c @ ws2 @ ''```'' @ post)))
        \<and> (\<forall>i<length pre. \<not> (prefix opening (drop i s)
                \<and> sublist ''```'' (drop (length opening) (drop i s))))"
proof -
  from match_opened_leftmost [OF assms] obtain pre rest where
    s: "s = pre @ rest" and p: "prefix opening rest"
    and cap: "lazy_capture (dropWhile is_space (drop (length opening) rest)) = Some c"
    and first: "\<forall>i<length pre. \<not> (prefix opening (drop i s)
                \<and> sublist ''```'' (drop (length opening) (drop i s)))"
    by blast
  let ?r = "drop (length opening) rest"
  let ?d = "dropWhile is_space ?r"
  from p have rest: "rest = opening @ ?r"
    by (metis append_eq_conv_conj prefix_def)
  from lazy_capture_Some [OF cap] obtain ws2 post where
    d: "?d = c @ ws2 @ ''```'' @ post" and ws2: "list_all is_space ws2"
    by blast
  have "?r = takeWhile is_space ?r @ ?d" by simp
  with d have r: "?r = takeWhile is_space ?r @ c @ ws2 @ ''```'' @ post" by simp
  from rest r have "rest = opening @ takeWhile is_space ?r @ c @ ws2 @ ''```'' @ post"
    by metis
  with s have whole: "s = pre @ opening @ takeWhile is_space ?r @ c @ ws2 @ ''```'' @ post"
    by simp
  have head: "c \<noteq> [] \<longrightarrow> \<not> is_space (hd c)"
  proof
    assume ne: "c \<noteq> []"
    with d have "?d \<noteq> []" by auto
    then have "\<not> is_space (hd ?d)" by (rule hd_dropWhile)
    moreover from ne d have "hd ?d = hd c" by (metis hd_append2)
    ultimately show "\<not> is_space (hd c)" by simp
  qed
  have shortest: "\<forall>n<length c. \<not> ws_fence (drop n (c @ ws2 @ ''```'' @ post))"
    using lazy_capture_shortest [OF cap] unfolding d by blast
  from whole all_space_takeWhile ws2 head shortest first show ?thesis by blast
qed

lemma parse_extracted_value:
  "parse_extracted e resultText (Some c) =
     (if c \<noteq> [] then
        (case JSON_parse e (trim c) of Some v \<Rightarrow> v | None \<Rightarrow> sentinel_raw resultText)
      else sentinel_none)"
  by (simp add: parse_extracted_def)

text \<open>
  Claim C3, as the specification states it: the parser tries (a) the whole text, (b) the
  first fenced block labelled \<^verbatim>\<open>json\<close>, (c) the first unlabeled fenced block, (d) the first
  brace-delimited substring, and returns the parse of the first extraction found. The code
  does otherwise in step (c): its second expression matches the first fence whatever its
  label, and takes the label into the extraction. On the text
  \<^verbatim>\<open>```JSON\<close>, line break, \<^verbatim>\<open>{"needsMCP":true,"reasoning":"r"}\<close>, line break, \<^verbatim>\<open>```\<close>,
  which has no block labelled \<^verbatim>\<open>json\<close> and no unlabeled block, the steps of the
  specification come to (d) and return the object in the braces (as step (b) would,
  were the label \<^verbatim>\<open>JSON\<close> taken to mark structured data); the code extracts \<^verbatim>\<open>JSON\<close>,
  line break and the object in step (c), which is not JSON, and returns the sentinel
  without trying the braces.
\<close>

theorem parse_response_labelled_fence:
  "spec_parse (demo_env (FetchOk (Some text_labelled))) text_labelled
     = JObj [(''needsMCP'', JBool True), (''reasoning'', JStr ''r'')]
   \<and> parse_response (demo_env (FetchOk (Some text_labelled))) text_labelled
     = JObj [(''needsMCP'', JBool False),
             (''reasoning'',
              JStr (''Fallback due to JSON parsing error. Raw response: '' @ text_labelled))]"
proof -
  let ?e = "demo_env (FetchOk (Some text_labelled))"
  define cap where "cap = ''JSON\<newline>'' @ text_unnamed"
  have n: "JSON_parse ?e text_labelled = None"
    by (simp add: demo_env_def demo_parse_def text_labelled_def text_unnamed_def text_bogus_def)
  have j: "match_json_fence text_labelled = None"
    by (simp add: text_labelled_def text_unnamed_def match_json_fence_def)
  have f: "match_fence text_labelled = Some cap"
    by (simp add: cap_def text_labelled_def text_unnamed_def match_fence_def ws_fence_def
          is_space_def)
  have b: "match_braces text_labelled = Some text_unnamed"
    by (simp add: text_labelled_def text_unnamed_def greedy_to_brace_def)
  have u: "spec_unlabeled_fence text_labelled = None"
    by (simp add: text_labelled_def text_unnamed_def spec_unlabeled_fence_def spec_unlabeled_def
          is_space_def)
  have t: "trim text_unnamed = text_unnamed"
    by (simp add: trim_def text_unnamed_def is_space_def)
  have t': "trim cap = cap"
    by (simp add: cap_def trim_def text_unnamed_def is_space_def)
  have ne: "cap \<noteq> []"
    by (simp add: cap_def)
  have p: "JSON_parse ?e text_unnamed = Some decision_unnamed"
    by (simp add: demo_env_def demo_parse_def text_unnamed_def text_bogus_def)
  have p': "JSON_parse ?e cap = None"
    by (simp add: cap_def demo_env_def demo_parse_def text_unnamed_def text_bogus_def)
  have l: "take 100 text_labelled = text_labelled"
    by (simp add: text_labelled_def text_unnamed_def)
  have "spec_parse ?e text_labelled = decision_unnamed"
    by (simp add: spec_parse_def spec_jsonMatch_def n j u b parse_extracted_value t p)
       (simp add: text_unnamed_def)
  moreover have "parse_response ?e text_labelled = sentinel_raw text_labelled"
    by (simp add: parse_response_def jsonMatch_def n j f parse_extracted_value t' p' ne)
  ultimately show ?thesis
    by (simp add: decision_unnamed_def sentinel_raw_def l)
qed

text \<open>
  Claim C3, amended: the parser returns \<^verbatim>\<open>JSON.parse\<close> of the whole text when that
  succeeds. Otherwise it searches the text with three expressions in turn and takes the
  extraction of the first expression that matches:
  \<^item> (b) the leftmost \<^verbatim>\<open>```json\<close> that a fence follows somewhere; the extraction begins
    after the white space behind \<^verbatim>\<open>```json\<close> and is the shortest text that white space
    and a fence follow;
  \<^item> (c) when the text has no \<^verbatim>\<open>```json\<close> with a fence after it: the same for the leftmost
    fence \<^verbatim>\<open>```\<close>, whatever follows it, so that a label of the block is part of the
    extraction;
  \<^item> (d) when the text has no two fences: from the first opening brace to the last closing
    brace.

  The search ends with the first expression that matches. Its extraction, when it is not
  empty, is trimmed and parsed, and the parsed value returned; when it is empty or not
  JSON the result is a sentinel, and no later expression is tried. When no expression
  matches the result is the sentinel for no pattern. (What the sentinels are belongs to
  claim C4.)
\<close>

theorem parse_response_order:
  "(JSON_parse e resultText = Some v \<longrightarrow> parse_response e resultText = v)
   \<and> (JSON_parse e resultText = None \<and> match_json_fence resultText = Some c \<longrightarrow>
        parse_response e resultText = parse_extracted e resultText (Some c)
        \<and> (\<exists>pre ws1 ws2 post.
              resultText = pre @ ''```json'' @ ws1 @ c @ ws2 @ ''```'' @ post
              \<and> list_all is_space ws1 \<and> list_all is_space ws2
              \<and> (c \<noteq> [] \<longrightarrow> \<not> is_space (hd c))
              \<and> (\<forall>n<length c. \<not> ws_fence (drop n (c @ ws2 @ ''```'' @ post)))
              \<and> (\<forall>i<length pre.
                    \<not> (prefix ''```json'' (drop i resultText)
                       \<and> sublist ''```'' (drop (length ''```json'') (drop i resultText))))))
   \<and> (JSON_parse e resultText = None \<and> match_json_fence resultText = None
        \<and> match_fence resultText = Some c \<longrightarrow>
        parse_response e resultText = parse_extracted e resultText (Some c)
        \<and> (\<forall>pre mid post. resultText \<noteq> pre @ ''```json'' @ mid @ ''```'' @ post)
        \<and> (\<exists>pre ws1 ws2 post.
              resultText = pre @ ''```'' @ ws1 @ c @ ws2 @ ''```'' @ post
              \<and> list_all is_space ws1 \<and> list_all is_space ws2
              \<and> (c \<noteq> [] \<longrightarrow> \<not> is_space (hd c))
              \<and> (\<forall>n<length c. \<not> ws_fence (drop n (c @ ws2 @ ''```'' @ post)))
              \<and> (\<forall>i<length pre.
                    \<not> (prefix ''```'' (drop i resultText)
                       \<and> sublist ''```'' (drop (length ''```'') (drop i resultText))))))
   \<and> (JSON_parse e resultText = None \<and> match_json_fence resultText = None
        \<and> match_fence resultText = None \<and> match_braces resultText = Some c \<longrightarrow>
        parse_response e resultText = parse_extracted e resultText (Some c)
        \<and> (\<forall>pre mid post. resultText \<noteq> pre @ ''```'' @ mid @ ''```'' @ post)
        \<and> (\<exists>pre body post.
              resultText = pre @ c @ post \<and> c = CHR ''{'' # body \<and> body \<noteq> []
              \<and> last body = CHR ''}'' \<and> CHR ''{'' \<notin> set pre \<and> CHR ''}'' \<notin> set post))
   \<and> (JSON_parse e resultText = None \<and> match_json_fence resultText = None
        \<and> match_fence resultText = None \<and> match_braces resultText = None \<longrightarrow>
        parse_response e resultText = sentinel_none
        \<and> (\<forall>pre mid post. resultText \<noteq> pre @ ''```'' @ mid @ ''```'' @ post)
        \<and> (\<forall>pre mid post. resultText \<noteq> pre @ ''{'' @ mid @ ''}'' @ post))
   \<and> parse_extracted e resultText (Some c) =
        (if c \<noteq> [] then
           (case JSON_parse e (trim c) of Some v \<Rightarrow> v | None \<Rightarrow> sentinel_raw resultText)
         else sentinel_none)"
proof -
  have a: "JSON_parse e resultText = Some v \<longrightarrow> parse_response e resultText = v"
    by (simp add: parse_response_def)
  have b: "JSON_parse e resultText = None \<and> match_json_fence resultText = Some c \<longrightarrow>
        parse_response e resultText = parse_extracted e resultText (Some c)"
    by (simp add: parse_response_def jsonMatch_cases)
  have b': "match_json_fence resultText = Some c \<longrightarrow>
        (\<exists>pre ws1 ws2 post.
              resultText = pre @ ''```json'' @ ws1 @ c @ ws2 @ ''```'' @ post
              \<and> list_all is_space ws1 \<and> list_all is_space ws2
              \<and> (c \<noteq> [] \<longrightarrow> \<not> is_space (hd c))
              \<and> (\<forall>n<length c. \<not> ws_fence (drop n (c @ ws2 @ ''```'' @ post)))
              \<and> (\<forall>i<length pre.
                    \<not> (prefix ''```json'' (drop i resultText)
                       \<and> sublist ''```'' (drop (length ''```json'') (drop i resultText)))))"
    unfolding match_json_fence_def using match_opened_first [of "''```json''" resultText c]
    by blast
  have c: "JSON_parse e resultText = None \<and> match_json_fence resultText = None
        \<and> match_fence resultText = Some c \<longrightarrow>
        parse_response e resultText = parse_extracted e resultText (Some c)"
    by (simp add: parse_response_def jsonMatch_cases)
  have c': "match_fence resultText = Some c \<longrightarrow>
        (\<exists>pre ws1 ws2 post.
              resultText = pre @ ''```'' @ ws1 @ c @ ws2 @ ''```'' @ post
              \<and> list_all is_space ws1 \<and> list_all is_space ws2
              \<and> (c \<noteq> [] \<longrightarrow> \<not> is_space (hd c))
              \<and> (\<forall>n<length c. \<not> ws_fence (drop n (c @ ws2 @ ''```'' @ post)))
              \<and> (\<forall>i<length pre.
                    \<not> (prefix ''```'' (drop i resultText)
                       \<and> sublist ''```'' (drop (length ''```'') (drop i resultText)))))"
    unfolding match_fence_def using match_opened_first [of "''```''" resultText c]
    by blast
  have nj: "match_json_fence resultText = None \<longrightarrow>
        (\<forall>pre mid post. resultText \<noteq> pre @ ''```json'' @ mid @ ''```'' @ post)"
  proof (intro impI allI)
    fix pre mid post
    assume "match_json_fence resultText = None"
    then have "match_opened ''```json'' resultText = None"
      by (simp only: match_json_fence_def)
    then show "resultText \<noteq> pre @ ''```json'' @ mid @ ''```'' @ post"
      by (rule match_opened_None) simp
  qed
  have nf: "match_fence resultText = None \<longrightarrow>
        (\<forall>pre mid post. resultText \<noteq> pre @ ''```'' @ mid @ ''```'' @ post)"
  proof (intro impI allI)
    fix pre mid post
    assume "match_fence resultText = None"
    then have "match_opened ''```'' resultText = None"
      by (simp only: match_fence_def)
    then show "resultText \<noteq> pre @ ''```'' @ mid @ ''```'' @ post"
      by (rule match_opened_None) simp
  qed
  have d: "JSON_parse e resultText = None \<and> match_json_fence resultText = None
        \<and> match_fence resultText = None \<and> match_braces resultText = Some c \<longrightarrow>
        parse_response e resultText = parse_extracted e resultText (Some c)"
    by (simp add: parse_response_def jsonMatch_cases)
  have d': "match_braces resultText = Some c \<longrightarrow>
        (\<exists>pre body post.
              resultText = pre @ c @ post \<and> c = CHR ''{'' # body \<and> body \<noteq> []
              \<and> last body = CHR ''}'' \<and> CHR ''{'' \<notin> set pre \<and> CHR ''}'' \<notin> set post)"
    using match_braces_Some by blast
  have nb: "match_braces resultText = None \<longrightarrow>
        (\<forall>pre mid post. resultText \<noteq> pre @ ''{'' @ mid @ ''}'' @ post)"
    using match_braces_None by blast
  have f: "JSON_parse e resultText = None \<and> match_json_fence resultText = None
        \<and> match_fence resultText = None \<and> match_braces resultText = None \<longrightarrow>
        parse_response e resultText = sentinel_none"
    by (simp add: parse_response_def jsonMatch_cases parse_extracted_def)
  have g: "parse_extracted e resultText (Some c) =
        (if c \<noteq> [] then
           (case JSON_parse e (trim c) of Some v \<Rightarrow> v | None \<Rightarrow> sentinel_raw resultText)
         else sentinel_none)"
    by (rule parse_extracted_value)
  from b b' have B: "JSON_parse e resultText = None \<and> match_json_fence resultText = Some c \<longrightarrow>
        parse_response e resultText = parse_extracted e resultText (Some c)
        \<and> (\<exists>pre ws1 ws2 post.
              resultText = pre @ ''```json'' @ ws1 @ c @ ws2 @ ''```'' @ post
              \<and> list_all is_space ws1 \<and> list_all is_space ws2
              \<and> (c \<noteq> [] \<longrightarrow> \<not> is_space (hd c))
              \<and> (\<forall>n<length c. \<not> ws_fence (drop n (c @ ws2 @ ''```'' @ post)))
              \<and> (\<forall>i<length pre.
                    \<not> (prefix ''```json'' (drop i resultText)
                       \<and> sublist ''```'' (drop (length ''```json'') (drop i resultText)))))"
    by (intro impI conjI) (erule conjE, simp)+
  from c c' nj have C: "JSON_parse e resultText = None \<and> match_json_fence resultText = None
        \<and> match_fence resultText = Some c \<longrightarrow>
        parse_response e resultText = parse_extracted e resultText (Some c)
        \<and> (\<forall>pre mid post. resultText \<noteq> pre @ ''```json'' @ mid @ ''```'' @ post)
        \<and> (\<exists>pre ws1 ws2 post.
              resultText = pre @ ''```'' @ ws1 @ c @ ws2 @ ''```'' @ post
              \<and> list_all is_space ws1 \<and> list_all is_space ws2
              \<and> (c \<noteq> [] \<longrightarrow> \<not> is_space (hd c))
              \<and> (\<forall>n<length c. \<not> ws_fence (drop n (c @ ws2 @ ''```'' @ post)))
              \<and> (\<forall>i<length pre.
                    \<not> (prefix ''```'' (drop i resultText)
                       \<and> sublist ''```'' (drop (length ''```'') (drop i resultText)))))"
    by (intro impI conjI) (elim conjE, simp)+
  from d d' nf have D: "JSON_parse e resultText = None \<and> match_json_fence resultText = None
        \<and> match_fence resultText = None \<and> match_braces resultText = Some c \<longrightarrow>
        parse_response e resultText = parse_extracted e resultText (Some c)
        \<and> (\<forall>pre mid post. resultText \<noteq> pre @ ''```'' @ mid @ ''```'' @ post)
        \<and> (\<exists>pre body post.
              resultText = pre @ c @ post \<and> c = CHR ''{'' # body \<and> body \<noteq> []
              \<and> last body = CHR ''}'' \<and> CHR ''{'' \<notin> set pre \<and> CHR ''}'' \<notin> set post)"
    by (intro impI conjI) (elim conjE, simp)+
  from f nf nb have E: "JSON_parse e resultText = None \<and> match_json_fence resultText = None
        \<and> match_fence resultText = None \<and> match_braces resultText = None \<longrightarrow>
        parse_response e resultText = sentinel_none
        \<and> (\<forall>pre mid post. resultText \<noteq> pre @ ''```'' @ mid @ ''```'' @ post)
        \<and> (\<forall>pre mid post. resultText \<noteq> pre @ ''{'' @ mid @ ''}'' @ post)"
    by (intro impI conjI) (elim conjE, simp)+
  from a B C D E g show ?thesis by (intro conjI)
qed

lemma trim_text_unnamed: "trim text_unnamed = text_unnamed"
  by (simp add: trim_def text_unnamed_def is_space_def)

lemma demo_parse_trim_unnamed:
  "JSON_parse (demo_env reply) (trim text_unnamed) = Some decision_unnamed"
proof -
  have "JSON_parse (demo_env reply) text_unnamed = Some decision_unnamed"
    by (simp add: demo_env_def demo_parse_def text_unnamed_def text_bogus_def)
  then show ?thesis by (simp only: trim_text_unnamed)
qed

lemma demo_parse_wrapped:
  "JSON_parse (demo_env reply) text_fenced = None"
  "JSON_parse (demo_env reply) text_plain_fence = None"
  "JSON_parse (demo_env reply) text_prose = None"
  "JSON_parse (demo_env reply) ''maybe'' = None"
  by (simp_all add: demo_env_def demo_parse_def text_fenced_def text_plain_fence_def
        text_prose_def text_unnamed_def text_bogus_def)

lemma demo_matches:
  "match_json_fence text_fenced = Some text_unnamed"
  "match_json_fence text_plain_fence = None"
  "match_fence text_plain_fence = Some text_unnamed"
  "match_json_fence text_prose = None"
  "match_fence text_prose = None"
  "match_braces text_prose = Some text_unnamed"
  "match_json_fence ''maybe'' = None"
  "match_fence ''maybe'' = None"
  "match_braces ''maybe'' = None"
  by (simp_all add: text_fenced_def text_plain_fence_def text_prose_def text_unnamed_def
        match_json_fence_def match_fence_def ws_fence_def is_space_def greedy_to_brace_def)

theorem parse_response_order_witness:
  "parse_response (demo_env (FetchOk (Some text_unnamed))) text_unnamed = decision_unnamed
   \<and> parse_response (demo_env (FetchOk (Some text_fenced))) text_fenced = decision_unnamed
   \<and> parse_response (demo_env (FetchOk (Some text_plain_fence))) text_plain_fence = decision_unnamed
   \<and> parse_response (demo_env (FetchOk (Some text_prose))) text_prose = decision_unnamed
   \<and> parse_response (demo_env (FetchOk (Some ''maybe''))) ''maybe'' = sentinel_none"
proof -
  have q: "text_unnamed \<noteq> []" by (simp add: text_unnamed_def)
  have w: "JSON_parse (demo_env (FetchOk (Some text_unnamed))) text_unnamed = Some decision_unnamed"
    by (simp add: demo_env_def demo_parse_def text_unnamed_def text_bogus_def)
  have x: "parse_extracted (demo_env reply) resultText (Some text_unnamed) = decision_unnamed"
    for reply resultText
    using parse_response_order
            [where e = "demo_env reply" and resultText = resultText and c = text_unnamed,
             THEN conjunct2, THEN conjunct2, THEN conjunct2, THEN conjunct2, THEN conjunct2]
          q
    by (simp add: demo_parse_trim_unnamed)
  from parse_response_order
         [where e = "demo_env (FetchOk (Some text_unnamed))" and resultText = text_unnamed
            and v = decision_unnamed, THEN conjunct1]
       w
  have one: "parse_response (demo_env (FetchOk (Some text_unnamed))) text_unnamed
               = decision_unnamed"
    by simp
  from parse_response_order
         [where e = "demo_env (FetchOk (Some text_fenced))" and resultText = text_fenced
            and c = text_unnamed, THEN conjunct2, THEN conjunct1]
       demo_parse_wrapped(1) demo_matches(1)
  have two: "parse_response (demo_env (FetchOk (Some text_fenced))) text_fenced
               = decision_unnamed"
    by (simp add: x)
  from parse_response_order
         [where e = "demo_env (FetchOk (Some text_plain_fence))" and resultText = text_plain_fence
            and c = text_unnamed, THEN conjunct2, THEN conjunct2, THEN conjunct1]
       demo_parse_wrapped(2) demo_matches(2,3)
  have three: "parse_response (demo_env (FetchOk (Some text_plain_fence))) text_plain_fence
                 = decision_unnamed"
    by (simp add: x)
  from parse_response_order
         [where e = "demo_env (FetchOk (Some text_prose))" and resultText = text_prose
            and c = text_unnamed, THEN conjunct2, THEN conjunct2, THEN conjunct2, THEN conjunct1]
       demo_parse_wrapped(3) demo_matches(4,5,6)
  have four: "parse_response (demo_env (FetchOk (Some text_prose))) text_prose
                = decision_unnamed"
    by (simp add: x)
  from parse_response_order
         [where e = "demo_env (FetchOk (Some ''maybe''))" and resultText = "''maybe''",
          THEN conjunct2, THEN conjunct2, THEN conjunct2, THEN conjunct2, THEN conjunct1]
       demo_parse_wrapped(4) demo_matches(7,8,9)
  have five: "parse_response (demo_env (FetchOk (Some ''maybe''))) ''maybe'' = sentinel_none"
    by simp
  from one two three four five show ?thesis by (intro conjI)
qed

lemma spec_parse_examples:
  "spec_parse (demo_env reply) text_unnamed = decision_unnamed"
  "spec_parse (demo_env reply) text_fenced = decision_unnamed"
  "spec_parse (demo_env reply) text_plain_fence = decision_unnamed"
  "spec_parse (demo_env reply) text_prose = decision_unnamed"
proof -
  have u: "spec_unlabeled_fence text_plain_fence = Some text_unnamed"
    "spec_unlabeled_fence text_prose = None"
    by (simp_all add: spec_unlabeled_fence_def spec_unlabeled_def text_plain_fence_def
          text_prose_def text_unnamed_def is_space_def trim_def)
  have x: "parse_extracted (demo_env reply) resultText (Some text_unnamed) = decision_unnamed"
    for resultText
    by (simp add: parse_extracted_value demo_parse_trim_unnamed) (simp add: text_unnamed_def)
  show "spec_parse (demo_env reply) text_unnamed = decision_unnamed"
    by (simp add: spec_parse_def demo_env_def demo_parse_def text_unnamed_def text_bogus_def)
  show "spec_parse (demo_env reply) text_fenced = decision_unnamed"
    by (simp add: spec_parse_def spec_jsonMatch_def demo_parse_wrapped demo_matches x)
  show "spec_parse (demo_env reply) text_plain_fence = decision_unnamed"
    by (simp add: spec_parse_def spec_jsonMatch_def demo_parse_wrapped demo_matches u x)
  show "spec_parse (demo_env reply) text_prose = decision_unnamed"
    by (simp add: spec_parse_def spec_jsonMatch_def demo_parse_wrapped demo_matches u x)
qed

text \<open>
  Claim C4, as the specification states it: on a malformed text the parser returns a valid
  structured value or a sentinel whose reasoning embeds the first 100 characters of the
  text. The code does otherwise on a text without any pattern: for \<^verbatim>\<open>hello\<close>, which is not
  JSON and has neither fence nor braces, the reasoning of the sentinel is a fixed sentence
  in which the text does not occur.
\<close>

theorem parse_response_no_pattern:
  "JSON_parse (demo_env (FetchOk (Some ''hello''))) ''hello'' = None
   \<and> parse_response (demo_env (FetchOk (Some ''hello''))) ''hello'' =
       JObj [(''needsMCP'', JBool False),
             (''reasoning'', JStr ''Fallback due to JSON parsing error. No JSON pattern found.'')]
   \<and> \<not> sublist ''hello'' ''Fallback due to JSON parsing error. No JSON pattern found.''"
proof -
  have "\<not> sublist ''hello'' ''Fallback due to JSON parsing error. No JSON pattern found.''"
    by (simp add: sublist_Cons_right)
  moreover have "JSON_parse (demo_env (FetchOk (Some ''hello''))) ''hello'' = None"
    by (simp add: demo_env_def demo_parse_def text_unnamed_def text_bogus_def)
  moreover have "parse_response (demo_env (FetchOk (Some ''hello''))) ''hello'' =
       JObj [(''needsMCP'', JBool False),
             (''reasoning'', JStr ''Fallback due to JSON parsing error. No JSON pattern found.'')]"
    by (simp add: parse_response_def parse_extracted_def jsonMatch_def match_json_fence_def
          match_fence_def sentinel_none_def demo_env_def demo_parse_def text_unnamed_def
          text_bogus_def)
  ultimately show ?thesis by blast
qed

text \<open>
  Claim C4, amended: the parser never raises and returns one of four values: the parsed
  whole text; the parsed extraction; when an extraction that is not empty was found and is
  not JSON, the sentinel whose reasoning is \<^verbatim>\<open>Fallback due to JSON parsing error. Raw
  response: \<close> followed by the first 100 characters of the text; and when no pattern was
  found or the extraction is empty, the sentinel with the fixed reasoning
  \<^verbatim>\<open>Fallback due to JSON parsing error. No JSON pattern found.\<close> Both sentinels have
  \<^verbatim>\<open>needsMCP\<close> false.
\<close>

theorem parse_response_cases:
  "(JSON_parse e resultText = Some (parse_response e resultText)
    \<or> (\<exists>c. JSON_parse e resultText = None \<and> jsonMatch resultText = Some c \<and> c \<noteq> []
           \<and> JSON_parse e (trim c) = Some (parse_response e resultText))
    \<or> (\<exists>c. JSON_parse e resultText = None \<and> jsonMatch resultText = Some c \<and> c \<noteq> []
           \<and> JSON_parse e (trim c) = None
           \<and> parse_response e resultText = sentinel_raw resultText)
    \<or> (JSON_parse e resultText = None
         \<and> (jsonMatch resultText = None \<or> jsonMatch resultText = Some [])
         \<and> parse_response e resultText = sentinel_none))
   \<and> get_prop (sentinel_raw resultText) ''needsMCP'' = Some (JBool False)
   \<and> get_prop (sentinel_raw resultText) ''reasoning'' =
       Some (JStr (''Fallback due to JSON parsing error. Raw response: '' @ take 100 resultText))
   \<and> length (take 100 resultText) \<le> 100
   \<and> get_prop sentinel_none ''needsMCP'' = Some (JBool False)
   \<and> get_prop sentinel_none ''reasoning'' =
       Some (JStr ''Fallback due to JSON parsing error. No JSON pattern found.'')"
proof -
  have "JSON_parse e resultText = Some (parse_response e resultText)
    \<or> (\<exists>c. JSON_parse e resultText = None \<and> jsonMatch resultText = Some c \<and> c \<noteq> []
           \<and> JSON_parse e (trim c) = Some (parse_response e resultText))
    \<or> (\<exists>c. JSON_parse e resultText = None \<and> jsonMatch resultText = Some c \<and> c \<noteq> []
           \<and> JSON_parse e (trim c) = None
           \<and> parse_response e resultText = sentinel_raw resultText)
    \<or> (JSON_parse e resultText = None
         \<and> (jsonMatch resultText = None \<or> jsonMatch resultText = Some [])
         \<and> parse_response e resultText = sentinel_none)"
    by (auto simp add: parse_response_def parse_extracted_def split: option.splits)
  then show ?thesis
    by (simp add: sentinel_props)
qed

theorem parse_response_cases_witness:
  "parse_response (demo_env (FetchOk (Some ''Sure: {oops}''))) ''Sure: {oops}'' =
     JObj [(''needsMCP'', JBool False),
           (''reasoning'',
            JStr ''Fallback due to JSON parsing error. Raw response: Sure: {oops}'')]"
proof -
  let ?e = "demo_env (FetchOk (Some ''Sure: {oops}''))"
  have n: "JSON_parse ?e ''Sure: {oops}'' = None"
    by (simp add: demo_env_def demo_parse_def text_unnamed_def text_bogus_def)
  have m: "jsonMatch ''Sure: {oops}'' = Some ''{oops}''"
    by (simp add: jsonMatch_def match_json_fence_def match_fence_def greedy_to_brace_def)
  have p: "JSON_parse ?e (trim ''{oops}'') = None"
    by (simp add: trim_def is_space_def demo_env_def demo_parse_def text_unnamed_def
          text_bogus_def)
  have s: "sentinel_none \<noteq> sentinel_raw ''Sure: {oops}''"
    by (simp add: sentinel_none_def sentinel_raw_def)
  from parse_response_cases [of ?e "''Sure: {oops}''"] n m p s
  have "parse_response ?e ''Sure: {oops}'' = sentinel_raw ''Sure: {oops}''"
    by auto
  then show ?thesis by (simp add: sentinel_raw_def)
qed

end
